theory Spec2Isabelle
  imports Complex_Main
begin

section \<open>Typed errors (src/errors.js)\<close>

datatype ErrorCode =
  ELEMENT_NOT_FOUND | NAVIGATION_TIMEOUT | SCRIPT_ERROR | SECURITY_BLOCKED
  | RATE_LIMIT | BAD_INPUT | INTERNAL

text \<open>
  A value that a JavaScript \<^verbatim>\<open>throw\<close> carries here: an \<^verbatim>\<open>EyesError\<close> (code, message,
  hint), or an error of another class, as the browser engine raises it, of which the code
  only ever reads the message. The fields \<^verbatim>\<open>data\<close> and \<^verbatim>\<open>original\<close> are written by the
  constructor and read nowhere; they are left out.
\<close>

datatype thrown =
  EyesError (code: ErrorCode) (message: string) (hint: "string option")
  | JsError string

text \<open>The constructor stores \<^verbatim>\<open>opts.hint || undefined\<close>: an empty hint is no hint.\<close>

definition newEyesError :: "ErrorCode \<Rightarrow> string \<Rightarrow> string option \<Rightarrow> thrown" where
  "newEyesError c m h = EyesError c m (if h = Some [] then None else h)"

fun toEyesError :: "thrown \<Rightarrow> thrown" where
  "toEyesError (EyesError c m h) = EyesError c m h"
| "toEyesError (JsError m) =
     newEyesError INTERNAL (if m = [] then ''Unexpected error'' else m) None"

section \<open>Navigation guard (src/security.js)\<close>

text \<open>
  \<^verbatim>\<open>new URL(raw)\<close> is the platform's parser; the guard reads three things of its result.
  The parser is a parameter of the model: \<open>None\<close> is the parser's exception.
\<close>

record url =
  protocol :: string
  hostname :: string
  href :: string

text \<open>The regular expressions of \<^verbatim>\<open>PRIVATE_CIDRS\<close>, each as the predicate its \<^verbatim>\<open>test\<close> computes.\<close>

definition startsWith :: "string \<Rightarrow> string \<Rightarrow> bool" where
  "startsWith p s = (take (length p) s = p)"

definition lowerChar :: "char \<Rightarrow> char" where
  "lowerChar c =
     (case map_of (zip ''ABCDEFGHIJKLMNOPQRSTUVWXYZ'' ''abcdefghijklmnopqrstuvwxyz'') c of
        Some d \<Rightarrow> d | None \<Rightarrow> c)"

definition startsWithI :: "string \<Rightarrow> string \<Rightarrow> bool" where
  "startsWithI p s = (map lowerChar (take (length p) s) = map lowerChar p)"

definition re_10 :: "string \<Rightarrow> bool" where
  "re_10 s = startsWith ''10.'' s"

definition re_127 :: "string \<Rightarrow> bool" where
  "re_127 s = startsWith ''127.'' s"

definition re_169_254 :: "string \<Rightarrow> bool" where
  "re_169_254 s = startsWith ''169.254.'' s"

definition re_172 :: "string \<Rightarrow> bool" where
  "re_172 s =
     (startsWith ''172.'' s \<and>
      (case drop 4 s of
         a # b # c # _ \<Rightarrow>
           c = CHR ''.'' \<and>
           ((a = CHR ''1'' \<and> b \<in> set ''6789'') \<or>
            (a = CHR ''2'' \<and> b \<in> set ''0123456789'') \<or>
            (a = CHR ''3'' \<and> b \<in> set ''01''))
       | _ \<Rightarrow> False))"

definition re_192_168 :: "string \<Rightarrow> bool" where
  "re_192_168 s = startsWith ''192.168.'' s"

definition re_loopback6 :: "string \<Rightarrow> bool" where
  "re_loopback6 s = (s = ''::1'' \<or> s = ''[::1'' \<or> s = ''::1]'' \<or> s = ''[::1]'')"

definition re_fe80 :: "string \<Rightarrow> bool" where
  "re_fe80 s = startsWithI ''fe80:'' s"

definition re_fc00 :: "string \<Rightarrow> bool" where
  "re_fc00 s = startsWithI ''fc00:'' s"

definition re_fd00 :: "string \<Rightarrow> bool" where
  "re_fd00 s = startsWithI ''fd00:'' s"

definition re_localhost :: "string \<Rightarrow> bool" where
  "re_localhost s = (map lowerChar s = ''localhost'')"

definition PRIVATE_CIDRS :: "(string \<Rightarrow> bool) list" where
  "PRIVATE_CIDRS =
     [re_10, re_127, re_169_254, re_172, re_192_168,
      re_loopback6, re_fe80, re_fc00, re_fd00, re_localhost]"

text \<open>\<^verbatim>\<open>hostname.replace(/^\[/, '').replace(/\]$/, '')\<close>\<close>

definition stripBrackets :: "string \<Rightarrow> string" where
  "stripBrackets h =
     (let h1 = (case h of c # r \<Rightarrow> if c = CHR ''['' then r else h | [] \<Rightarrow> h)
      in if h1 \<noteq> [] \<and> last h1 = CHR '']'' then butlast h1 else h1)"

definition isPrivateHostname :: "string \<Rightarrow> bool" where
  "isPrivateHostname h = list_ex (\<lambda>re. re (stripBrackets h)) PRIVATE_CIDRS"

text \<open>
  The options of the guard. \<open>allowNavigationTo\<close> is the \<^verbatim>\<open>test\<close> of the caller's regular
  expression; \<open>blockPrivateIPs\<close> is compared with \<^verbatim>\<open>!== false\<close>, so an absent flag blocks.
\<close>

record guard_options =
  allowNavigationTo :: "(string \<Rightarrow> bool) option"
  blockPrivateIPs :: "bool option"

definition guardNavigation ::
  "(string \<Rightarrow> url option) \<Rightarrow> string \<Rightarrow> guard_options \<Rightarrow> thrown + string" where
  "guardNavigation parseURL rawUrl options =
     (case parseURL rawUrl of
        None \<Rightarrow> Inl (newEyesError BAD_INPUT (''Invalid URL: '' @ rawUrl) None)
      | Some u \<Rightarrow>
          if \<not> (protocol u = ''http:'' \<or> protocol u = ''https:'') then
            Inl (newEyesError SECURITY_BLOCKED
                   (''Blocked non-HTTP(S) scheme: '' @ protocol u) None)
          else if (case allowNavigationTo options of
                     Some re \<Rightarrow> \<not> re (href u) | None \<Rightarrow> False) then
            Inl (newEyesError SECURITY_BLOCKED
                   (''URL not allowed by allowlist: '' @ href u) None)
          else if blockPrivateIPs options \<noteq> Some False \<and> isPrivateHostname (hostname u) then
            Inl (newEyesError SECURITY_BLOCKED
                   (''Blocked private/loopback host: '' @ hostname u) None)
          else Inr (href u))"

subsection \<open>The address ranges, as the specification names them\<close>

text \<open>
  These two predicates follow the specification's words, not the code: an IPv6 host is
  link-local when its first 10 bits are those of \<^verbatim>\<open>fe80::\<close>, and unique-local when its
  first 7 bits are those of \<^verbatim>\<open>fc00::\<close>. Both are decided by the first 16-bit group of the
  address, read off the host in the URL's canonical form (lower-case hexadecimal,
  optionally in brackets).
\<close>

definition hexDigit :: "char \<Rightarrow> nat option" where
  "hexDigit c = map_of (zip ''0123456789abcdef'' [0, 1, 2, 3, 4, 5, 6, 7, 8, 9, 10, 11, 12, 13, 14, 15]) c"

fun hexPrefix :: "nat \<Rightarrow> string \<Rightarrow> nat" where
  "hexPrefix acc [] = acc"
| "hexPrefix acc (c # cs) =
     (case hexDigit c of None \<Rightarrow> acc | Some d \<Rightarrow> hexPrefix (16 * acc + d) cs)"

definition firstGroup :: "string \<Rightarrow> nat option" where
  "firstGroup h =
     (let s = stripBrackets h
      in if CHR '':'' \<in> set s then Some (hexPrefix 0 s) else None)"

definition spec_link_local6 :: "string \<Rightarrow> bool" where
  "spec_link_local6 h =
     (case firstGroup h of None \<Rightarrow> False | Some g \<Rightarrow> g div 2 ^ 6 = 0xfe80 div 2 ^ 6)"

definition spec_unique_local6 :: "string \<Rightarrow> bool" where
  "spec_unique_local6 h =
     (case firstGroup h of None \<Rightarrow> False | Some g \<Rightarrow> g div 2 ^ 9 = 0xfc00 div 2 ^ 9)"

text \<open>What \<^verbatim>\<open>new URL\<close> returns for the URLs that the examples below navigate to.\<close>

definition sampleURL :: "string \<Rightarrow> url option" where
  "sampleURL raw =
     (if raw = ''http://[fd12:3456:789a::1]/'' then
        Some \<lparr>protocol = ''http:'', hostname = ''[fd12:3456:789a::1]'',
              href = ''http://[fd12:3456:789a::1]/''\<rparr>
      else if raw = ''http://[fe90::1]/'' then
        Some \<lparr>protocol = ''http:'', hostname = ''[fe90::1]'', href = ''http://[fe90::1]/''\<rparr>
      else if raw = ''http://[fd00::1]/'' then
        Some \<lparr>protocol = ''http:'', hostname = ''[fd00::1]'', href = ''http://[fd00::1]/''\<rparr>
      else if raw = ''http://LOCALHOST:8000/'' then
        Some \<lparr>protocol = ''http:'', hostname = ''localhost'',
              href = ''http://localhost:8000/''\<rparr>
      else if raw = ''https://example.com'' then
        Some \<lparr>protocol = ''https:'', hostname = ''example.com'',
              href = ''https://example.com/''\<rparr>
      else None)"

section \<open>DOM serialisation (src/artifacts.js, serializeDOM)\<close>

text \<open>
  What \<^verbatim>\<open>nodeInfo\<close> reads of a DOM node. \<open>nodeType\<close> 1 is an element, 3 a text node.
  Strings are sequences of code units, so \<^verbatim>\<open>slice(0, 2000)\<close> is \<open>take 2000\<close>.
  \<^verbatim>\<open>toLowerCase\<close> is taken on ASCII letters, which is all a tag name holds.
\<close>

datatype dom_node =
  DomNode (nodeType: nat) (tagName: string) (nodeName: string)
    (attributes: "(string \<times> string option) list")
    (innerText: "string option") (nodeValue: "string option")
    (childNodes: "dom_node list")

datatype info =
  Info (tag: string) (attrs: "(string \<times> string) list") (itext: "string option")
    (children: "info list")

text \<open>\<^verbatim>\<open>o[a.name] = a.value\<close>: a property keeps its place when it is written again.\<close>

fun setProp :: "string \<Rightarrow> string \<Rightarrow> (string \<times> string) list \<Rightarrow> (string \<times> string) list" where
  "setProp k v [] = [(k, v)]"
| "setProp k v ((k', v') # ps) = (if k' = k then (k, v) # ps else (k', v') # setProp k v ps)"

definition attrsOf :: "dom_node \<Rightarrow> (string \<times> string) list" where
  "attrsOf node =
     foldl (\<lambda>obj a. case a of
                    (name, Some v) \<Rightarrow> if name \<noteq> [] then setProp name v obj else obj
                  | (name, None) \<Rightarrow> obj)
       [] (attributes node)"

text \<open>
  The loop over \<^verbatim>\<open>n.childNodes\<close>: push the child's info when there is one, and leave the
  loop once the list is longer than 1000.
\<close>

fun childLoop :: "(dom_node \<Rightarrow> info option) \<Rightarrow> dom_node list \<Rightarrow> info list \<Rightarrow> info list" where
  "childLoop f [] acc = acc"
| "childLoop f (c # cs) acc =
     (let acc1 = (case f c of Some ci \<Rightarrow> acc @ [ci] | None \<Rightarrow> acc)
      in if length acc1 > 1000 then acc1 else childLoop f cs acc1)"

function nodeInfo :: "nat \<Rightarrow> bool \<Rightarrow> dom_node \<Rightarrow> nat \<Rightarrow> info option" where
  "nodeInfo maxDepth plaintext n depth =
     (if depth > maxDepth then None
      else Some (Info
        (if nodeType n = 1 then map lowerChar (tagName n) else nodeName n)
        (if nodeType n = 1 then attrsOf n else [])
        (if plaintext \<and> nodeType n = 1 then
           Some (take 2000 (case innerText n of Some t \<Rightarrow> t | None \<Rightarrow> []))
         else if \<not> plaintext \<and> nodeType n = 3 then
           Some (take 2000 (case nodeValue n of Some t \<Rightarrow> t | None \<Rightarrow> []))
         else None)
        (if depth < maxDepth then
           childLoop (\<lambda>c. nodeInfo maxDepth plaintext c (depth + 1)) (childNodes n) []
         else [])))"
  by pat_completeness auto
termination
  by (relation "measure (\<lambda>(maxDepth, plaintext, n, depth). maxDepth - depth)") auto

declare nodeInfo.simps [simp del]

text \<open>
  The options of \<^verbatim>\<open>serializeDOM\<close> and the clamp of the depth:
  \<^verbatim>\<open>Math.min(Math.max(opts.maxDepth ?? 4, 1), 10)\<close>.
\<close>

record dom_opts =
  o_maxDepth :: "int option"
  o_plaintext :: "bool option"

definition clampDepth :: "dom_opts \<Rightarrow> nat" where
  "clampDepth opts = nat (min (max (case o_maxDepth opts of None \<Rightarrow> 4 | Some d \<Rightarrow> d) 1) 10)"

text \<open>
  The function that \<^verbatim>\<open>serializeDOM\<close> evaluates in the page, on the page's
  \<^verbatim>\<open>document.documentElement\<close> (\<open>None\<close> when the document has none).
\<close>

definition serializeInPage :: "dom_opts \<Rightarrow> dom_node option \<Rightarrow> info option" where
  "serializeInPage opts documentElement =
     (case documentElement of
        None \<Rightarrow> None
      | Some n \<Rightarrow> nodeInfo (clampDepth opts) (o_plaintext opts = Some True) n 1)"

section \<open>Pixel difference of two images (src/artifacts.js, diffDataURLs)\<close>

text \<open>
  The page's image and canvas interface, a parameter of the model. \<open>decodeImage\<close> is
  \<open>None\<close> for a URL on which the image's \<^verbatim>\<open>load\<close> event never fires (the browser fires
  \<^verbatim>\<open>error\<close> instead). \<open>getImageData img w h\<close> is the RGBA byte array of the image drawn
  on a canvas of \<open>w\<close> by \<open>h\<close>. \<open>setupThrows\<close> says that the synchronous set-up inside
  the \<^verbatim>\<open>try\<close> raises.
\<close>

record 'img canvas_api =
  setupThrows :: bool
  decodeImage :: "string \<Rightarrow> 'img option"
  imgWidth :: "'img \<Rightarrow> nat"
  imgHeight :: "'img \<Rightarrow> nat"
  getImageData :: "'img \<Rightarrow> nat \<Rightarrow> nat \<Rightarrow> nat list"

record diff_opts =
  sampleStride :: "int option"
  resizeWidth :: "int option"

text \<open>The indices \<open>0, stride, 2 * stride, ...\<close> below \<open>n\<close>, as both \<^verbatim>\<open>for\<close> loops visit them.\<close>

definition strideRange :: "nat \<Rightarrow> nat \<Rightarrow> nat list" where
  "strideRange n stride = filter (\<lambda>k. k mod stride = 0) [0..<n]"

text \<open>A read of a typed array: \<open>None\<close> is \<^verbatim>\<open>undefined\<close>, beyond the array's end.\<close>

definition px :: "nat list \<Rightarrow> nat \<Rightarrow> int option" where
  "px d i = (if i < length d then Some (int (d ! i)) else None)"

text \<open>
  \<^verbatim>\<open>delta > 30\<close> at the pixel whose first byte is at \<open>i\<close>. With an \<^verbatim>\<open>undefined\<close> operand
  the sum is \<^verbatim>\<open>NaN\<close> and the comparison is false.
\<close>

definition changedAt :: "nat list \<Rightarrow> nat list \<Rightarrow> nat \<Rightarrow> bool" where
  "changedAt d1 d2 i =
     (case (px d1 i, px d2 i, px d1 (i + 1), px d2 (i + 1), px d1 (i + 2), px d2 (i + 2)) of
        (Some r1, Some r2, Some g1, Some g2, Some b1, Some b2) \<Rightarrow>
          \<bar>r1 - r2\<bar> + \<bar>g1 - g2\<bar> + \<bar>b1 - b2\<bar> > 30
      | _ \<Rightarrow> False)"

definition sampleIndices :: "nat \<Rightarrow> nat \<Rightarrow> nat \<Rightarrow> nat list" where
  "sampleIndices w h stride =
     concat (map (\<lambda>y. map (\<lambda>x. (y * w + x) * 4) (strideRange w stride)) (strideRange h stride))"

text \<open>
  The result is \<open>None\<close> when the promise that the page builds is never resolved, so that
  the call never returns: \<^verbatim>\<open>done\<close> runs its body only at the second \<^verbatim>\<open>load\<close>, and an
  exception inside \<^verbatim>\<open>done\<close> (a canvas of a non-finite height, when the first image has
  width 0) is raised in an event handler, outside the \<^verbatim>\<open>try\<close>. The ratio is a rational
  number; the heights agree with the floating-point ones wherever the product is exact.
  The engine is taken to run the evaluation: a page that is closed meanwhile makes the
  call raise, which is no result of this function either.
\<close>

definition diffDataURLs ::
  "'img canvas_api \<Rightarrow> string \<Rightarrow> string \<Rightarrow> diff_opts \<Rightarrow> rat option" where
  "diffDataURLs page dataUrlA dataUrlB opts =
     (let stride = nat (max 1 (case sampleStride opts of None \<Rightarrow> 2 | Some v \<Rightarrow> v));
          w = nat (max 32 (case resizeWidth opts of None \<Rightarrow> 256 | Some v \<Rightarrow> v))
      in if setupThrows page then Some 1
         else case (decodeImage page dataUrlA, decodeImage page dataUrlB) of
           (Some imgA, Some imgB) \<Rightarrow>
             if imgWidth page imgA = 0 then None
             else
               (let h = max 32 (nat \<lfloor>rat_of_nat (imgHeight page imgA) *
                                     (rat_of_nat w / rat_of_nat (imgWidth page imgA))\<rfloor>);
                    d1 = getImageData page imgA w h;
                    d2 = getImageData page imgB w h;
                    idx = sampleIndices w h stride;
                    diff = length (filter (changedAt d1 d2) idx);
                    total = length idx
                in Some (if total \<noteq> 0 then rat_of_nat diff / rat_of_nat total else 0))
         | _ \<Rightarrow> None)"

section \<open>Ring buffers (AgentEyes._pushRing)\<close>

text \<open>\<^verbatim>\<open>arr.push(item); if (arr.length > max) arr.splice(0, arr.length - max)\<close>\<close>

definition pushRing :: "'a list \<Rightarrow> 'a \<Rightarrow> nat \<Rightarrow> 'a list" where
  "pushRing arr item max' =
     (let arr1 = arr @ [item]
      in if length arr1 > max' then drop (length arr1 - max') arr1 else arr1)"

section \<open>The session (src/agent-eyes.js, AgentEyes)\<close>

subsection \<open>The browser engine, the clock and the random source\<close>

text \<open>
  The browser engine is outside the program. The model records every call that the
  program makes to it, in order, and takes the engine's behaviour from an environment:
  the \<open>n\<close>-th call made (counting from 0) returns or raises as \<open>answer n\<close> says, and takes
  \<open>cost n\<close> milliseconds. \<^verbatim>\<open>Date.now()\<close> reads a clock that only engine calls advance.
  \<open>rnd k\<close> stands for the \<open>k\<close>-th call of \<^verbatim>\<open>Math.random()\<close>:
  \<^verbatim>\<open>Math.floor(Math.random() * 100)\<close> is \<open>rnd k mod 100\<close>, any number from 0 to 99.
\<close>

datatype jsval = JNull | JStr string | JList "string list" | JSize nat nat

datatype reply = Threw string | Gave jsval

datatype locator = BySelector string | ByText string | Nth locator int

datatype call =
  Launch | NewContext | NewPage | AddInitScript | EvaluateInstaller
  | Goto string string nat
  | WaitForSelector string nat | WaitForLoadState nat | WaitForTimeout nat
  | LocatorWaitFor locator nat | ScrollIntoViewIfNeeded locator | LocatorClick locator nat
  | KeyboardType string nat | KeyboardPress "string option"
  | EvaluateExpression "string option" | EvaluateScrollTo int int
  | EvaluateSuggest string | EvaluateNodeInfo nat bool
  | TakeScreenshot string "nat option" bool
  | PageUrl | PageTitle | ViewportSize
  | ClosePage | CloseContext | CloseBrowser

record env =
  answer :: "nat \<Rightarrow> reply"
  cost :: "nat \<Rightarrow> nat"
  rnd :: "nat \<Rightarrow> nat"
  parseURL :: "string \<Rightarrow> url option"
  documentElement :: "nat \<Rightarrow> dom_node option"
  base64 :: "string \<Rightarrow> string"

subsection \<open>The state of one session\<close>

record metrics =
  actions :: nat
  totalDurationMs :: nat
  errors :: nat

record console_rec =
  c_type :: string
  c_text :: string
  c_ts :: nat

record network_rec =
  n_url :: string
  n_method :: string
  n_status :: nat
  n_ts :: nat

text \<open>
  \<open>browser\<close>, \<open>ctx\<close> and \<open>page\<close> say whether the field of that name (\<^verbatim>\<open>context\<close> for
  \<open>ctx\<close>) holds a handle or \<^verbatim>\<open>null\<close>. \<open>p_console\<close>, \<open>p_network\<close>, \<open>p_metrics\<close> and
  \<open>p_frameInterval\<close> are the fields \<^verbatim>\<open>_console\<close>, \<^verbatim>\<open>_network\<close>, \<^verbatim>\<open>_metrics\<close> and
  \<^verbatim>\<open>_frameInterval\<close>. \<open>calls\<close>, \<open>clock\<close> and \<open>draws\<close> are the world around the session:
  the engine calls made so far, the time, and the number of random draws made.
  The preview-frame timer and the trace file touch none of these fields and are not
  modelled; \<^verbatim>\<open>_trace\<close> catches every error of its own, and no listener is registered on
  the events that the session emits.
\<close>

record eyes =
  options :: guard_options
  canvasHook :: "bool option"
  browser :: bool
  ctx :: bool
  page :: bool
  p_frameInterval :: bool
  p_console :: "console_rec list"
  p_network :: "network_rec list"
  p_metrics :: metrics
  calls :: "call list"
  clock :: nat
  draws :: nat

text \<open>
  The constructor, given the two guard options and the canvas-hook flag as the caller
  passed them, at a time and in a world where no engine call has been made. The defaults
  \<^verbatim>\<open>{ blockPrivateIPs: true, canvasHook: true, ...options }\<close> apply to an absent option.
  The options are of the right types here, so the constructor's check of them against
  its schema has nothing to reject. The methods of the class are the functions
  \<open>eyes_open\<close>, \<open>eyes_close\<close>, \<open>eyes_navigate\<close> and so on, named alike because
  \<^verbatim>\<open>open\<close>, \<^verbatim>\<open>type\<close> and \<^verbatim>\<open>state\<close> are taken.
\<close>

definition newAgentEyes :: "guard_options \<Rightarrow> bool option \<Rightarrow> nat \<Rightarrow> eyes" where
  "newAgentEyes opts hook now =
     \<lparr>options = opts\<lparr>blockPrivateIPs :=
                  (case blockPrivateIPs opts of None \<Rightarrow> Some True | Some b \<Rightarrow> Some b)\<rparr>,
      canvasHook = (case hook of None \<Rightarrow> Some True | Some b \<Rightarrow> Some b),
      browser = False, ctx = False, page = False, p_frameInterval = False,
      p_console = [], p_network = [],
      p_metrics = \<lparr>actions = 0, totalDurationMs = 0, errors = 0\<rparr>,
      calls = [], clock = now, draws = 0\<rparr>"

definition engine :: "env \<Rightarrow> call \<Rightarrow> eyes \<Rightarrow> reply \<times> eyes" where
  "engine E c s =
     (let n = length (calls s)
      in (answer E n, s\<lparr>calls := calls s @ [c], clock := clock s + cost E n\<rparr>))"

text \<open>Awaited engine calls in a row: the first that raises ends the row.\<close>

fun engineSeq :: "env \<Rightarrow> call list \<Rightarrow> eyes \<Rightarrow> string option \<times> eyes" where
  "engineSeq E [] s = (None, s)"
| "engineSeq E (c # cs) s =
     (case engine E c s of
        (Threw m, s1) \<Rightarrow> (Some m, s1)
      | (Gave v, s1) \<Rightarrow> engineSeq E cs s1)"

definition mathRandom :: "env \<Rightarrow> eyes \<Rightarrow> nat \<times> eyes" where
  "mathRandom E s = (rnd E (draws s), s\<lparr>draws := Suc (draws s)\<rparr>)"

text \<open>JavaScript truthiness of an optional string, and \<^verbatim>\<open>x || d\<close>.\<close>

definition truthy :: "string option \<Rightarrow> bool" where
  "truthy x = (case x of None \<Rightarrow> False | Some v \<Rightarrow> v \<noteq> [])"

definition strOr :: "string option \<Rightarrow> string \<Rightarrow> string" where
  "strOr x d = (case x of None \<Rightarrow> d | Some v \<Rightarrow> if v = [] then d else v)"

definition notOpened :: thrown where
  "notOpened = newEyesError INTERNAL ''Eyes not opened'' None"

definition afterAction :: "string \<Rightarrow> nat \<Rightarrow> eyes \<Rightarrow> eyes" where
  "afterAction action start s =
     (let durationMs = clock s - start
      in s\<lparr>p_metrics := (p_metrics s)
             \<lparr>actions := actions (p_metrics s) + 1,
              totalDurationMs := totalDurationMs (p_metrics s) + durationMs\<rparr>\<rparr>)"

text \<open>\<^verbatim>\<open>this._metrics.errors++\<close>\<close>

definition countError :: "eyes \<Rightarrow> eyes" where
  "countError s = s\<lparr>p_metrics := (p_metrics s)\<lparr>errors := errors (p_metrics s) + 1\<rparr>\<rparr>"

text \<open>\<^verbatim>\<open>try { await this.page?.waitForTimeout(100); } catch (_) {}\<close>\<close>

definition microIdle :: "env \<Rightarrow> eyes \<Rightarrow> eyes" where
  "microIdle E s = (if page s then snd (engine E (WaitForTimeout 100) s) else s)"

subsection \<open>Opening and closing\<close>

definition injectCanvasHook :: "env \<Rightarrow> eyes \<Rightarrow> thrown option \<times> eyes" where
  "injectCanvasHook E s =
     (case engine E AddInitScript s of
        (Threw m, s1) \<Rightarrow> (Some (JsError m), s1)
      | (Gave v, s1) \<Rightarrow> (None, snd (engine E EvaluateInstaller s1)))"

definition eyes_open :: "env \<Rightarrow> eyes \<Rightarrow> thrown option \<times> eyes" where
  "eyes_open E s =
     (if browser s then (None, s)
      else case engine E Launch s of
        (Threw m, s1) \<Rightarrow> (Some (JsError m), s1)
      | (Gave v, s1) \<Rightarrow>
        (case engine E NewContext (s1\<lparr>browser := True\<rparr>) of
           (Threw m, s2) \<Rightarrow> (Some (JsError m), s2)
         | (Gave v, s2) \<Rightarrow>
           (case engine E NewPage (s2\<lparr>ctx := True\<rparr>) of
              (Threw m, s3) \<Rightarrow> (Some (JsError m), s3)
            | (Gave v, s3) \<Rightarrow>
              (case (if canvasHook s3 \<noteq> Some False
                     then injectCanvasHook E (s3\<lparr>page := True\<rparr>)
                     else (None, s3\<lparr>page := True\<rparr>)) of
                 (Some e, s4) \<Rightarrow> (Some e, s4)
               | (None, s4) \<Rightarrow> (None, s4\<lparr>p_frameInterval := True\<rparr>)))))"

text \<open>
  \<^verbatim>\<open>close\<close>: each handle that is there is closed, a failure of the engine is swallowed
  by \<^verbatim>\<open>.catch(() => {})\<close>, and the three fields are set to \<^verbatim>\<open>null\<close>.
\<close>

definition eyes_close :: "env \<Rightarrow> eyes \<Rightarrow> eyes" where
  "eyes_close E s =
     (let s0 = s\<lparr>p_frameInterval := False\<rparr>;
          s1 = (if page s0 then snd (engine E ClosePage s0) else s0);
          s2 = (if ctx s1 then snd (engine E CloseContext s1) else s1);
          s3 = (if browser s2 then snd (engine E CloseBrowser s2) else s2)
      in s3\<lparr>browser := False, ctx := False, page := False\<rparr>)"

subsection \<open>The recorded page events\<close>

text \<open>
  What \<^verbatim>\<open>req.response()\<close> comes to in the \<^verbatim>\<open>requestfinished\<close> handler: no promise
  (the \<^verbatim>\<open>?.\<close> skips the rest), a rejected promise (caught), or a response,
  \<open>Resolved None\<close> being \<^verbatim>\<open>null\<close>.
\<close>

datatype response_outcome = NoPromise | Rejected | Resolved "nat option"

datatype page_event =
  Console string string
  | RequestFinished string string response_outcome
  | RequestFailed string string
  | Load

fun handleEvent :: "eyes \<Rightarrow> page_event \<Rightarrow> eyes" where
  "handleEvent s (Console ty txt) =
     s\<lparr>p_console := pushRing (p_console s) \<lparr>c_type = ty, c_text = txt, c_ts = clock s\<rparr> 500\<rparr>"
| "handleEvent s (RequestFinished u m NoPromise) = s"
| "handleEvent s (RequestFinished u m Rejected) = s"
| "handleEvent s (RequestFinished u m (Resolved res)) =
     s\<lparr>p_network := pushRing (p_network s)
         \<lparr>n_url = u, n_method = m, n_status = (case res of None \<Rightarrow> 0 | Some st \<Rightarrow> st),
          n_ts = clock s\<rparr> 1000\<rparr>"
| "handleEvent s (RequestFailed u m) =
     s\<lparr>p_network := pushRing (p_network s)
         \<lparr>n_url = u, n_method = m, n_status = 0, n_ts = clock s\<rparr> 1000\<rparr>"
| "handleEvent s Load = s"

text \<open>
  The records that the handlers build for a sequence of events reported at time \<open>now\<close>,
  in the order of the events: what is inserted, whatever the buffers keep of it.
\<close>

fun consoleRecords :: "nat \<Rightarrow> page_event list \<Rightarrow> console_rec list" where
  "consoleRecords now [] = []"
| "consoleRecords now (Console ty txt # evs) =
     \<lparr>c_type = ty, c_text = txt, c_ts = now\<rparr> # consoleRecords now evs"
| "consoleRecords now (ev # evs) = consoleRecords now evs"

fun networkRecords :: "nat \<Rightarrow> page_event list \<Rightarrow> network_rec list" where
  "networkRecords now [] = []"
| "networkRecords now (RequestFinished u m (Resolved res) # evs) =
     \<lparr>n_url = u, n_method = m, n_status = (case res of None \<Rightarrow> 0 | Some st \<Rightarrow> st),
      n_ts = now\<rparr> # networkRecords now evs"
| "networkRecords now (RequestFailed u m # evs) =
     \<lparr>n_url = u, n_method = m, n_status = 0, n_ts = now\<rparr> # networkRecords now evs"
| "networkRecords now (ev # evs) = networkRecords now evs"

subsection \<open>Metrics\<close>

record metrics_view =
  mv_actions :: nat
  avgDurationMs :: int
  errorRate :: rat

text \<open>\<^verbatim>\<open>Math.round\<close> rounds to the nearest integer, a half upwards.\<close>

definition eyes_metrics :: "eyes \<Rightarrow> metrics_view" where
  "eyes_metrics s =
     (let m = p_metrics s;
          avg = (if actions m \<noteq> 0
                 then rat_of_nat (totalDurationMs m) / rat_of_nat (actions m) else 0);
          rate = (if actions m \<noteq> 0
                  then rat_of_nat (errors m) / rat_of_nat (actions m) else 0)
      in \<lparr>mv_actions = actions m, avgDurationMs = \<lfloor>avg + 1 / 2\<rfloor>, errorRate = rate\<rparr>)"

subsection \<open>The primitive actions\<close>

text \<open>
  The argument object of an action, every field optional. The runner passes a step's
  \<^verbatim>\<open>args\<close> to whichever method the step names, so one record serves all seven.
\<close>

record args =
  a_url :: "string option"
  a_wait :: "string option"
  a_timeoutMs :: "nat option"
  a_for :: "string option"
  a_selector :: "string option"
  a_text :: "string option"
  a_nth :: "int option"
  a_delayMs :: "int option"
  a_x :: "int option"
  a_y :: "int option"
  a_intoViewSelector :: "string option"
  a_press :: "string option"
  a_expression :: "string option"

definition noArgs :: args where
  "noArgs =
     \<lparr>a_url = None, a_wait = None, a_timeoutMs = None, a_for = None, a_selector = None,
      a_text = None, a_nth = None, a_delayMs = None, a_x = None, a_y = None,
      a_intoViewSelector = None, a_press = None, a_expression = None\<rparr>"

definition eyes_navigate :: "env \<Rightarrow> args \<Rightarrow> eyes \<Rightarrow> (thrown + jsval) \<times> eyes" where
  "eyes_navigate E args s =
     (let start = clock s
      in if \<not> page s then (Inl notOpened, s)
         else if \<not> truthy (a_url args) then
           (Inl (newEyesError BAD_INPUT ''navigate.url is required'' None), s)
         else case guardNavigation (parseURL E) (strOr (a_url args) []) (options s) of
           Inl e \<Rightarrow> (Inl e, s)
         | Inr url \<Rightarrow>
             (case engine E (Goto url (strOr (a_wait args) ''load'')
                              (case a_timeoutMs args of None \<Rightarrow> 30000 | Some t \<Rightarrow> t)) s of
                (Threw m, s1) \<Rightarrow>
                  (Inl (newEyesError NAVIGATION_TIMEOUT (''Navigation failed: '' @ url) None),
                   countError s1)
              | (Gave v, s1) \<Rightarrow> (Inr JNull, afterAction ''navigate'' start (microIdle E s1))))"

text \<open>The body of the \<^verbatim>\<open>try\<close> of \<^verbatim>\<open>wait\<close>, up to the trace: what it throws, if anything.\<close>

definition wait_try :: "env \<Rightarrow> args \<Rightarrow> nat \<Rightarrow> eyes \<Rightarrow> thrown option \<times> eyes" where
  "wait_try E args timeout s =
     (if a_for args = Some ''selector'' then
        (if \<not> truthy (a_selector args) then
           (Some (newEyesError BAD_INPUT ''wait.selector is required'' None), s)
         else case engine E (WaitForSelector (strOr (a_selector args) []) timeout) s of
           (Threw m, s1) \<Rightarrow> (Some (JsError m), s1)
         | (Gave v, s1) \<Rightarrow> (None, s1))
      else if a_for args = Some ''networkidle'' then
        (case engine E (WaitForLoadState timeout) s of
           (Threw m, s1) \<Rightarrow> (Some (JsError m), s1)
         | (Gave v, s1) \<Rightarrow> (None, s1))
      else if a_for args = Some ''timeout'' then
        (case engine E (WaitForTimeout timeout) s of
           (Threw m, s1) \<Rightarrow> (Some (JsError m), s1)
         | (Gave v, s1) \<Rightarrow> (None, s1))
      else (Some (newEyesError BAD_INPUT ''wait.for must be selector|networkidle|timeout'' None),
            s))"

definition eyes_wait :: "env \<Rightarrow> args \<Rightarrow> eyes \<Rightarrow> (thrown + jsval) \<times> eyes" where
  "eyes_wait E args s =
     (let start = clock s
      in if \<not> page s then (Inl notOpened, s)
         else case wait_try E args (case a_timeoutMs args of None \<Rightarrow> 10000 | Some t \<Rightarrow> t) s of
           (None, s1) \<Rightarrow> (Inr JNull, afterAction ''wait'' start s1)
         | (Some e, s1) \<Rightarrow> (Inl (toEyesError e), countError s1))"

definition click_try :: "env \<Rightarrow> args \<Rightarrow> nat \<Rightarrow> eyes \<Rightarrow> thrown option \<times> eyes" where
  "click_try E args timeout s =
     (case (if truthy (a_selector args) then Some (BySelector (strOr (a_selector args) []))
            else if truthy (a_text args) then Some (ByText (strOr (a_text args) []))
            else None) of
        None \<Rightarrow> (Some (newEyesError BAD_INPUT ''click.selector or click.text required'' None), s)
      | Some loc \<Rightarrow>
          (let locator = (case a_nth args of Some k \<Rightarrow> Nth loc k | None \<Rightarrow> loc)
           in case engineSeq E [LocatorWaitFor locator timeout, ScrollIntoViewIfNeeded locator,
                                LocatorClick locator timeout] s of
                (Some m, s1) \<Rightarrow> (Some (JsError m), s1)
              | (None, s1) \<Rightarrow> (None, microIdle E s1)))"

text \<open>\<^verbatim>\<open>similar.join(', ')\<close>\<close>

fun joinComma :: "string list \<Rightarrow> string" where
  "joinComma [] = []"
| "joinComma [x] = x"
| "joinComma (x # y # ys) = x @ '', '' @ joinComma (y # ys)"

text \<open>
  \<^verbatim>\<open>this._suggestSelectors(sel).catch(() => [])\<close>: the ranking runs in the page; the
  engine returns the list, and a failure is an empty list.
\<close>

definition suggestSelectors :: "env \<Rightarrow> string \<Rightarrow> eyes \<Rightarrow> string list \<times> eyes" where
  "suggestSelectors E selector s =
     (if \<not> page s then ([], s)
      else case engine E (EvaluateSuggest selector) s of
        (Gave (JList xs), s1) \<Rightarrow> (xs, s1)
      | (r, s1) \<Rightarrow> ([], s1))"

definition eyes_click :: "env \<Rightarrow> args \<Rightarrow> eyes \<Rightarrow> (thrown + jsval) \<times> eyes" where
  "eyes_click E args s =
     (let start = clock s
      in if \<not> page s then (Inl notOpened, s)
         else case click_try E args (case a_timeoutMs args of None \<Rightarrow> 10000 | Some t \<Rightarrow> t) s of
           (None, s1) \<Rightarrow> (Inr JNull, afterAction ''click'' start s1)
         | (Some e, s1) \<Rightarrow>
             (case (if truthy (a_selector args)
                    then suggestSelectors E (strOr (a_selector args) []) (countError s1)
                    else ([], countError s1)) of
                (similar, s2) \<Rightarrow>
                  (Inl (newEyesError ELEMENT_NOT_FOUND ''Element not found for click''
                          (Some (if similar \<noteq> [] then ''Did you mean: '' @ joinComma similar
                                 else []))),
                   s2)))"

definition eyes_type :: "env \<Rightarrow> args \<Rightarrow> eyes \<Rightarrow> (thrown + jsval) \<times> eyes" where
  "eyes_type E args s =
     (let start = clock s
      in if \<not> page s then (Inl notOpened, s)
         else if \<not> truthy (a_selector args) then
           (Inl (newEyesError BAD_INPUT ''type.selector is required'' None), s)
         else
           (let locator = BySelector (strOr (a_selector args) [])
            in case engineSeq E
                 [LocatorWaitFor locator 10000, LocatorClick locator 10000,
                  KeyboardType (strOr (a_text args) [])
                    (nat (min (max (case a_delayMs args of None \<Rightarrow> 20 | Some d \<Rightarrow> d) 0) 200))] s of
                 (None, s1) \<Rightarrow> (Inr JNull, afterAction ''type'' start s1)
               | (Some m, s1) \<Rightarrow>
                   (Inl (newEyesError ELEMENT_NOT_FOUND ''Failed to type into element'' None),
                    countError s1)))"

definition eyes_scroll :: "env \<Rightarrow> args \<Rightarrow> eyes \<Rightarrow> (thrown + jsval) \<times> eyes" where
  "eyes_scroll E args s =
     (let start = clock s
      in if \<not> page s then (Inl notOpened, s)
         else case engineSeq E
              ((if truthy (a_intoViewSelector args)
                then [ScrollIntoViewIfNeeded (BySelector (strOr (a_intoViewSelector args) []))]
                else []) @
               (if a_x args \<noteq> None \<or> a_y args \<noteq> None
                then [EvaluateScrollTo (case a_x args of None \<Rightarrow> 0 | Some x \<Rightarrow> x)
                                       (case a_y args of None \<Rightarrow> 0 | Some y \<Rightarrow> y)]
                else [])) s of
           (None, s1) \<Rightarrow> (Inr JNull, afterAction ''scroll'' start s1)
         | (Some m, s1) \<Rightarrow> (Inl (toEyesError (JsError m)), countError s1))"

definition eyes_keys :: "env \<Rightarrow> args \<Rightarrow> eyes \<Rightarrow> (thrown + jsval) \<times> eyes" where
  "eyes_keys E args s =
     (let start = clock s
      in if \<not> page s then (Inl notOpened, s)
         else case engine E (KeyboardPress (a_press args)) s of
           (Gave v, s1) \<Rightarrow> (Inr JNull, afterAction ''keys'' start s1)
         | (Threw m, s1) \<Rightarrow> (Inl (toEyesError (JsError m)), countError s1))"

definition eyes_exec :: "env \<Rightarrow> args \<Rightarrow> eyes \<Rightarrow> (thrown + jsval) \<times> eyes" where
  "eyes_exec E args s =
     (let start = clock s
      in if \<not> page s then (Inl notOpened, s)
         else case engine E (EvaluateExpression (a_expression args)) s of
           (Gave v, s1) \<Rightarrow> (Inr v, afterAction ''exec'' start s1)
         | (Threw m, s1) \<Rightarrow>
             (Inl (newEyesError SCRIPT_ERROR ''Script execution failed'' None), countError s1))"

subsection \<open>Observations: screenshot, DOM, state\<close>

record shot_args =
  sa_fullPage :: "bool option"
  sa_format :: "string option"
  sa_quality :: "nat option"

record shot =
  buffer :: string
  dataUrl :: string
  mime :: string

text \<open>\<^verbatim>\<open>toDataURL\<close> of src/artifacts.js; the base-64 coding is the platform's.\<close>

definition toDataURL :: "env \<Rightarrow> string \<Rightarrow> string \<Rightarrow> string" where
  "toDataURL E buf mimeType = ''data:'' @ mimeType @ '';base64,'' @ base64 E buf"

definition bytesOf :: "jsval \<Rightarrow> string" where
  "bytesOf v = (case v of JStr b \<Rightarrow> b | _ \<Rightarrow> [])"

definition eyes_screenshot :: "env \<Rightarrow> shot_args \<Rightarrow> eyes \<Rightarrow> (thrown + shot) \<times> eyes" where
  "eyes_screenshot E sargs s =
     (let start = clock s
      in if \<not> page s then (Inl notOpened, s)
         else
           (let ty = strOr (sa_format sargs) ''webp'';
                quality = (case sa_quality sargs of
                             Some q \<Rightarrow> Some q
                           | None \<Rightarrow> if ty = ''webp'' then Some 70 else None);
                mimeType = (if ty = ''png'' then ''image/png'' else ''image/webp'')
            in case engine E (TakeScreenshot ty quality (sa_fullPage sargs = Some True)) s of
                 (Threw m, s1) \<Rightarrow> (Inl (toEyesError (JsError m)), s1)
               | (Gave v, s1) \<Rightarrow>
                   (Inr \<lparr>buffer = bytesOf v, dataUrl = toDataURL E (bytesOf v) mimeType,
                         mime = mimeType\<rparr>,
                    afterAction ''screenshot'' start s1)))"

text \<open>
  \<^verbatim>\<open>dom\<close> calls \<^verbatim>\<open>serializeDOM\<close>, which has the page evaluate \<^verbatim>\<open>nodeInfo\<close> on its
  document as it is at that call.
\<close>

definition eyes_dom :: "env \<Rightarrow> dom_opts \<Rightarrow> eyes \<Rightarrow> (thrown + info option) \<times> eyes" where
  "eyes_dom E opts s =
     (if \<not> page s then (Inl notOpened, s)
      else case engine E (EvaluateNodeInfo (clampDepth opts) (o_plaintext opts = Some True)) s of
        (Threw m, s1) \<Rightarrow> (Inl (JsError m), s1)
      | (Gave v, s1) \<Rightarrow>
          (Inr (serializeInPage opts (documentElement E (length (calls s)))), s1))"

record page_state =
  st_url :: string
  st_title :: string
  st_viewport :: "nat \<times> nat"
  consoleCount :: nat
  networkCount :: nat

definition DEFAULT_VIEWPORT :: "nat \<times> nat" where
  "DEFAULT_VIEWPORT = (1280, 800)"

definition eyes_state :: "env \<Rightarrow> eyes \<Rightarrow> (thrown + page_state) \<times> eyes" where
  "eyes_state E s =
     (if \<not> page s then (Inl notOpened, s)
      else case engine E PageUrl s of
        (Threw m, s1) \<Rightarrow> (Inl (JsError m), s1)
      | (Gave u, s1) \<Rightarrow>
          (case engine E PageTitle s1 of
             (t, s2) \<Rightarrow>
               (case engine E ViewportSize s2 of
                  (Threw m, s3) \<Rightarrow> (Inl (JsError m), s3)
                | (Gave vp, s3) \<Rightarrow>
                    (Inr \<lparr>st_url = bytesOf u,
                          st_title = (case t of Gave tv \<Rightarrow> bytesOf tv | Threw m \<Rightarrow> []),
                          st_viewport = (case vp of JSize w h \<Rightarrow> (w, h) | _ \<Rightarrow> DEFAULT_VIEWPORT),
                          consoleCount = length (p_console s3),
                          networkCount = length (p_network s3)\<rparr>,
                     s3))))"

section \<open>The step runner (src/runner.js, EyesRunner)\<close>

record step =
  action :: string
  s_args :: "args option"

record plan =
  goal :: string
  steps :: "step list option"
  abortOnError :: "bool option"
  maxDurationMs :: "nat option"

definition dispatch :: "env \<Rightarrow> string \<Rightarrow> args \<Rightarrow> eyes \<Rightarrow> (thrown + jsval) \<times> eyes" where
  "dispatch E act args s =
     (if act = ''navigate'' then eyes_navigate E args s
      else if act = ''click'' then eyes_click E args s
      else if act = ''type'' then eyes_type E args s
      else if act = ''wait'' then eyes_wait E args s
      else if act = ''scroll'' then eyes_scroll E args s
      else if act = ''keys'' then eyes_keys E args s
      else if act = ''exec'' then eyes_exec E args s
      else (Inl (newEyesError BAD_INPUT (''Unknown action: '' @ act) None), s))"

text \<open>\<^verbatim>\<open>Math.min(2000, 300 * Math.pow(2, i)) + Math.floor(Math.random() * 100)\<close>\<close>

definition backoff :: "nat \<Rightarrow> nat \<Rightarrow> nat" where
  "backoff i r = min 2000 (300 * 2 ^ i) + r mod 100"

definition sleepArgs :: "nat \<Rightarrow> args" where
  "sleepArgs ms = noArgs\<lparr>a_for := Some ''timeout'', a_timeoutMs := Some ms\<rparr>"

text \<open>
  The loop of \<^verbatim>\<open>_execute\<close>, from attempt \<open>i\<close> on: \<open>None\<close> when the step returns,
  \<open>Some err\<close> when it throws \<open>err\<close>. An error of the back-off wait itself leaves the
  \<^verbatim>\<open>catch\<close> block and ends the step.
\<close>

function attempt ::
  "env \<Rightarrow> string \<Rightarrow> args \<Rightarrow> nat \<Rightarrow> nat \<Rightarrow> eyes \<Rightarrow> thrown option \<times> eyes" where
  "attempt E act args attempts i s =
     (if i < attempts then
        (case dispatch E act args s of
           (Inr v, s1) \<Rightarrow> (None, s1)
         | (Inl e, s1) \<Rightarrow>
             if i \<noteq> attempts - 1 then
               (case mathRandom E s1 of
                  (r, s2) \<Rightarrow>
                    (case eyes_wait E (sleepArgs (backoff i r)) s2 of
                       (Inl e', s3) \<Rightarrow> (Some e', s3)
                     | (Inr v, s3) \<Rightarrow> attempt E act args attempts (i + 1) s3))
             else (Some (toEyesError e), s1))
      else (None, s))"
  by pat_completeness auto
termination
  by (relation "measure (\<lambda>(E, act, args, attempts, i, s). attempts - i)") auto

declare attempt.simps [simp del]

definition fragile :: "string \<Rightarrow> args \<Rightarrow> bool" where
  "fragile act args = (act = ''click'' \<or> (act = ''wait'' \<and> a_for args = Some ''selector''))"

definition execute :: "env \<Rightarrow> step \<Rightarrow> eyes \<Rightarrow> thrown option \<times> eyes" where
  "execute E st s =
     (let act = action st;
          args = (case s_args st of None \<Rightarrow> noArgs | Some a \<Rightarrow> a);
          attempts = (if fragile act args then 3 else 1)
      in attempt E act args attempts 0 s)"

record error_info =
  ei_code :: ErrorCode
  ei_message :: string
  ei_hint :: "string option"

text \<open>\<^verbatim>\<open>{ code: err.code || 'INTERNAL', message: err.message, hint: err.hint }\<close>\<close>

fun errorInfo :: "thrown \<Rightarrow> error_info" where
  "errorInfo (EyesError c m h) = \<lparr>ei_code = c, ei_message = m, ei_hint = h\<rparr>"
| "errorInfo (JsError m) = \<lparr>ei_code = INTERNAL, ei_message = m, ei_hint = None\<rparr>"

text \<open>
  The report. \<open>traceId\<close> holds the two variable parts of the identifier, the start time
  and the random draw. An absent \<open>screenshot\<close> or \<open>domSnippet\<close> is \<^verbatim>\<open>null\<close>, an absent
  \<open>lastState\<close> is the empty object, an absent \<open>error\<close> is \<^verbatim>\<open>undefined\<close>.
  \<open>domSnippet\<close> is \<open>Some None\<close> when the page answered \<^verbatim>\<open>null\<close>.
\<close>

record run_report =
  success :: bool
  traceId :: "nat \<times> nat"
  lastState :: "page_state option"
  screenshot :: "shot option"
  domSnippet :: "info option option"
  error :: "error_info option"

text \<open>\<^verbatim>\<open>plan.maxDurationMs && Date.now() - started > plan.maxDurationMs\<close>\<close>

definition overBudget :: "plan \<Rightarrow> nat \<Rightarrow> eyes \<Rightarrow> bool" where
  "overBudget p started s =
     (case maxDurationMs p of
        None \<Rightarrow> False
      | Some d \<Rightarrow> d \<noteq> 0 \<and> int (clock s) - int started > int d)"

text \<open>The loop over the steps, from the steps still to run and the last error so far.\<close>

fun runSteps ::
  "env \<Rightarrow> plan \<Rightarrow> nat \<Rightarrow> step list \<Rightarrow> thrown option \<Rightarrow> eyes \<Rightarrow> thrown option \<times> eyes" where
  "runSteps E p started [] lastError s = (lastError, s)"
| "runSteps E p started (st # rest) lastError s =
     (case execute E st s of
        (Some e, s1) \<Rightarrow>
          if abortOnError p \<noteq> Some False then (Some e, s1)
          else if overBudget p started s1 then (Some e, s1)
          else runSteps E p started rest (Some e) s1
      | (None, s1) \<Rightarrow>
          if overBudget p started s1 then (lastError, s1)
          else runSteps E p started rest lastError s1)"

text \<open>\<^verbatim>\<open>promise.catch(() => null)\<close>\<close>

definition orNull :: "('e + 'a) \<times> eyes \<Rightarrow> 'a option \<times> eyes" where
  "orNull r = (case r of (Inl e, s) \<Rightarrow> (None, s) | (Inr v, s) \<Rightarrow> (Some v, s))"

text \<open>The arguments of the two final observations of \<^verbatim>\<open>run\<close>.\<close>

definition finalShot :: shot_args where
  "finalShot = \<lparr>sa_fullPage = None, sa_format = Some ''webp'', sa_quality = Some 60\<rparr>"

definition finalDom :: dom_opts where
  "finalDom = \<lparr>o_maxDepth = Some 3, o_plaintext = Some True\<rparr>"

text \<open>\<^verbatim>\<open>run\<close>: \<open>Inl\<close> is an exception that leaves the call, \<open>Inr\<close> the report it returns.\<close>

definition run :: "env \<Rightarrow> plan option \<Rightarrow> eyes \<Rightarrow> (thrown + run_report) \<times> eyes" where
  "run E pl s =
     (case pl of
        None \<Rightarrow> (Inl (newEyesError BAD_INPUT ''Runner requires steps[]'' None), s)
      | Some p \<Rightarrow>
          (case steps p of
             None \<Rightarrow> (Inl (newEyesError BAD_INPUT ''Runner requires steps[]'' None), s)
           | Some sts \<Rightarrow>
               if length sts > 50 then
                 (Inl (newEyesError BAD_INPUT ''Too many steps (>50)'' None), s)
               else
                 (let started = clock s
                  in case mathRandom E s of
                       (r, s0) \<Rightarrow>
                     (case runSteps E p started sts None s0 of
                        (lastError, s1) \<Rightarrow>
                     (case orNull (eyes_screenshot E finalShot s1) of
                        (shot1, s2) \<Rightarrow>
                     (case orNull (eyes_dom E finalDom s2) of
                        (dom1, s3) \<Rightarrow>
                     (case orNull (eyes_state E s3) of
                        (state1, s4) \<Rightarrow>
                          (Inr \<lparr>success = (lastError = None), traceId = (started, r),
                                lastState = state1, screenshot = shot1, domSnippet = dom1,
                                error = map_option errorInfo lastError\<rparr>,
                           s4))))))))"

subsection \<open>Sample worlds and sessions\<close>

text \<open>An engine in which every call returns, in one millisecond.\<close>

definition calmEnv :: env where
  "calmEnv =
     \<lparr>answer = (\<lambda>n. Gave JNull), cost = (\<lambda>n. 1), rnd = (\<lambda>k. 0), parseURL = sampleURL,
      documentElement = (\<lambda>n. None), base64 = (\<lambda>b. b)\<rparr>"

text \<open>
  The same engine, but its calls number 5 and 7 raise, and the random draws give the
  jitters 50 and 57.
\<close>

definition flakyEnv :: env where
  "flakyEnv =
     calmEnv\<lparr>answer := (\<lambda>n. if n = 5 \<or> n = 7 then Threw ''Timeout'' else Gave JNull),
             rnd := (\<lambda>k. 250 + 7 * k)\<rparr>"

text \<open>
  An engine whose calls number 5, 7 and 9 raise, and whose other calls return a string.
\<close>

definition stubbornEnv :: env where
  "stubbornEnv =
     calmEnv\<lparr>answer := (\<lambda>n. if n = 5 \<or> n = 7 \<or> n = 9 then Threw ''Timeout''
                              else Gave (JStr ''x''))\<rparr>"

text \<open>An engine whose calls number 5 and 6 raise.\<close>

definition brokenEnv :: env where
  "brokenEnv =
     calmEnv\<lparr>answer := (\<lambda>n. if n = 5 \<or> n = 6 then Threw ''Target closed'' else Gave JNull)\<rparr>"

definition defaultOptions :: guard_options where
  "defaultOptions = \<lparr>allowNavigationTo = None, blockPrivateIPs = None\<rparr>"

text \<open>A session just constructed, and the session after \<^verbatim>\<open>open()\<close> in the calm world.\<close>

definition freshEyes :: eyes where
  "freshEyes = newAgentEyes defaultOptions None 0"

definition openEyes :: eyes where
  "openEyes = snd (eyes_open calmEnv freshEyes)"

text \<open>Arguments and steps of the examples.\<close>

definition clickSettings :: args where
  "clickSettings = noArgs\<lparr>a_text := Some ''Settings''\<rparr>"

definition clickStep :: step where
  "clickStep = \<lparr>action = ''click'', s_args = Some clickSettings\<rparr>"

definition waitH1 :: args where
  "waitH1 = noArgs\<lparr>a_for := Some ''selector'', a_selector := Some ''h1''\<rparr>"

definition waitStep :: step where
  "waitStep = \<lparr>action = ''wait'', s_args = Some waitH1\<rparr>"

definition keysStep :: step where
  "keysStep = \<lparr>action = ''keys'', s_args = Some (noArgs\<lparr>a_press := Some ''Enter''\<rparr>)\<rparr>"

definition clickPlan :: plan where
  "clickPlan =
     \<lparr>goal = ''Open the settings'', steps = Some [clickStep], abortOnError = None,
      maxDurationMs = None\<rparr>"

definition keysPlan :: plan where
  "keysPlan =
     \<lparr>goal = ''Press Enter'', steps = Some [keysStep], abortOnError = None,
      maxDurationMs = None\<rparr>"

text \<open>Two key presses, and three with \<^verbatim>\<open>abortOnError: false\<close>.\<close>

definition twoKeysPlan :: plan where
  "twoKeysPlan =
     \<lparr>goal = ''Press Enter twice'', steps = Some [keysStep, keysStep], abortOnError = None,
      maxDurationMs = None\<rparr>"

definition carryOnPlan :: plan where
  "carryOnPlan =
     \<lparr>goal = ''Press Enter three times'', steps = Some [keysStep, keysStep, keysStep],
      abortOnError = Some False, maxDurationMs = None\<rparr>"

text \<open>A click that gives both a selector and a text.\<close>

definition clickBoth :: args where
  "clickBoth = noArgs\<lparr>a_selector := Some ''#ok'', a_text := Some ''OK''\<rparr>"

text \<open>
  An element with 1500 children, and a page that decodes one image URL and no other.
\<close>

definition listItem :: dom_node where
  "listItem = DomNode 1 ''LI'' ''LI'' [] (Some ''item'') None []"

definition longList :: dom_node where
  "longList = DomNode 1 ''UL'' ''UL'' [(''id'', Some ''menu'')] (Some ''items'') None
     (replicate 1500 listItem)"

definition samplePage :: "(nat \<times> nat) canvas_api" where
  "samplePage =
     \<lparr>setupThrows = False,
      decodeImage = (\<lambda>u. if u = ''data:image/png;base64,iVBORw0KGgo='' then Some (640, 480)
                          else None),
      imgWidth = fst, imgHeight = snd,
      getImageData = (\<lambda>img w h. replicate (w * h * 4) 255)\<rparr>"

text \<open>
  An engine whose call number 6 raises and whose other calls return the bytes \<^verbatim>\<open>PNG\<close>,
  each call in two milliseconds; the page's document is one list item, and the base-64
  coding of \<^verbatim>\<open>PNG\<close> is \<^verbatim>\<open>UE5H\<close>.
\<close>

definition lateEnv :: env where
  "lateEnv =
     \<lparr>answer = (\<lambda>n. if n = 6 then Threw ''Timeout'' else Gave (JStr ''PNG'')),
      cost = (\<lambda>n. 2), rnd = (\<lambda>k. 7), parseURL = sampleURL,
      documentElement = (\<lambda>n. Some listItem),
      base64 = (\<lambda>b. if b = ''PNG'' then ''UE5H'' else [])\<rparr>"

subsection \<open>What the actions leave alone\<close>

text \<open>
  Two states of a session that agree on the three handles, the options and the two
  buffers; they may differ in the metrics and in the world.
\<close>

definition sameSession :: "eyes \<Rightarrow> eyes \<Rightarrow> bool" where
  "sameSession s s' =
     (page s' = page s \<and> ctx s' = ctx s \<and> browser s' = browser s \<and>
      options s' = options s \<and> p_console s' = p_console s \<and> p_network s' = p_network s)"

subsection \<open>What an action does to the metrics\<close>

text \<open>
  The two updates that the code makes to the accumulator: a success counts one action
  and its duration, a failure inside the \<^verbatim>\<open>try\<close> counts one error. An invocation is
  counted when the state it leaves shows the update that fits its result.
\<close>

definition succeeded :: "eyes \<Rightarrow> eyes \<Rightarrow> bool" where
  "succeeded s s' =
     (p_metrics s' = (p_metrics s)\<lparr>actions := actions (p_metrics s) + 1,
        totalDurationMs := totalDurationMs (p_metrics s) + (clock s' - clock s)\<rparr>)"

definition failedCounted :: "eyes \<Rightarrow> eyes \<Rightarrow> bool" where
  "failedCounted s s' = (p_metrics s' = (p_metrics s)\<lparr>errors := errors (p_metrics s) + 1\<rparr>)"

definition counted :: "eyes \<Rightarrow> (thrown + jsval) \<times> eyes \<Rightarrow> bool" where
  "counted s r =
     (case fst r of Inr v \<Rightarrow> succeeded s (snd r) | Inl e \<Rightarrow> failedCounted s (snd r))"

subsection \<open>What the loop of run executes\<close>

text \<open>
  The two exits of the loop of \<^verbatim>\<open>run\<close> after a step, given the step's outcome and the
  state it left: the step threw and \<^verbatim>\<open>abortOnError\<close> is not \<^verbatim>\<open>false\<close>, or the time
  budget is exceeded.
\<close>

definition breaksAt :: "plan \<Rightarrow> nat \<Rightarrow> thrown option \<times> eyes \<Rightarrow> bool" where
  "breaksAt p started x =
     (fst x \<noteq> None \<and> abortOnError p \<noteq> Some False \<or> overBudget p started (snd x))"

text \<open>
  A trace of the loop over the steps \<open>sts\<close> from the state \<open>s\<close>: the outcomes of the
  steps that ran, in order, each with the state it left. Every step of the trace ran in
  the state that its predecessor left (the first in \<open>s\<close>), no step ran after an exit, and
  steps are left over only after an exit.
\<close>

definition loopTrace ::
  "env \<Rightarrow> plan \<Rightarrow> nat \<Rightarrow> step list \<Rightarrow> eyes \<Rightarrow> (thrown option \<times> eyes) list \<Rightarrow> bool" where
  "loopTrace E p started sts s tr =
     (length tr \<le> length sts \<and>
      (\<forall>i<length tr. execute E (sts ! i) ((s # map snd tr) ! i) = tr ! i) \<and>
      (\<forall>i<length tr. breaksAt p started (tr ! i) \<longrightarrow> Suc i = length tr) \<and>
      (length tr < length sts \<longrightarrow> tr \<noteq> [] \<and> breaksAt p started (last tr)))"

section \<open>Properties\<close>

subsection \<open>Evaluating the examples\<close>

lemmas eval_defs =
  openEyes_def freshEyes_def newAgentEyes_def defaultOptions_def calmEnv_def flakyEnv_def
  stubbornEnv_def brokenEnv_def waitH1_def waitStep_def eyes_open_def injectCanvasHook_def engine_def mathRandom_def
  clickSettings_def clickStep_def keysStep_def noArgs_def sleepArgs_def backoff_def
  dispatch_def eyes_click_def click_try_def eyes_wait_def wait_try_def eyes_keys_def
  eyes_type_def eyes_navigate_def eyes_scroll_def eyes_exec_def
  truthy_def strOr_def microIdle_def afterAction_def countError_def suggestSelectors_def
  newEyesError_def notOpened_def fragile_def Let_def

lemmas run_defs =
  run_def execute_def runSteps.simps orNull_def eyes_screenshot_def eyes_dom_def
  eyes_state_def finalShot_def finalDom_def overBudget_def toDataURL_def bytesOf_def
  clampDepth_def serializeInPage_def DEFAULT_VIEWPORT_def clickPlan_def keysPlan_def

lemma openEyes_eq: "openEyes =
  \<lparr>options = \<lparr>allowNavigationTo = None, blockPrivateIPs = Some True\<rparr>, canvasHook = Some True,
   browser = True, ctx = True, page = True, p_frameInterval = True, p_console = [], p_network = [],
   p_metrics = \<lparr>actions = 0, totalDurationMs = 0, errors = 0\<rparr>,
   calls = [Launch, NewContext, NewPage, AddInitScript, EvaluateInstaller], clock = 5, draws = 0\<rparr>"
  by (simp add: eval_defs)

subsection \<open>Ring buffers\<close>

lemma length_pushRing: "length (pushRing arr item m) \<le> max m (length arr)"
  unfolding pushRing_def Let_def by (cases "m < Suc (length arr)") auto

lemma pushRing_bounded: "length arr \<le> m \<Longrightarrow> length (pushRing arr item m) \<le> m"
  unfolding pushRing_def Let_def by (cases "m < Suc (length arr)") auto

lemma pushRing_last_of:
  "arr = drop (length xs - m) xs \<Longrightarrow>
   pushRing arr item m = drop (length (xs @ [item]) - m) (xs @ [item])"
  unfolding pushRing_def Let_def
  by (cases "length xs < m") (auto simp: Suc_diff_le)

lemma foldl_pushRing:
  "foldl (\<lambda>a r. pushRing a r m) [] xs = drop (length xs - m) xs"
proof (induction xs rule: rev_induct)
  case Nil
  show ?case by simp
next
  case (snoc x xs)
  show ?case
    using pushRing_last_of [OF snoc.IH, of x] by simp
qed

lemma clock_handleEvent [simp]: "clock (handleEvent s ev) = clock s"
  by (cases "(s, ev)" rule: handleEvent.cases) simp_all

lemma console_handleEvent:
  "p_console (foldl handleEvent s evs) =
   foldl (\<lambda>a r. pushRing a r 500) (p_console s) (consoleRecords (clock s) evs)"
proof (induction evs arbitrary: s)
  case Nil
  show ?case by simp
next
  case (Cons ev evs)
  show ?case
    by (cases "(s, ev)" rule: handleEvent.cases) (simp_all add: Cons.IH)
qed

lemma network_handleEvent:
  "p_network (foldl handleEvent s evs) =
   foldl (\<lambda>a r. pushRing a r 1000) (p_network s) (networkRecords (clock s) evs)"
proof (induction evs arbitrary: s)
  case Nil
  show ?case by simp
next
  case (Cons ev evs)
  show ?case
    by (cases "(s, ev)" rule: handleEvent.cases) (simp_all add: Cons.IH)
qed

lemma consoleRecords_map:
  "consoleRecords now (map (\<lambda>k. Console ty (f k)) ks) =
   map (\<lambda>k. \<lparr>c_type = ty, c_text = f k, c_ts = now\<rparr>) ks"
  by (induction ks) simp_all

lemma fresh_buffers:
  "p_console freshEyes = [] \<and> p_network freshEyes = [] \<and> clock freshEyes = 0"
  by (simp add: freshEyes_def newAgentEyes_def)

lemma handleEvent_bounded:
  assumes "length (p_console s) \<le> 500" and "length (p_network s) \<le> 1000"
  shows "length (p_console (handleEvent s ev)) \<le> 500 \<and>
         length (p_network (handleEvent s ev)) \<le> 1000"
  using assms
  by (cases "(s, ev)" rule: handleEvent.cases) (simp_all add: pushRing_bounded)

text \<open>
  Claim C5. Whatever events the page reports to a session whose buffers start empty, as
  the constructor leaves them, the console buffer never holds more than 500 records and
  the network buffer never more than 1000; each buffer holds exactly the most recent
  records inserted, in the order of their insertion. In particular, after 600 console
  records the buffer holds the last 500 of them, in their original order.
\<close>

theorem ring_buffers_keep_most_recent:
  assumes "p_console s = []" and "p_network s = []"
  shows "length (p_console (foldl handleEvent s evs)) \<le> 500 \<and>
         length (p_network (foldl handleEvent s evs)) \<le> 1000 \<and>
         p_console (foldl handleEvent s evs) =
           drop (length (consoleRecords (clock s) evs) - 500) (consoleRecords (clock s) evs) \<and>
         p_network (foldl handleEvent s evs) =
           drop (length (networkRecords (clock s) evs) - 1000) (networkRecords (clock s) evs) \<and>
         (length (consoleRecords (clock s) evs) = 600 \<longrightarrow>
            length (p_console (foldl handleEvent s evs)) = 500 \<and>
            p_console (foldl handleEvent s evs) = drop 100 (consoleRecords (clock s) evs))"
proof -
  have c: "p_console (foldl handleEvent s evs) =
      drop (length (consoleRecords (clock s) evs) - 500) (consoleRecords (clock s) evs)"
    using assms by (simp add: console_handleEvent foldl_pushRing)
  have n: "p_network (foldl handleEvent s evs) =
      drop (length (networkRecords (clock s) evs) - 1000) (networkRecords (clock s) evs)"
    using assms by (simp add: network_handleEvent foldl_pushRing)
  have lc: "length (p_console (foldl handleEvent s evs)) \<le> 500"
    unfolding c by simp
  have ln: "length (p_network (foldl handleEvent s evs)) \<le> 1000"
    unfolding n by simp
  show ?thesis
    using c n lc ln by simp
qed

text \<open>
  Six hundred console messages, told apart by their texts, reported to a session just
  constructed: the buffer holds messages 100 to 599.
\<close>

theorem ring_buffers_keep_most_recent_witness:
  "p_console freshEyes = [] \<and> p_network freshEyes = [] \<and>
   length (consoleRecords (clock freshEyes)
     (map (\<lambda>k. Console ''log'' (replicate k (CHR ''x''))) [0..<600])) = 600 \<and>
   p_console (foldl handleEvent freshEyes
     (map (\<lambda>k. Console ''log'' (replicate k (CHR ''x''))) [0..<600])) =
   map (\<lambda>k. \<lparr>c_type = ''log'', c_text = replicate k (CHR ''x''), c_ts = 0\<rparr>) [100..<600]"
  using ring_buffers_keep_most_recent
    [of freshEyes "map (\<lambda>k. Console ''log'' (replicate k (CHR ''x''))) [0..<600]"]
  by (simp add: fresh_buffers consoleRecords_map drop_map)

subsection \<open>Actions change neither the handles nor the buffers\<close>

lemma sameSession_refl [simp]: "sameSession s s"
  by (simp add: sameSession_def)

lemma sameSession_trans: "sameSession s t \<Longrightarrow> sameSession t u \<Longrightarrow> sameSession s u"
  by (simp add: sameSession_def)

lemma sameSession_upd [simp]:
  "sameSession s (t\<lparr>p_metrics := m\<rparr>) = sameSession s t"
  "sameSession s (t\<lparr>calls := c\<rparr>) = sameSession s t"
  "sameSession s (t\<lparr>clock := k\<rparr>) = sameSession s t"
  "sameSession s (t\<lparr>draws := d\<rparr>) = sameSession s t"
  by (simp_all add: sameSession_def)

lemma engine_frame [simp]: "sameSession s (snd (engine E c t)) = sameSession s t"
  by (simp add: engine_def Let_def)

lemma helpers_frame [simp]:
  "sameSession s (microIdle E t) = sameSession s t"
  "sameSession s (afterAction a st t) = sameSession s t"
  "sameSession s (countError t) = sameSession s t"
  "sameSession s (snd (mathRandom E t)) = sameSession s t"
  by (simp_all add: microIdle_def afterAction_def countError_def mathRandom_def Let_def)

lemma suggest_frame [simp]:
  "sameSession s (snd (suggestSelectors E sel t)) = sameSession s t"
  by (simp add: suggestSelectors_def engine_def Let_def split: reply.split jsval.split)

lemma navigate_frame: "sameSession s (snd (eyes_navigate E args s))"
  by (simp add: eyes_navigate_def engine_def Let_def microIdle_def
      split: reply.split sum.split)

lemma wait_frame: "sameSession s (snd (eyes_wait E args s))"
  by (simp add: eyes_wait_def wait_try_def engine_def Let_def split: reply.split)

lemma click_frame: "sameSession s (snd (eyes_click E args s))"
  by (simp add: eyes_click_def click_try_def engine_def Let_def microIdle_def case_prod_beta
      split: reply.split option.split)

lemma type_frame: "sameSession s (snd (eyes_type E args s))"
  by (simp add: eyes_type_def engine_def Let_def split: reply.split)

lemma scroll_frame: "sameSession s (snd (eyes_scroll E args s))"
  by (simp add: eyes_scroll_def engine_def Let_def split: reply.split)

lemma keys_frame: "sameSession s (snd (eyes_keys E args s))"
  by (simp add: eyes_keys_def engine_def Let_def split: reply.split)

lemma exec_frame: "sameSession s (snd (eyes_exec E args s))"
  by (simp add: eyes_exec_def engine_def Let_def split: reply.split)

lemma dispatch_frame: "sameSession s (snd (dispatch E act args s))"
  by (simp add: dispatch_def navigate_frame wait_frame click_frame type_frame scroll_frame
      keys_frame exec_frame)

lemma dispatch_keeps_buffers:
  "p_console (snd (dispatch E act args s)) = p_console s \<and>
   p_network (snd (dispatch E act args s)) = p_network s"
  using dispatch_frame [of s E act args] by (simp add: sameSession_def)

lemma attempt_frame: "sameSession s (snd (attempt E act args n i s))"
proof (induction E act args n i s rule: attempt.induct)
  case (1 E act args attempts i s)
  obtain r s1 where d: "dispatch E act args s = (r, s1)"
    by force
  have f1: "sameSession s s1"
    using dispatch_frame [of s E act args] d by simp
  obtain rr s2 where m: "mathRandom E s1 = (rr, s2)"
    by force
  have f2: "sameSession s1 s2"
    using helpers_frame(4) [of s1 E s1] m by simp
  obtain w s3 where w: "eyes_wait E (sleepArgs (backoff i rr)) s2 = (w, s3)"
    by force
  have f3: "sameSession s2 s3"
    using wait_frame [of s2 E "sleepArgs (backoff i rr)"] w by simp
  have f13: "sameSession s s3"
    using f1 f2 f3 sameSession_trans by blast
  show ?case
  proof (cases "i < attempts")
    case False
    then show ?thesis
      by (subst attempt.simps) simp
  next
    case lt: True
    show ?thesis
    proof (cases r)
      case (Inr v)
      then show ?thesis
        using lt d f1 by (subst attempt.simps) simp
    next
      case (Inl e)
      show ?thesis
      proof (cases "i \<noteq> attempts - 1")
        case False
        then show ?thesis
          using lt d Inl f1 by (subst attempt.simps) simp
      next
        case retry: True
        show ?thesis
        proof (cases w)
          case (Inl e')
          then show ?thesis
            using lt d \<open>r = Inl e\<close> retry m w f13 by (subst attempt.simps) simp
        next
          case (Inr v)
          have "sameSession s3 (snd (attempt E act args attempts (i + 1) s3))"
            using "1.IH" [OF lt d [symmetric] \<open>r = Inl e\<close> retry m [symmetric] w [symmetric] Inr]
            by simp
          then have "sameSession s (snd (attempt E act args attempts (i + 1) s3))"
            using f13 sameSession_trans by blast
          then show ?thesis
            using lt d \<open>r = Inl e\<close> retry m w Inr by (subst attempt.simps) simp
        qed
      qed
    qed
  qed
qed

lemma execute_frame: "sameSession s (snd (execute E st s))"
  by (simp add: execute_def Let_def attempt_frame)

lemma runSteps_frame: "sameSession s (snd (runSteps E p started sts le s))"
proof (induction sts arbitrary: le s)
  case Nil
  show ?case by simp
next
  case (Cons st sts)
  obtain r s1 where e: "execute E st s = (r, s1)"
    by force
  have f: "sameSession s s1"
    using execute_frame [of s E st] e by simp
  have "sameSession s (snd (runSteps E p started sts le' s1))" for le'
    using Cons.IH [of s1 le'] f sameSession_trans by blast
  then show ?case
    using e f by (simp split: option.split)
qed

subsection \<open>Sessions that are not open\<close>

lemma eyes_close_unopened:
  "\<not> page s \<Longrightarrow> \<not> ctx s \<Longrightarrow> \<not> browser s \<Longrightarrow> \<not> p_frameInterval s \<Longrightarrow> eyes_close E s = s"
  by (simp add: eyes_close_def)

lemma eyes_close_handles:
  "\<not> page (eyes_close E s) \<and> \<not> ctx (eyes_close E s) \<and> \<not> browser (eyes_close E s) \<and>
   \<not> p_frameInterval (eyes_close E s)"
  by (simp add: eyes_close_def Let_def engine_def)

lemma dispatch_not_open:
  assumes "\<not> page s"
    and "act \<in> set [''navigate'', ''click'', ''type'', ''wait'', ''scroll'', ''keys'', ''exec'']"
  shows "dispatch E act args s = (Inl (EyesError INTERNAL ''Eyes not opened'' None), s)"
  using assms
  by (auto simp: dispatch_def eyes_navigate_def eyes_click_def eyes_type_def eyes_wait_def
      eyes_scroll_def eyes_keys_def eyes_exec_def notOpened_def newEyesError_def)

text \<open>
  Claim C8. Closing a session that was never opened changes nothing and raises nothing
  (close returns no error in any case: it swallows the engine's), and closing twice is
  closing once. On a session whose page handle is absent, as before open and after close,
  each of the seven actions, and each of screenshot, dom and state, throws the Internal
  error "Eyes not opened" at once, with no engine call and no other effect.
\<close>

theorem closed_session_fails_fast:
  "eyes_close E (newAgentEyes opts hook now) = newAgentEyes opts hook now \<and>
   eyes_close E (eyes_close E s) = eyes_close E s \<and>
   \<not> page (eyes_close E s) \<and>
   (\<not> page s \<longrightarrow>
      (act \<in> set [''navigate'', ''click'', ''type'', ''wait'', ''scroll'', ''keys'', ''exec''] \<longrightarrow>
         dispatch E act args s = (Inl (EyesError INTERNAL ''Eyes not opened'' None), s)) \<and>
      eyes_screenshot E sargs s = (Inl (EyesError INTERNAL ''Eyes not opened'' None), s) \<and>
      eyes_dom E dopts s = (Inl (EyesError INTERNAL ''Eyes not opened'' None), s) \<and>
      eyes_state E s = (Inl (EyesError INTERNAL ''Eyes not opened'' None), s))"
proof -
  have a: "eyes_close E (newAgentEyes opts hook now) = newAgentEyes opts hook now"
    by (rule eyes_close_unopened) (simp_all add: newAgentEyes_def)
  have b: "eyes_close E (eyes_close E s) = eyes_close E s"
    by (rule eyes_close_unopened) (simp_all add: eyes_close_handles)
  have c: "\<not> page (eyes_close E s)"
    by (simp add: eyes_close_handles)
  have d: "eyes_screenshot E sargs s = (Inl (EyesError INTERNAL ''Eyes not opened'' None), s)"
    "eyes_dom E dopts s = (Inl (EyesError INTERNAL ''Eyes not opened'' None), s)"
    "eyes_state E s = (Inl (EyesError INTERNAL ''Eyes not opened'' None), s)"
    if "\<not> page s"
    using that
    by (simp_all add: eyes_screenshot_def eyes_dom_def eyes_state_def notOpened_def
        newEyesError_def)
  show ?thesis
    using a b c d dispatch_not_open [of s act E args] by blast
qed

text \<open>
  A session just constructed, and the open session after close: a click on either throws
  "Eyes not opened".
\<close>

theorem closed_session_fails_fast_witness:
  "eyes_close calmEnv freshEyes = freshEyes \<and>
   \<not> page freshEyes \<and>
   dispatch calmEnv ''navigate'' noArgs freshEyes =
     (Inl (EyesError INTERNAL ''Eyes not opened'' None), freshEyes) \<and>
   \<not> page (eyes_close calmEnv openEyes) \<and>
   dispatch calmEnv ''click'' clickSettings (eyes_close calmEnv openEyes) =
     (Inl (EyesError INTERNAL ''Eyes not opened'' None), eyes_close calmEnv openEyes)"
proof -
  have p: "\<not> page freshEyes"
    by (simp add: freshEyes_def newAgentEyes_def)
  have q: "\<not> page (eyes_close calmEnv openEyes)"
    using closed_session_fails_fast [where s = openEyes and E = calmEnv] by blast
  have m1: "''navigate'' \<in> set [''navigate'', ''click'', ''type'', ''wait'', ''scroll'', ''keys'', ''exec'']"
    and m2: "''click'' \<in> set [''navigate'', ''click'', ''type'', ''wait'', ''scroll'', ''keys'', ''exec'']"
    by simp_all
  have a: "eyes_close calmEnv freshEyes = freshEyes"
    using closed_session_fails_fast
      [where E = calmEnv and opts = defaultOptions and hook = None and now = 0]
    unfolding freshEyes_def by blast
  have b: "dispatch calmEnv ''navigate'' noArgs freshEyes =
     (Inl (EyesError INTERNAL ''Eyes not opened'' None), freshEyes)"
    using closed_session_fails_fast
      [where s = freshEyes and E = calmEnv and act = "''navigate''" and args = noArgs] p m1
    by blast
  have c: "dispatch calmEnv ''click'' clickSettings (eyes_close calmEnv openEyes) =
     (Inl (EyesError INTERNAL ''Eyes not opened'' None), eyes_close calmEnv openEyes)"
    using closed_session_fails_fast
      [where s = "eyes_close calmEnv openEyes" and E = calmEnv and act = "''click''"
        and args = clickSettings] q m2
    by blast
  show ?thesis
    using a p b q c by blast
qed

subsection \<open>The runner\<close>

text \<open>
  Claim C7. A call of run without a plan, with a plan whose steps are missing, or with
  more than 50 steps throws a BadInput error and leaves the session and the world as they
  were: no engine call, no metric, no clock read and no random draw happened.
\<close>

theorem run_rejects_before_execution:
  assumes "case pl of None \<Rightarrow> True
           | Some p \<Rightarrow> (case steps p of None \<Rightarrow> True | Some sts \<Rightarrow> 50 < length sts)"
  shows "(\<exists>m. fst (run E pl s) = Inl (EyesError BAD_INPUT m None)) \<and> snd (run E pl s) = s"
  using assms by (auto simp: run_def newEyesError_def split: option.splits)

theorem run_rejects_before_execution_witness:
  "fst (run calmEnv (Some \<lparr>goal = ''too long'',
          steps = Some (replicate 51 \<lparr>action = ''keys'', s_args = None\<rparr>),
          abortOnError = None, maxDurationMs = None\<rparr>) openEyes)
     = Inl (EyesError BAD_INPUT ''Too many steps (>50)'' None) \<and>
   snd (run calmEnv (Some \<lparr>goal = ''too long'',
          steps = Some (replicate 51 \<lparr>action = ''keys'', s_args = None\<rparr>),
          abortOnError = None, maxDurationMs = None\<rparr>) openEyes) = openEyes \<and>
   fst (run calmEnv (Some \<lparr>goal = ''no steps'', steps = None,
          abortOnError = None, maxDurationMs = None\<rparr>) openEyes)
     = Inl (EyesError BAD_INPUT ''Runner requires steps[]'' None)"
  using run_rejects_before_execution
    [of "Some \<lparr>goal = ''too long'',
          steps = Some (replicate 51 \<lparr>action = ''keys'', s_args = None\<rparr>),
          abortOnError = None, maxDurationMs = None\<rparr>" calmEnv openEyes]
  by (simp add: run_def newEyesError_def)

subsection \<open>The report of a run\<close>

lemma loopTrace_Nil: "loopTrace E p started [] s tr = (tr = [])"
  by (auto simp add: loopTrace_def)

lemma loopTrace_Cons_Nil: "\<not> loopTrace E p started (st # rest) s []"
  by (simp add: loopTrace_def)

lemma loopTrace_Cons:
  "loopTrace E p started (st # rest) s (x # xs) =
     (execute E st s = x \<and>
      (if breaksAt p started x then xs = [] else loopTrace E p started rest (snd x) xs))"
proof (cases "breaksAt p started x")
  case True
  have "loopTrace E p started (st # rest) s (x # xs) = (execute E st s = x \<and> xs = [])"
  proof
    assume t: "loopTrace E p started (st # rest) s (x # xs)"
    have "execute E st s = x"
      using t by (auto simp add: loopTrace_def)
    moreover have "Suc 0 = length (x # xs)"
      using t True by (auto simp add: loopTrace_def)
    ultimately show "execute E st s = x \<and> xs = []" by simp
  next
    assume "execute E st s = x \<and> xs = []"
    then show "loopTrace E p started (st # rest) s (x # xs)"
      using True by (simp add: loopTrace_def)
  qed
  then show ?thesis using True by simp
next
  case False
  have "loopTrace E p started (st # rest) s (x # xs) =
      (execute E st s = x \<and> loopTrace E p started rest (snd x) xs)"
  proof
    assume t: "loopTrace E p started (st # rest) s (x # xs)"
    have 0: "execute E st s = x"
      using t by (auto simp add: loopTrace_def)
    have 1: "length xs \<le> length rest"
      using t by (simp add: loopTrace_def)
    have 2: "execute E (rest ! i) ((snd x # map snd xs) ! i) = xs ! i" if "i < length xs" for i
    proof -
      have "Suc i < length (x # xs)" using that by simp
      then have "execute E ((st # rest) ! Suc i) ((s # map snd (x # xs)) ! Suc i) = (x # xs) ! Suc i"
        using t unfolding loopTrace_def by blast
      then show ?thesis by simp
    qed
    have 3: "Suc i = length xs" if "i < length xs" "breaksAt p started (xs ! i)" for i
    proof -
      have "Suc i < length (x # xs)" "breaksAt p started ((x # xs) ! Suc i)"
        using that by simp_all
      then have "Suc (Suc i) = length (x # xs)"
        using t unfolding loopTrace_def by blast
      then show ?thesis by simp
    qed
    have 4: "xs \<noteq> [] \<and> breaksAt p started (last xs)" if "length xs < length rest"
    proof -
      have "length (x # xs) < length (st # rest)" using that by simp
      then have b: "breaksAt p started (last (x # xs))"
        using t unfolding loopTrace_def by blast
      show ?thesis
      proof (cases "xs = []")
        case True
        then show ?thesis using b False by simp
      next
        case False
        then show ?thesis using b by simp
      qed
    qed
    show "execute E st s = x \<and> loopTrace E p started rest (snd x) xs"
      using 0 1 2 3 4 unfolding loopTrace_def [of E p started rest] by blast
  next
    assume a: "execute E st s = x \<and> loopTrace E p started rest (snd x) xs"
    then have sub: "loopTrace E p started rest (snd x) xs" by simp
    have 1: "length (x # xs) \<le> length (st # rest)"
      using sub by (simp add: loopTrace_def)
    have 2: "execute E ((st # rest) ! i) ((s # map snd (x # xs)) ! i) = (x # xs) ! i"
      if "i < length (x # xs)" for i
    proof (cases i)
      case 0
      then show ?thesis using a by simp
    next
      case (Suc j)
      then have "j < length xs" using that by simp
      then have "execute E (rest ! j) ((snd x # map snd xs) ! j) = xs ! j"
        using sub unfolding loopTrace_def by blast
      then show ?thesis using Suc by simp
    qed
    have 3: "Suc i = length (x # xs)"
      if "i < length (x # xs)" "breaksAt p started ((x # xs) ! i)" for i
    proof (cases i)
      case 0
      then show ?thesis using that False by simp
    next
      case (Suc j)
      then have "j < length xs" "breaksAt p started (xs ! j)" using that by simp_all
      then have "Suc j = length xs"
        using sub unfolding loopTrace_def by blast
      then show ?thesis using Suc by simp
    qed
    have 4: "x # xs \<noteq> [] \<and> breaksAt p started (last (x # xs))"
      if "length (x # xs) < length (st # rest)"
    proof -
      have "length xs < length rest" using that by simp
      then have "xs \<noteq> [] \<and> breaksAt p started (last xs)"
        using sub unfolding loopTrace_def by blast
      then show ?thesis by simp
    qed
    show "loopTrace E p started (st # rest) s (x # xs)"
      using 1 2 3 4 unfolding loopTrace_def [of E p started "st # rest"] by blast
  qed
  then show ?thesis using False by simp
qed

lemma loopTrace_exists: "\<exists>tr. loopTrace E p started sts s tr"
proof (induction sts arbitrary: s)
  case Nil
  show ?case by (simp add: loopTrace_Nil)
next
  case (Cons st rest)
  obtain xs where xs: "loopTrace E p started rest (snd (execute E st s)) xs"
    using Cons.IH by blast
  show ?case
  proof (cases "breaksAt p started (execute E st s)")
    case True
    then have "loopTrace E p started (st # rest) s [execute E st s]"
      by (simp add: loopTrace_Cons)
    then show ?thesis ..
  next
    case False
    then have "loopTrace E p started (st # rest) s (execute E st s # xs)"
      using xs by (simp add: loopTrace_Cons)
    then show ?thesis ..
  qed
qed

lemma runSteps_trace:
  "loopTrace E p started sts s tr \<Longrightarrow>
   runSteps E p started sts le s =
     (last (le # filter (\<lambda>r. r \<noteq> None) (map fst tr)), last (s # map snd tr))"
proof (induction sts arbitrary: s tr le)
  case Nil
  then show ?case by (simp add: loopTrace_Nil)
next
  case (Cons st rest)
  obtain x xs where tr: "tr = x # xs"
    using Cons.prems by (cases tr) (simp_all add: loopTrace_Cons_Nil)
  obtain r s1 where x: "x = (r, s1)" by (cases x)
  have ex: "execute E st s = (r, s1)"
    using Cons.prems by (simp add: tr x loopTrace_Cons)
  show ?case
  proof (cases "breaksAt p started (r, s1)")
    case True
    then have xs: "xs = []"
      using Cons.prems by (simp add: tr x loopTrace_Cons)
    show ?thesis
      using True by (cases r) (auto simp add: tr x xs ex breaksAt_def)
  next
    case False
    then have sub: "loopTrace E p started rest s1 xs"
      using Cons.prems by (simp add: tr x loopTrace_Cons)
    show ?thesis
      using False Cons.IH [OF sub] by (cases r) (auto simp add: tr x ex breaksAt_def)
  qed
qed


lemma last_error_None:
  "(last (None # filter (\<lambda>r. r \<noteq> None) rs) = None) = (\<forall>r\<in>set rs. r = None)"
proof (cases "filter (\<lambda>r. r \<noteq> None) rs = []")
  case True
  then show ?thesis by (simp add: filter_empty_conv)
next
  case False
  then have "last (filter (\<lambda>r. r \<noteq> None) rs) \<in> set (filter (\<lambda>r. r \<noteq> None) rs)"
    by (rule last_in_set)
  then have "last (filter (\<lambda>r. r \<noteq> None) rs) \<noteq> None" by simp
  moreover have "\<not> (\<forall>r\<in>set rs. r = None)"
    using False by (simp add: filter_empty_conv)
  ultimately show ?thesis using False by auto
qed

text \<open>
  Claim C1, as the code has it. A call of run with a plan whose steps are there and are
  at most 50 returns a report and throws nothing, whatever the steps and the engine do.
  The loop over the steps has a trace, and for every trace of it: the report's success
  flag is set exactly when no step of the trace threw, and exactly when the error field
  is absent; the error field describes the last error of the trace, a failure of a later
  step as much as one of the first; and whether the loop failed or not, the screenshot is
  taken in the state the trace ends in, then the DOM snippet, then the state, each in the
  state that the call before it left, and each is the null placeholder exactly when its
  call throws. (A plan that fails validation is thrown as BadInput instead: no report is
  produced for it.)
\<close>

theorem run_returns_report:
  assumes "steps p = Some sts" and "length sts \<le> 50"
  shows "\<exists>rep s'.
     run E (Some p) s = (Inr rep, s') \<and>
     traceId rep = (clock s, fst (mathRandom E s)) \<and>
     (\<exists>tr. loopTrace E p (clock s) sts (snd (mathRandom E s)) tr) \<and>
     (\<forall>tr t0 t1 t2.
        loopTrace E p (clock s) sts (snd (mathRandom E s)) tr \<longrightarrow>
        t0 = last (snd (mathRandom E s) # map snd tr) \<longrightarrow>
        t1 = snd (eyes_screenshot E finalShot t0) \<longrightarrow>
        t2 = snd (eyes_dom E finalDom t1) \<longrightarrow>
        success rep = (\<forall>x\<in>set tr. fst x = None) \<and>
        success rep = (error rep = None) \<and>
        error rep = map_option errorInfo (last (None # filter (\<lambda>r. r \<noteq> None) (map fst tr))) \<and>
        screenshot rep =
          (case fst (eyes_screenshot E finalShot t0) of Inl e \<Rightarrow> None | Inr v \<Rightarrow> Some v) \<and>
        domSnippet rep =
          (case fst (eyes_dom E finalDom t1) of Inl e \<Rightarrow> None | Inr v \<Rightarrow> Some v) \<and>
        lastState rep =
          (case fst (eyes_state E t2) of Inl e \<Rightarrow> None | Inr v \<Rightarrow> Some v) \<and>
        s' = snd (eyes_state E t2))"
proof -
  define s0 where "s0 = snd (mathRandom E s)"
  define loop where "loop = runSteps E p (clock s) sts None s0"
  define a where "a = eyes_screenshot E finalShot (snd loop)"
  define b where "b = eyes_dom E finalDom (snd a)"
  define c where "c = eyes_state E (snd b)"
  define rep where "rep =
    \<lparr>success = (fst loop = None), traceId = (clock s, fst (mathRandom E s)),
     lastState = (case fst c of Inl e \<Rightarrow> None | Inr v \<Rightarrow> Some v),
     screenshot = (case fst a of Inl e \<Rightarrow> None | Inr v \<Rightarrow> Some v),
     domSnippet = (case fst b of Inl e \<Rightarrow> None | Inr v \<Rightarrow> Some v),
     error = map_option errorInfo (fst loop)\<rparr>"
  have orNull: "orNull x = ((case fst x of Inl e \<Rightarrow> None | Inr v \<Rightarrow> Some v), snd x)"
    for x :: "('e + 'a) \<times> eyes"
    by (cases x) (simp add: orNull_def split: sum.split)
  have r: "run E (Some p) s = (Inr rep, snd c)"
    using assms
    by (simp add: run_def Let_def case_prod_beta orNull rep_def c_def b_def a_def loop_def
        s0_def)
  have tr: "loop = (last (None # filter (\<lambda>r. r \<noteq> None) (map fst tr)), last (s0 # map snd tr))"
    if "loopTrace E p (clock s) sts s0 tr" for tr
    unfolding loop_def by (rule runSteps_trace [OF that])
  have ok: "(fst loop = None) = (\<forall>x\<in>set tr. fst x = None)"
    if "loopTrace E p (clock s) sts s0 tr" for tr
    using last_error_None [of "map fst tr"] by (simp add: tr [OF that])
  have id: "traceId rep = (clock s, fst (mathRandom E s))"
    by (simp add: rep_def)
  have ex: "\<exists>tr. loopTrace E p (clock s) sts (snd (mathRandom E s)) tr"
    by (rule loopTrace_exists)
  have every: "\<forall>tr t0 t1 t2.
        loopTrace E p (clock s) sts (snd (mathRandom E s)) tr \<longrightarrow>
        t0 = last (snd (mathRandom E s) # map snd tr) \<longrightarrow>
        t1 = snd (eyes_screenshot E finalShot t0) \<longrightarrow>
        t2 = snd (eyes_dom E finalDom t1) \<longrightarrow>
        success rep = (\<forall>x\<in>set tr. fst x = None) \<and>
        success rep = (error rep = None) \<and>
        error rep = map_option errorInfo (last (None # filter (\<lambda>r. r \<noteq> None) (map fst tr))) \<and>
        screenshot rep =
          (case fst (eyes_screenshot E finalShot t0) of Inl e \<Rightarrow> None | Inr v \<Rightarrow> Some v) \<and>
        domSnippet rep =
          (case fst (eyes_dom E finalDom t1) of Inl e \<Rightarrow> None | Inr v \<Rightarrow> Some v) \<and>
        lastState rep =
          (case fst (eyes_state E t2) of Inl e \<Rightarrow> None | Inr v \<Rightarrow> Some v) \<and>
        snd c = snd (eyes_state E t2)"
  proof (intro allI impI conjI)
    fix tr t0 t1 t2
    assume t: "loopTrace E p (clock s) sts (snd (mathRandom E s)) tr"
      and t0: "t0 = last (snd (mathRandom E s) # map snd tr)"
      and t1: "t1 = snd (eyes_screenshot E finalShot t0)"
      and t2: "t2 = snd (eyes_dom E finalDom t1)"
    have t': "loopTrace E p (clock s) sts s0 tr"
      using t by (simp add: s0_def)
    have l: "snd loop = t0" and e: "fst loop = last (None # filter (\<lambda>r. r \<noteq> None) (map fst tr))"
      by (simp_all add: tr [OF t'] t0 s0_def)
    have sa: "snd a = t1" and sb: "snd b = t2"
      by (simp_all add: a_def b_def l t1 t2)
    show "success rep = (\<forall>x\<in>set tr. fst x = None)"
      using ok [OF t'] by (simp add: rep_def)
    show "success rep = (error rep = None)"
      by (simp add: rep_def)
    show "error rep = map_option errorInfo (last (None # filter (\<lambda>r. r \<noteq> None) (map fst tr)))"
      by (simp add: rep_def e)
    show "screenshot rep =
          (case fst (eyes_screenshot E finalShot t0) of Inl e \<Rightarrow> None | Inr v \<Rightarrow> Some v)"
      by (simp add: rep_def a_def l)
    show "domSnippet rep =
          (case fst (eyes_dom E finalDom t1) of Inl e \<Rightarrow> None | Inr v \<Rightarrow> Some v)"
      by (simp add: rep_def b_def sa)
    show "lastState rep =
          (case fst (eyes_state E t2) of Inl e \<Rightarrow> None | Inr v \<Rightarrow> Some v)"
      by (simp add: rep_def c_def sb)
    show "snd c = snd (eyes_state E t2)"
      by (simp add: c_def sb)
  qed
  show ?thesis
    by (intro exI [of _ rep] exI [of _ "snd c"] conjI r id ex every)
qed

text \<open>
  On the open session, in a world whose call number 6 raises. Two key presses, the second
  of which fails, are reported as a failure with the error of the second, and the
  screenshot, the DOM snippet and the state taken afterwards are in the report. Three key
  presses with \<^verbatim>\<open>abortOnError: false\<close>, the second of which fails, are reported as a
  failure with the same error although the third returned. One key press is reported as
  a success; the screenshot then fails and is the null placeholder, the DOM snippet and
  the state are there.
\<close>

theorem run_returns_report_witness:
  "fst (run lateEnv (Some twoKeysPlan) openEyes) =
      Inr \<lparr>success = False, traceId = (5, 7),
          lastState = Some \<lparr>st_url = ''PNG'', st_title = ''PNG'', st_viewport = (1280, 800),
            consoleCount = 0, networkCount = 0\<rparr>,
          screenshot = Some \<lparr>buffer = ''PNG'', dataUrl = ''data:image/webp;base64,UE5H'', mime = ''image/webp''\<rparr>,
          domSnippet = Some (Some (Info ''li'' [] (Some ''item'') [])),
          error = Some \<lparr>ei_code = INTERNAL, ei_message = ''Timeout'', ei_hint = None\<rparr>\<rparr> \<and>
   fst (run lateEnv (Some carryOnPlan) openEyes) =
      Inr \<lparr>success = False, traceId = (5, 7),
          lastState = Some \<lparr>st_url = ''PNG'', st_title = ''PNG'', st_viewport = (1280, 800),
            consoleCount = 0, networkCount = 0\<rparr>,
          screenshot = Some \<lparr>buffer = ''PNG'', dataUrl = ''data:image/webp;base64,UE5H'', mime = ''image/webp''\<rparr>,
          domSnippet = Some (Some (Info ''li'' [] (Some ''item'') [])),
          error = Some \<lparr>ei_code = INTERNAL, ei_message = ''Timeout'', ei_hint = None\<rparr>\<rparr> \<and>
   fst (run lateEnv (Some keysPlan) openEyes) =
      Inr \<lparr>success = True, traceId = (5, 7),
          lastState = Some \<lparr>st_url = ''PNG'', st_title = ''PNG'', st_viewport = (1280, 800),
            consoleCount = 0, networkCount = 0\<rparr>,
          screenshot = None,
          domSnippet = Some (Some (Info ''li'' [] (Some ''item'') [])),
          error = None\<rparr>"
proof -
  have start: "snd (mathRandom lateEnv openEyes) =
      \<lparr>options = \<lparr>allowNavigationTo = None, blockPrivateIPs = Some True\<rparr>,
       canvasHook = Some True, browser = True, ctx = True, page = True,
       p_frameInterval = True, p_console = [], p_network = [],
       p_metrics = \<lparr>actions = 0, totalDurationMs = 0, errors = 0\<rparr>,
       calls = [Launch, NewContext, NewPage, AddInitScript, EvaluateInstaller],
       clock = 5, draws = 1\<rparr>"
    "fst (mathRandom lateEnv openEyes) = 7" "clock openEyes = 5"
    by (simp_all add: openEyes_eq mathRandom_def lateEnv_def)
  have item: "nodeInfo 3 True listItem (Suc 0) = Some (Info ''li'' [] (Some ''item'') [])"
    by (subst nodeInfo.simps) (simp add: listItem_def lowerChar_def attrsOf_def)
  have e1: "execute lateEnv keysStep \<lparr>options = \<lparr>allowNavigationTo = None, blockPrivateIPs = Some True\<rparr>,
       canvasHook = Some True, browser = True, ctx = True, page = True,
       p_frameInterval = True, p_console = [], p_network = [],
       p_metrics = \<lparr>actions = 0, totalDurationMs = 0, errors = 0\<rparr>,
       calls = [Launch, NewContext, NewPage, AddInitScript, EvaluateInstaller],
       clock = 5, draws = 1\<rparr> =
      (None, \<lparr>options = \<lparr>allowNavigationTo = None, blockPrivateIPs = Some True\<rparr>,
       canvasHook = Some True, browser = True, ctx = True, page = True,
       p_frameInterval = True, p_console = [], p_network = [],
       p_metrics = \<lparr>actions = 1, totalDurationMs = 2, errors = 0\<rparr>,
       calls = [Launch, NewContext, NewPage, AddInitScript, EvaluateInstaller, KeyboardPress (Some ''Enter'')],
       clock = 7, draws = 1\<rparr>)"
    by (simp add: run_defs eval_defs attempt.simps lateEnv_def item)
  have e2: "execute lateEnv keysStep \<lparr>options = \<lparr>allowNavigationTo = None, blockPrivateIPs = Some True\<rparr>,
       canvasHook = Some True, browser = True, ctx = True, page = True,
       p_frameInterval = True, p_console = [], p_network = [],
       p_metrics = \<lparr>actions = 1, totalDurationMs = 2, errors = 0\<rparr>,
       calls = [Launch, NewContext, NewPage, AddInitScript, EvaluateInstaller, KeyboardPress (Some ''Enter'')],
       clock = 7, draws = 1\<rparr> =
      (Some (EyesError INTERNAL ''Timeout'' None), \<lparr>options = \<lparr>allowNavigationTo = None, blockPrivateIPs = Some True\<rparr>,
       canvasHook = Some True, browser = True, ctx = True, page = True,
       p_frameInterval = True, p_console = [], p_network = [],
       p_metrics = \<lparr>actions = 1, totalDurationMs = 2, errors = 1\<rparr>,
       calls = [Launch, NewContext, NewPage, AddInitScript, EvaluateInstaller, KeyboardPress (Some ''Enter''), KeyboardPress (Some ''Enter'')],
       clock = 9, draws = 1\<rparr>)"
    by (simp add: run_defs eval_defs attempt.simps lateEnv_def item)
  have e3: "execute lateEnv keysStep \<lparr>options = \<lparr>allowNavigationTo = None, blockPrivateIPs = Some True\<rparr>,
       canvasHook = Some True, browser = True, ctx = True, page = True,
       p_frameInterval = True, p_console = [], p_network = [],
       p_metrics = \<lparr>actions = 1, totalDurationMs = 2, errors = 1\<rparr>,
       calls = [Launch, NewContext, NewPage, AddInitScript, EvaluateInstaller, KeyboardPress (Some ''Enter''), KeyboardPress (Some ''Enter'')],
       clock = 9, draws = 1\<rparr> =
      (None, \<lparr>options = \<lparr>allowNavigationTo = None, blockPrivateIPs = Some True\<rparr>,
       canvasHook = Some True, browser = True, ctx = True, page = True,
       p_frameInterval = True, p_console = [], p_network = [],
       p_metrics = \<lparr>actions = 2, totalDurationMs = 4, errors = 1\<rparr>,
       calls = [Launch, NewContext, NewPage, AddInitScript, EvaluateInstaller, KeyboardPress (Some ''Enter''), KeyboardPress (Some ''Enter''), KeyboardPress (Some ''Enter'')],
       clock = 11, draws = 1\<rparr>)"
    by (simp add: run_defs eval_defs attempt.simps lateEnv_def item)
  have aa: "steps twoKeysPlan = Some [keysStep, keysStep]" and al: "length [keysStep, keysStep] \<le> 50"
    by (simp_all add: twoKeysPlan_def)
  have at: "loopTrace lateEnv twoKeysPlan (clock openEyes) [keysStep, keysStep]
      (snd (mathRandom lateEnv openEyes))
      [(None, \<lparr>options = \<lparr>allowNavigationTo = None, blockPrivateIPs = Some True\<rparr>,
       canvasHook = Some True, browser = True, ctx = True, page = True,
       p_frameInterval = True, p_console = [], p_network = [],
       p_metrics = \<lparr>actions = 1, totalDurationMs = 2, errors = 0\<rparr>,
       calls = [Launch, NewContext, NewPage, AddInitScript, EvaluateInstaller, KeyboardPress (Some ''Enter'')],
       clock = 7, draws = 1\<rparr>),
       (Some (EyesError INTERNAL ''Timeout'' None), \<lparr>options = \<lparr>allowNavigationTo = None, blockPrivateIPs = Some True\<rparr>,
       canvasHook = Some True, browser = True, ctx = True, page = True,
       p_frameInterval = True, p_console = [], p_network = [],
       p_metrics = \<lparr>actions = 1, totalDurationMs = 2, errors = 1\<rparr>,
       calls = [Launch, NewContext, NewPage, AddInitScript, EvaluateInstaller, KeyboardPress (Some ''Enter''), KeyboardPress (Some ''Enter'')],
       clock = 9, draws = 1\<rparr>)]"
    using e1 e2 e3 start
    by (simp add: loopTrace_Cons loopTrace_Nil breaksAt_def overBudget_def twoKeysPlan_def)
  have a0: "\<lparr>options = \<lparr>allowNavigationTo = None, blockPrivateIPs = Some True\<rparr>,
       canvasHook = Some True, browser = True, ctx = True, page = True,
       p_frameInterval = True, p_console = [], p_network = [],
       p_metrics = \<lparr>actions = 1, totalDurationMs = 2, errors = 1\<rparr>,
       calls = [Launch, NewContext, NewPage, AddInitScript, EvaluateInstaller, KeyboardPress (Some ''Enter''), KeyboardPress (Some ''Enter'')],
       clock = 9, draws = 1\<rparr> =
      last (snd (mathRandom lateEnv openEyes) # map snd
      [(None, \<lparr>options = \<lparr>allowNavigationTo = None, blockPrivateIPs = Some True\<rparr>,
       canvasHook = Some True, browser = True, ctx = True, page = True,
       p_frameInterval = True, p_console = [], p_network = [],
       p_metrics = \<lparr>actions = 1, totalDurationMs = 2, errors = 0\<rparr>,
       calls = [Launch, NewContext, NewPage, AddInitScript, EvaluateInstaller, KeyboardPress (Some ''Enter'')],
       clock = 7, draws = 1\<rparr>),
       (Some (EyesError INTERNAL ''Timeout'' None), \<lparr>options = \<lparr>allowNavigationTo = None, blockPrivateIPs = Some True\<rparr>,
       canvasHook = Some True, browser = True, ctx = True, page = True,
       p_frameInterval = True, p_console = [], p_network = [],
       p_metrics = \<lparr>actions = 1, totalDurationMs = 2, errors = 1\<rparr>,
       calls = [Launch, NewContext, NewPage, AddInitScript, EvaluateInstaller, KeyboardPress (Some ''Enter''), KeyboardPress (Some ''Enter'')],
       clock = 9, draws = 1\<rparr>)])"
    by (simp add: start)
  have as: "eyes_screenshot lateEnv finalShot \<lparr>options = \<lparr>allowNavigationTo = None, blockPrivateIPs = Some True\<rparr>,
       canvasHook = Some True, browser = True, ctx = True, page = True,
       p_frameInterval = True, p_console = [], p_network = [],
       p_metrics = \<lparr>actions = 1, totalDurationMs = 2, errors = 1\<rparr>,
       calls = [Launch, NewContext, NewPage, AddInitScript, EvaluateInstaller, KeyboardPress (Some ''Enter''), KeyboardPress (Some ''Enter'')],
       clock = 9, draws = 1\<rparr> =
      (Inr \<lparr>buffer = ''PNG'', dataUrl = ''data:image/webp;base64,UE5H'', mime = ''image/webp''\<rparr>,
       \<lparr>options = \<lparr>allowNavigationTo = None, blockPrivateIPs = Some True\<rparr>,
       canvasHook = Some True, browser = True, ctx = True, page = True,
       p_frameInterval = True, p_console = [], p_network = [],
       p_metrics = \<lparr>actions = 2, totalDurationMs = 4, errors = 1\<rparr>,
       calls = [Launch, NewContext, NewPage, AddInitScript, EvaluateInstaller, KeyboardPress (Some ''Enter''), KeyboardPress (Some ''Enter''), TakeScreenshot ''webp'' (Some 60) False],
       clock = 11, draws = 1\<rparr>)"
    by (simp add: run_defs eval_defs attempt.simps lateEnv_def item)
  have ad: "eyes_dom lateEnv finalDom \<lparr>options = \<lparr>allowNavigationTo = None, blockPrivateIPs = Some True\<rparr>,
       canvasHook = Some True, browser = True, ctx = True, page = True,
       p_frameInterval = True, p_console = [], p_network = [],
       p_metrics = \<lparr>actions = 2, totalDurationMs = 4, errors = 1\<rparr>,
       calls = [Launch, NewContext, NewPage, AddInitScript, EvaluateInstaller, KeyboardPress (Some ''Enter''), KeyboardPress (Some ''Enter''), TakeScreenshot ''webp'' (Some 60) False],
       clock = 11, draws = 1\<rparr> =
      (Inr (Some (Info ''li'' [] (Some ''item'') [])),
       \<lparr>options = \<lparr>allowNavigationTo = None, blockPrivateIPs = Some True\<rparr>,
       canvasHook = Some True, browser = True, ctx = True, page = True,
       p_frameInterval = True, p_console = [], p_network = [],
       p_metrics = \<lparr>actions = 2, totalDurationMs = 4, errors = 1\<rparr>,
       calls = [Launch, NewContext, NewPage, AddInitScript, EvaluateInstaller, KeyboardPress (Some ''Enter''), KeyboardPress (Some ''Enter''), TakeScreenshot ''webp'' (Some 60) False, EvaluateNodeInfo 3 True],
       clock = 13, draws = 1\<rparr>)"
    by (simp add: run_defs eval_defs attempt.simps lateEnv_def item)
  have ae: "eyes_state lateEnv \<lparr>options = \<lparr>allowNavigationTo = None, blockPrivateIPs = Some True\<rparr>,
       canvasHook = Some True, browser = True, ctx = True, page = True,
       p_frameInterval = True, p_console = [], p_network = [],
       p_metrics = \<lparr>actions = 2, totalDurationMs = 4, errors = 1\<rparr>,
       calls = [Launch, NewContext, NewPage, AddInitScript, EvaluateInstaller, KeyboardPress (Some ''Enter''), KeyboardPress (Some ''Enter''), TakeScreenshot ''webp'' (Some 60) False, EvaluateNodeInfo 3 True],
       clock = 13, draws = 1\<rparr> =
      (Inr \<lparr>st_url = ''PNG'', st_title = ''PNG'', st_viewport = (1280, 800),
            consoleCount = 0, networkCount = 0\<rparr>,
       \<lparr>options = \<lparr>allowNavigationTo = None, blockPrivateIPs = Some True\<rparr>,
       canvasHook = Some True, browser = True, ctx = True, page = True,
       p_frameInterval = True, p_console = [], p_network = [],
       p_metrics = \<lparr>actions = 2, totalDurationMs = 4, errors = 1\<rparr>,
       calls = [Launch, NewContext, NewPage, AddInitScript, EvaluateInstaller, KeyboardPress (Some ''Enter''), KeyboardPress (Some ''Enter''), TakeScreenshot ''webp'' (Some 60) False, EvaluateNodeInfo 3 True, PageUrl, PageTitle, ViewportSize],
       clock = 19, draws = 1\<rparr>)"
    by (simp add: run_defs eval_defs attempt.simps lateEnv_def item)
  have a1: "\<lparr>options = \<lparr>allowNavigationTo = None, blockPrivateIPs = Some True\<rparr>,
       canvasHook = Some True, browser = True, ctx = True, page = True,
       p_frameInterval = True, p_console = [], p_network = [],
       p_metrics = \<lparr>actions = 2, totalDurationMs = 4, errors = 1\<rparr>,
       calls = [Launch, NewContext, NewPage, AddInitScript, EvaluateInstaller, KeyboardPress (Some ''Enter''), KeyboardPress (Some ''Enter''), TakeScreenshot ''webp'' (Some 60) False],
       clock = 11, draws = 1\<rparr> =
      snd (eyes_screenshot lateEnv finalShot \<lparr>options = \<lparr>allowNavigationTo = None, blockPrivateIPs = Some True\<rparr>,
       canvasHook = Some True, browser = True, ctx = True, page = True,
       p_frameInterval = True, p_console = [], p_network = [],
       p_metrics = \<lparr>actions = 1, totalDurationMs = 2, errors = 1\<rparr>,
       calls = [Launch, NewContext, NewPage, AddInitScript, EvaluateInstaller, KeyboardPress (Some ''Enter''), KeyboardPress (Some ''Enter'')],
       clock = 9, draws = 1\<rparr>)"
    by (simp only: as snd_conv)
  have a2: "\<lparr>options = \<lparr>allowNavigationTo = None, blockPrivateIPs = Some True\<rparr>,
       canvasHook = Some True, browser = True, ctx = True, page = True,
       p_frameInterval = True, p_console = [], p_network = [],
       p_metrics = \<lparr>actions = 2, totalDurationMs = 4, errors = 1\<rparr>,
       calls = [Launch, NewContext, NewPage, AddInitScript, EvaluateInstaller, KeyboardPress (Some ''Enter''), KeyboardPress (Some ''Enter''), TakeScreenshot ''webp'' (Some 60) False, EvaluateNodeInfo 3 True],
       clock = 13, draws = 1\<rparr> =
      snd (eyes_dom lateEnv finalDom \<lparr>options = \<lparr>allowNavigationTo = None, blockPrivateIPs = Some True\<rparr>,
       canvasHook = Some True, browser = True, ctx = True, page = True,
       p_frameInterval = True, p_console = [], p_network = [],
       p_metrics = \<lparr>actions = 2, totalDurationMs = 4, errors = 1\<rparr>,
       calls = [Launch, NewContext, NewPage, AddInitScript, EvaluateInstaller, KeyboardPress (Some ''Enter''), KeyboardPress (Some ''Enter''), TakeScreenshot ''webp'' (Some 60) False],
       clock = 11, draws = 1\<rparr>)"
    by (simp only: ad snd_conv)
  have ar: "fst (run lateEnv (Some twoKeysPlan) openEyes) =
      Inr \<lparr>success = False, traceId = (5, 7),
          lastState = Some \<lparr>st_url = ''PNG'', st_title = ''PNG'', st_viewport = (1280, 800),
            consoleCount = 0, networkCount = 0\<rparr>,
          screenshot = Some \<lparr>buffer = ''PNG'', dataUrl = ''data:image/webp;base64,UE5H'', mime = ''image/webp''\<rparr>,
          domSnippet = Some (Some (Info ''li'' [] (Some ''item'') [])),
          error = Some \<lparr>ei_code = INTERNAL, ei_message = ''Timeout'', ei_hint = None\<rparr>\<rparr>"
  proof -
    obtain rep s' where run: "run lateEnv (Some twoKeysPlan) openEyes = (Inr rep, s')"
      and id: "traceId rep = (clock openEyes, fst (mathRandom lateEnv openEyes))"
      and every: "\<forall>tr t0 t1 t2.
        loopTrace lateEnv twoKeysPlan (clock openEyes) [keysStep, keysStep]
          (snd (mathRandom lateEnv openEyes)) tr \<longrightarrow>
        t0 = last (snd (mathRandom lateEnv openEyes) # map snd tr) \<longrightarrow>
        t1 = snd (eyes_screenshot lateEnv finalShot t0) \<longrightarrow>
        t2 = snd (eyes_dom lateEnv finalDom t1) \<longrightarrow>
        success rep = (\<forall>x\<in>set tr. fst x = None) \<and>
        success rep = (error rep = None) \<and>
        error rep = map_option errorInfo (last (None # filter (\<lambda>r. r \<noteq> None) (map fst tr))) \<and>
        screenshot rep =
          (case fst (eyes_screenshot lateEnv finalShot t0) of Inl e \<Rightarrow> None
           | Inr v \<Rightarrow> Some v) \<and>
        domSnippet rep =
          (case fst (eyes_dom lateEnv finalDom t1) of Inl e \<Rightarrow> None | Inr v \<Rightarrow> Some v) \<and>
        lastState rep =
          (case fst (eyes_state lateEnv t2) of Inl e \<Rightarrow> None | Inr v \<Rightarrow> Some v) \<and>
        s' = snd (eyes_state lateEnv t2)"
      using run_returns_report [OF aa al, of lateEnv openEyes] by blast
    note f = every [rule_format, OF at a0 a1 a2]
    have "success rep = False"
      using f [THEN conjunct1] by simp
    moreover have "error rep = Some \<lparr>ei_code = INTERNAL, ei_message = ''Timeout'', ei_hint = None\<rparr>"
      using f [THEN conjunct2, THEN conjunct2, THEN conjunct1] by simp
    moreover have "screenshot rep = Some \<lparr>buffer = ''PNG'', dataUrl = ''data:image/webp;base64,UE5H'', mime = ''image/webp''\<rparr>"
      using f [THEN conjunct2, THEN conjunct2, THEN conjunct2, THEN conjunct1]
      by (simp only: as fst_conv sum.case)
    moreover have "domSnippet rep = Some (Some (Info ''li'' [] (Some ''item'') []))"
      using f [THEN conjunct2, THEN conjunct2, THEN conjunct2, THEN conjunct2, THEN conjunct1]
      by (simp only: ad fst_conv sum.case)
    moreover have "lastState rep = Some \<lparr>st_url = ''PNG'', st_title = ''PNG'', st_viewport = (1280, 800),
            consoleCount = 0, networkCount = 0\<rparr>"
      using f [THEN conjunct2, THEN conjunct2, THEN conjunct2, THEN conjunct2, THEN conjunct2,
          THEN conjunct1]
      by (simp only: ae fst_conv sum.case)
    moreover have "traceId rep = (5, 7)"
      using id by (simp add: start)
    ultimately have "rep = \<lparr>success = False, traceId = (5, 7),
          lastState = Some \<lparr>st_url = ''PNG'', st_title = ''PNG'', st_viewport = (1280, 800),
            consoleCount = 0, networkCount = 0\<rparr>,
          screenshot = Some \<lparr>buffer = ''PNG'', dataUrl = ''data:image/webp;base64,UE5H'', mime = ''image/webp''\<rparr>,
          domSnippet = Some (Some (Info ''li'' [] (Some ''item'') [])),
          error = Some \<lparr>ei_code = INTERNAL, ei_message = ''Timeout'', ei_hint = None\<rparr>\<rparr>"
      by (cases rep) simp
    then show ?thesis
      by (simp only: run fst_conv)
  qed
  have ba: "steps carryOnPlan = Some [keysStep, keysStep, keysStep]" and bl: "length [keysStep, keysStep, keysStep] \<le> 50"
    by (simp_all add: carryOnPlan_def)
  have bt: "loopTrace lateEnv carryOnPlan (clock openEyes) [keysStep, keysStep, keysStep]
      (snd (mathRandom lateEnv openEyes))
      [(None, \<lparr>options = \<lparr>allowNavigationTo = None, blockPrivateIPs = Some True\<rparr>,
       canvasHook = Some True, browser = True, ctx = True, page = True,
       p_frameInterval = True, p_console = [], p_network = [],
       p_metrics = \<lparr>actions = 1, totalDurationMs = 2, errors = 0\<rparr>,
       calls = [Launch, NewContext, NewPage, AddInitScript, EvaluateInstaller, KeyboardPress (Some ''Enter'')],
       clock = 7, draws = 1\<rparr>),
       (Some (EyesError INTERNAL ''Timeout'' None), \<lparr>options = \<lparr>allowNavigationTo = None, blockPrivateIPs = Some True\<rparr>,
       canvasHook = Some True, browser = True, ctx = True, page = True,
       p_frameInterval = True, p_console = [], p_network = [],
       p_metrics = \<lparr>actions = 1, totalDurationMs = 2, errors = 1\<rparr>,
       calls = [Launch, NewContext, NewPage, AddInitScript, EvaluateInstaller, KeyboardPress (Some ''Enter''), KeyboardPress (Some ''Enter'')],
       clock = 9, draws = 1\<rparr>),
       (None, \<lparr>options = \<lparr>allowNavigationTo = None, blockPrivateIPs = Some True\<rparr>,
       canvasHook = Some True, browser = True, ctx = True, page = True,
       p_frameInterval = True, p_console = [], p_network = [],
       p_metrics = \<lparr>actions = 2, totalDurationMs = 4, errors = 1\<rparr>,
       calls = [Launch, NewContext, NewPage, AddInitScript, EvaluateInstaller, KeyboardPress (Some ''Enter''), KeyboardPress (Some ''Enter''), KeyboardPress (Some ''Enter'')],
       clock = 11, draws = 1\<rparr>)]"
    using e1 e2 e3 start
    by (simp add: loopTrace_Cons loopTrace_Nil breaksAt_def overBudget_def carryOnPlan_def)
  have b0: "\<lparr>options = \<lparr>allowNavigationTo = None, blockPrivateIPs = Some True\<rparr>,
       canvasHook = Some True, browser = True, ctx = True, page = True,
       p_frameInterval = True, p_console = [], p_network = [],
       p_metrics = \<lparr>actions = 2, totalDurationMs = 4, errors = 1\<rparr>,
       calls = [Launch, NewContext, NewPage, AddInitScript, EvaluateInstaller, KeyboardPress (Some ''Enter''), KeyboardPress (Some ''Enter''), KeyboardPress (Some ''Enter'')],
       clock = 11, draws = 1\<rparr> =
      last (snd (mathRandom lateEnv openEyes) # map snd
      [(None, \<lparr>options = \<lparr>allowNavigationTo = None, blockPrivateIPs = Some True\<rparr>,
       canvasHook = Some True, browser = True, ctx = True, page = True,
       p_frameInterval = True, p_console = [], p_network = [],
       p_metrics = \<lparr>actions = 1, totalDurationMs = 2, errors = 0\<rparr>,
       calls = [Launch, NewContext, NewPage, AddInitScript, EvaluateInstaller, KeyboardPress (Some ''Enter'')],
       clock = 7, draws = 1\<rparr>),
       (Some (EyesError INTERNAL ''Timeout'' None), \<lparr>options = \<lparr>allowNavigationTo = None, blockPrivateIPs = Some True\<rparr>,
       canvasHook = Some True, browser = True, ctx = True, page = True,
       p_frameInterval = True, p_console = [], p_network = [],
       p_metrics = \<lparr>actions = 1, totalDurationMs = 2, errors = 1\<rparr>,
       calls = [Launch, NewContext, NewPage, AddInitScript, EvaluateInstaller, KeyboardPress (Some ''Enter''), KeyboardPress (Some ''Enter'')],
       clock = 9, draws = 1\<rparr>),
       (None, \<lparr>options = \<lparr>allowNavigationTo = None, blockPrivateIPs = Some True\<rparr>,
       canvasHook = Some True, browser = True, ctx = True, page = True,
       p_frameInterval = True, p_console = [], p_network = [],
       p_metrics = \<lparr>actions = 2, totalDurationMs = 4, errors = 1\<rparr>,
       calls = [Launch, NewContext, NewPage, AddInitScript, EvaluateInstaller, KeyboardPress (Some ''Enter''), KeyboardPress (Some ''Enter''), KeyboardPress (Some ''Enter'')],
       clock = 11, draws = 1\<rparr>)])"
    by (simp add: start)
  have bs: "eyes_screenshot lateEnv finalShot \<lparr>options = \<lparr>allowNavigationTo = None, blockPrivateIPs = Some True\<rparr>,
       canvasHook = Some True, browser = True, ctx = True, page = True,
       p_frameInterval = True, p_console = [], p_network = [],
       p_metrics = \<lparr>actions = 2, totalDurationMs = 4, errors = 1\<rparr>,
       calls = [Launch, NewContext, NewPage, AddInitScript, EvaluateInstaller, KeyboardPress (Some ''Enter''), KeyboardPress (Some ''Enter''), KeyboardPress (Some ''Enter'')],
       clock = 11, draws = 1\<rparr> =
      (Inr \<lparr>buffer = ''PNG'', dataUrl = ''data:image/webp;base64,UE5H'', mime = ''image/webp''\<rparr>,
       \<lparr>options = \<lparr>allowNavigationTo = None, blockPrivateIPs = Some True\<rparr>,
       canvasHook = Some True, browser = True, ctx = True, page = True,
       p_frameInterval = True, p_console = [], p_network = [],
       p_metrics = \<lparr>actions = 3, totalDurationMs = 6, errors = 1\<rparr>,
       calls = [Launch, NewContext, NewPage, AddInitScript, EvaluateInstaller, KeyboardPress (Some ''Enter''), KeyboardPress (Some ''Enter''), KeyboardPress (Some ''Enter''), TakeScreenshot ''webp'' (Some 60) False],
       clock = 13, draws = 1\<rparr>)"
    by (simp add: run_defs eval_defs attempt.simps lateEnv_def item)
  have bd: "eyes_dom lateEnv finalDom \<lparr>options = \<lparr>allowNavigationTo = None, blockPrivateIPs = Some True\<rparr>,
       canvasHook = Some True, browser = True, ctx = True, page = True,
       p_frameInterval = True, p_console = [], p_network = [],
       p_metrics = \<lparr>actions = 3, totalDurationMs = 6, errors = 1\<rparr>,
       calls = [Launch, NewContext, NewPage, AddInitScript, EvaluateInstaller, KeyboardPress (Some ''Enter''), KeyboardPress (Some ''Enter''), KeyboardPress (Some ''Enter''), TakeScreenshot ''webp'' (Some 60) False],
       clock = 13, draws = 1\<rparr> =
      (Inr (Some (Info ''li'' [] (Some ''item'') [])),
       \<lparr>options = \<lparr>allowNavigationTo = None, blockPrivateIPs = Some True\<rparr>,
       canvasHook = Some True, browser = True, ctx = True, page = True,
       p_frameInterval = True, p_console = [], p_network = [],
       p_metrics = \<lparr>actions = 3, totalDurationMs = 6, errors = 1\<rparr>,
       calls = [Launch, NewContext, NewPage, AddInitScript, EvaluateInstaller, KeyboardPress (Some ''Enter''), KeyboardPress (Some ''Enter''), KeyboardPress (Some ''Enter''), TakeScreenshot ''webp'' (Some 60) False, EvaluateNodeInfo 3 True],
       clock = 15, draws = 1\<rparr>)"
    by (simp add: run_defs eval_defs attempt.simps lateEnv_def item)
  have be: "eyes_state lateEnv \<lparr>options = \<lparr>allowNavigationTo = None, blockPrivateIPs = Some True\<rparr>,
       canvasHook = Some True, browser = True, ctx = True, page = True,
       p_frameInterval = True, p_console = [], p_network = [],
       p_metrics = \<lparr>actions = 3, totalDurationMs = 6, errors = 1\<rparr>,
       calls = [Launch, NewContext, NewPage, AddInitScript, EvaluateInstaller, KeyboardPress (Some ''Enter''), KeyboardPress (Some ''Enter''), KeyboardPress (Some ''Enter''), TakeScreenshot ''webp'' (Some 60) False, EvaluateNodeInfo 3 True],
       clock = 15, draws = 1\<rparr> =
      (Inr \<lparr>st_url = ''PNG'', st_title = ''PNG'', st_viewport = (1280, 800),
            consoleCount = 0, networkCount = 0\<rparr>,
       \<lparr>options = \<lparr>allowNavigationTo = None, blockPrivateIPs = Some True\<rparr>,
       canvasHook = Some True, browser = True, ctx = True, page = True,
       p_frameInterval = True, p_console = [], p_network = [],
       p_metrics = \<lparr>actions = 3, totalDurationMs = 6, errors = 1\<rparr>,
       calls = [Launch, NewContext, NewPage, AddInitScript, EvaluateInstaller, KeyboardPress (Some ''Enter''), KeyboardPress (Some ''Enter''), KeyboardPress (Some ''Enter''), TakeScreenshot ''webp'' (Some 60) False, EvaluateNodeInfo 3 True, PageUrl, PageTitle, ViewportSize],
       clock = 21, draws = 1\<rparr>)"
    by (simp add: run_defs eval_defs attempt.simps lateEnv_def item)
  have b1: "\<lparr>options = \<lparr>allowNavigationTo = None, blockPrivateIPs = Some True\<rparr>,
       canvasHook = Some True, browser = True, ctx = True, page = True,
       p_frameInterval = True, p_console = [], p_network = [],
       p_metrics = \<lparr>actions = 3, totalDurationMs = 6, errors = 1\<rparr>,
       calls = [Launch, NewContext, NewPage, AddInitScript, EvaluateInstaller, KeyboardPress (Some ''Enter''), KeyboardPress (Some ''Enter''), KeyboardPress (Some ''Enter''), TakeScreenshot ''webp'' (Some 60) False],
       clock = 13, draws = 1\<rparr> =
      snd (eyes_screenshot lateEnv finalShot \<lparr>options = \<lparr>allowNavigationTo = None, blockPrivateIPs = Some True\<rparr>,
       canvasHook = Some True, browser = True, ctx = True, page = True,
       p_frameInterval = True, p_console = [], p_network = [],
       p_metrics = \<lparr>actions = 2, totalDurationMs = 4, errors = 1\<rparr>,
       calls = [Launch, NewContext, NewPage, AddInitScript, EvaluateInstaller, KeyboardPress (Some ''Enter''), KeyboardPress (Some ''Enter''), KeyboardPress (Some ''Enter'')],
       clock = 11, draws = 1\<rparr>)"
    by (simp only: bs snd_conv)
  have b2: "\<lparr>options = \<lparr>allowNavigationTo = None, blockPrivateIPs = Some True\<rparr>,
       canvasHook = Some True, browser = True, ctx = True, page = True,
       p_frameInterval = True, p_console = [], p_network = [],
       p_metrics = \<lparr>actions = 3, totalDurationMs = 6, errors = 1\<rparr>,
       calls = [Launch, NewContext, NewPage, AddInitScript, EvaluateInstaller, KeyboardPress (Some ''Enter''), KeyboardPress (Some ''Enter''), KeyboardPress (Some ''Enter''), TakeScreenshot ''webp'' (Some 60) False, EvaluateNodeInfo 3 True],
       clock = 15, draws = 1\<rparr> =
      snd (eyes_dom lateEnv finalDom \<lparr>options = \<lparr>allowNavigationTo = None, blockPrivateIPs = Some True\<rparr>,
       canvasHook = Some True, browser = True, ctx = True, page = True,
       p_frameInterval = True, p_console = [], p_network = [],
       p_metrics = \<lparr>actions = 3, totalDurationMs = 6, errors = 1\<rparr>,
       calls = [Launch, NewContext, NewPage, AddInitScript, EvaluateInstaller, KeyboardPress (Some ''Enter''), KeyboardPress (Some ''Enter''), KeyboardPress (Some ''Enter''), TakeScreenshot ''webp'' (Some 60) False],
       clock = 13, draws = 1\<rparr>)"
    by (simp only: bd snd_conv)
  have br: "fst (run lateEnv (Some carryOnPlan) openEyes) =
      Inr \<lparr>success = False, traceId = (5, 7),
          lastState = Some \<lparr>st_url = ''PNG'', st_title = ''PNG'', st_viewport = (1280, 800),
            consoleCount = 0, networkCount = 0\<rparr>,
          screenshot = Some \<lparr>buffer = ''PNG'', dataUrl = ''data:image/webp;base64,UE5H'', mime = ''image/webp''\<rparr>,
          domSnippet = Some (Some (Info ''li'' [] (Some ''item'') [])),
          error = Some \<lparr>ei_code = INTERNAL, ei_message = ''Timeout'', ei_hint = None\<rparr>\<rparr>"
  proof -
    obtain rep s' where run: "run lateEnv (Some carryOnPlan) openEyes = (Inr rep, s')"
      and id: "traceId rep = (clock openEyes, fst (mathRandom lateEnv openEyes))"
      and every: "\<forall>tr t0 t1 t2.
        loopTrace lateEnv carryOnPlan (clock openEyes) [keysStep, keysStep, keysStep]
          (snd (mathRandom lateEnv openEyes)) tr \<longrightarrow>
        t0 = last (snd (mathRandom lateEnv openEyes) # map snd tr) \<longrightarrow>
        t1 = snd (eyes_screenshot lateEnv finalShot t0) \<longrightarrow>
        t2 = snd (eyes_dom lateEnv finalDom t1) \<longrightarrow>
        success rep = (\<forall>x\<in>set tr. fst x = None) \<and>
        success rep = (error rep = None) \<and>
        error rep = map_option errorInfo (last (None # filter (\<lambda>r. r \<noteq> None) (map fst tr))) \<and>
        screenshot rep =
          (case fst (eyes_screenshot lateEnv finalShot t0) of Inl e \<Rightarrow> None
           | Inr v \<Rightarrow> Some v) \<and>
        domSnippet rep =
          (case fst (eyes_dom lateEnv finalDom t1) of Inl e \<Rightarrow> None | Inr v \<Rightarrow> Some v) \<and>
        lastState rep =
          (case fst (eyes_state lateEnv t2) of Inl e \<Rightarrow> None | Inr v \<Rightarrow> Some v) \<and>
        s' = snd (eyes_state lateEnv t2)"
      using run_returns_report [OF ba bl, of lateEnv openEyes] by blast
    note f = every [rule_format, OF bt b0 b1 b2]
    have "success rep = False"
      using f [THEN conjunct1] by simp
    moreover have "error rep = Some \<lparr>ei_code = INTERNAL, ei_message = ''Timeout'', ei_hint = None\<rparr>"
      using f [THEN conjunct2, THEN conjunct2, THEN conjunct1] by simp
    moreover have "screenshot rep = Some \<lparr>buffer = ''PNG'', dataUrl = ''data:image/webp;base64,UE5H'', mime = ''image/webp''\<rparr>"
      using f [THEN conjunct2, THEN conjunct2, THEN conjunct2, THEN conjunct1]
      by (simp only: bs fst_conv sum.case)
    moreover have "domSnippet rep = Some (Some (Info ''li'' [] (Some ''item'') []))"
      using f [THEN conjunct2, THEN conjunct2, THEN conjunct2, THEN conjunct2, THEN conjunct1]
      by (simp only: bd fst_conv sum.case)
    moreover have "lastState rep = Some \<lparr>st_url = ''PNG'', st_title = ''PNG'', st_viewport = (1280, 800),
            consoleCount = 0, networkCount = 0\<rparr>"
      using f [THEN conjunct2, THEN conjunct2, THEN conjunct2, THEN conjunct2, THEN conjunct2,
          THEN conjunct1]
      by (simp only: be fst_conv sum.case)
    moreover have "traceId rep = (5, 7)"
      using id by (simp add: start)
    ultimately have "rep = \<lparr>success = False, traceId = (5, 7),
          lastState = Some \<lparr>st_url = ''PNG'', st_title = ''PNG'', st_viewport = (1280, 800),
            consoleCount = 0, networkCount = 0\<rparr>,
          screenshot = Some \<lparr>buffer = ''PNG'', dataUrl = ''data:image/webp;base64,UE5H'', mime = ''image/webp''\<rparr>,
          domSnippet = Some (Some (Info ''li'' [] (Some ''item'') [])),
          error = Some \<lparr>ei_code = INTERNAL, ei_message = ''Timeout'', ei_hint = None\<rparr>\<rparr>"
      by (cases rep) simp
    then show ?thesis
      by (simp only: run fst_conv)
  qed
  have ca: "steps keysPlan = Some [keysStep]" and cl: "length [keysStep] \<le> 50"
    by (simp_all add: keysPlan_def)
  have ct: "loopTrace lateEnv keysPlan (clock openEyes) [keysStep]
      (snd (mathRandom lateEnv openEyes))
      [(None, \<lparr>options = \<lparr>allowNavigationTo = None, blockPrivateIPs = Some True\<rparr>,
       canvasHook = Some True, browser = True, ctx = True, page = True,
       p_frameInterval = True, p_console = [], p_network = [],
       p_metrics = \<lparr>actions = 1, totalDurationMs = 2, errors = 0\<rparr>,
       calls = [Launch, NewContext, NewPage, AddInitScript, EvaluateInstaller, KeyboardPress (Some ''Enter'')],
       clock = 7, draws = 1\<rparr>)]"
    using e1 e2 e3 start
    by (simp add: loopTrace_Cons loopTrace_Nil breaksAt_def overBudget_def keysPlan_def)
  have c0: "\<lparr>options = \<lparr>allowNavigationTo = None, blockPrivateIPs = Some True\<rparr>,
       canvasHook = Some True, browser = True, ctx = True, page = True,
       p_frameInterval = True, p_console = [], p_network = [],
       p_metrics = \<lparr>actions = 1, totalDurationMs = 2, errors = 0\<rparr>,
       calls = [Launch, NewContext, NewPage, AddInitScript, EvaluateInstaller, KeyboardPress (Some ''Enter'')],
       clock = 7, draws = 1\<rparr> =
      last (snd (mathRandom lateEnv openEyes) # map snd
      [(None, \<lparr>options = \<lparr>allowNavigationTo = None, blockPrivateIPs = Some True\<rparr>,
       canvasHook = Some True, browser = True, ctx = True, page = True,
       p_frameInterval = True, p_console = [], p_network = [],
       p_metrics = \<lparr>actions = 1, totalDurationMs = 2, errors = 0\<rparr>,
       calls = [Launch, NewContext, NewPage, AddInitScript, EvaluateInstaller, KeyboardPress (Some ''Enter'')],
       clock = 7, draws = 1\<rparr>)])"
    by (simp add: start)
  have cs: "eyes_screenshot lateEnv finalShot \<lparr>options = \<lparr>allowNavigationTo = None, blockPrivateIPs = Some True\<rparr>,
       canvasHook = Some True, browser = True, ctx = True, page = True,
       p_frameInterval = True, p_console = [], p_network = [],
       p_metrics = \<lparr>actions = 1, totalDurationMs = 2, errors = 0\<rparr>,
       calls = [Launch, NewContext, NewPage, AddInitScript, EvaluateInstaller, KeyboardPress (Some ''Enter'')],
       clock = 7, draws = 1\<rparr> =
      (Inl (EyesError INTERNAL ''Timeout'' None),
       \<lparr>options = \<lparr>allowNavigationTo = None, blockPrivateIPs = Some True\<rparr>,
       canvasHook = Some True, browser = True, ctx = True, page = True,
       p_frameInterval = True, p_console = [], p_network = [],
       p_metrics = \<lparr>actions = 1, totalDurationMs = 2, errors = 0\<rparr>,
       calls = [Launch, NewContext, NewPage, AddInitScript, EvaluateInstaller, KeyboardPress (Some ''Enter''), TakeScreenshot ''webp'' (Some 60) False],
       clock = 9, draws = 1\<rparr>)"
    by (simp add: run_defs eval_defs attempt.simps lateEnv_def item)
  have cd: "eyes_dom lateEnv finalDom \<lparr>options = \<lparr>allowNavigationTo = None, blockPrivateIPs = Some True\<rparr>,
       canvasHook = Some True, browser = True, ctx = True, page = True,
       p_frameInterval = True, p_console = [], p_network = [],
       p_metrics = \<lparr>actions = 1, totalDurationMs = 2, errors = 0\<rparr>,
       calls = [Launch, NewContext, NewPage, AddInitScript, EvaluateInstaller, KeyboardPress (Some ''Enter''), TakeScreenshot ''webp'' (Some 60) False],
       clock = 9, draws = 1\<rparr> =
      (Inr (Some (Info ''li'' [] (Some ''item'') [])),
       \<lparr>options = \<lparr>allowNavigationTo = None, blockPrivateIPs = Some True\<rparr>,
       canvasHook = Some True, browser = True, ctx = True, page = True,
       p_frameInterval = True, p_console = [], p_network = [],
       p_metrics = \<lparr>actions = 1, totalDurationMs = 2, errors = 0\<rparr>,
       calls = [Launch, NewContext, NewPage, AddInitScript, EvaluateInstaller, KeyboardPress (Some ''Enter''), TakeScreenshot ''webp'' (Some 60) False, EvaluateNodeInfo 3 True],
       clock = 11, draws = 1\<rparr>)"
    by (simp add: run_defs eval_defs attempt.simps lateEnv_def item)
  have ce: "eyes_state lateEnv \<lparr>options = \<lparr>allowNavigationTo = None, blockPrivateIPs = Some True\<rparr>,
       canvasHook = Some True, browser = True, ctx = True, page = True,
       p_frameInterval = True, p_console = [], p_network = [],
       p_metrics = \<lparr>actions = 1, totalDurationMs = 2, errors = 0\<rparr>,
       calls = [Launch, NewContext, NewPage, AddInitScript, EvaluateInstaller, KeyboardPress (Some ''Enter''), TakeScreenshot ''webp'' (Some 60) False, EvaluateNodeInfo 3 True],
       clock = 11, draws = 1\<rparr> =
      (Inr \<lparr>st_url = ''PNG'', st_title = ''PNG'', st_viewport = (1280, 800),
            consoleCount = 0, networkCount = 0\<rparr>,
       \<lparr>options = \<lparr>allowNavigationTo = None, blockPrivateIPs = Some True\<rparr>,
       canvasHook = Some True, browser = True, ctx = True, page = True,
       p_frameInterval = True, p_console = [], p_network = [],
       p_metrics = \<lparr>actions = 1, totalDurationMs = 2, errors = 0\<rparr>,
       calls = [Launch, NewContext, NewPage, AddInitScript, EvaluateInstaller, KeyboardPress (Some ''Enter''), TakeScreenshot ''webp'' (Some 60) False, EvaluateNodeInfo 3 True, PageUrl, PageTitle, ViewportSize],
       clock = 17, draws = 1\<rparr>)"
    by (simp add: run_defs eval_defs attempt.simps lateEnv_def item)
  have c1: "\<lparr>options = \<lparr>allowNavigationTo = None, blockPrivateIPs = Some True\<rparr>,
       canvasHook = Some True, browser = True, ctx = True, page = True,
       p_frameInterval = True, p_console = [], p_network = [],
       p_metrics = \<lparr>actions = 1, totalDurationMs = 2, errors = 0\<rparr>,
       calls = [Launch, NewContext, NewPage, AddInitScript, EvaluateInstaller, KeyboardPress (Some ''Enter''), TakeScreenshot ''webp'' (Some 60) False],
       clock = 9, draws = 1\<rparr> =
      snd (eyes_screenshot lateEnv finalShot \<lparr>options = \<lparr>allowNavigationTo = None, blockPrivateIPs = Some True\<rparr>,
       canvasHook = Some True, browser = True, ctx = True, page = True,
       p_frameInterval = True, p_console = [], p_network = [],
       p_metrics = \<lparr>actions = 1, totalDurationMs = 2, errors = 0\<rparr>,
       calls = [Launch, NewContext, NewPage, AddInitScript, EvaluateInstaller, KeyboardPress (Some ''Enter'')],
       clock = 7, draws = 1\<rparr>)"
    by (simp only: cs snd_conv)
  have c2: "\<lparr>options = \<lparr>allowNavigationTo = None, blockPrivateIPs = Some True\<rparr>,
       canvasHook = Some True, browser = True, ctx = True, page = True,
       p_frameInterval = True, p_console = [], p_network = [],
       p_metrics = \<lparr>actions = 1, totalDurationMs = 2, errors = 0\<rparr>,
       calls = [Launch, NewContext, NewPage, AddInitScript, EvaluateInstaller, KeyboardPress (Some ''Enter''), TakeScreenshot ''webp'' (Some 60) False, EvaluateNodeInfo 3 True],
       clock = 11, draws = 1\<rparr> =
      snd (eyes_dom lateEnv finalDom \<lparr>options = \<lparr>allowNavigationTo = None, blockPrivateIPs = Some True\<rparr>,
       canvasHook = Some True, browser = True, ctx = True, page = True,
       p_frameInterval = True, p_console = [], p_network = [],
       p_metrics = \<lparr>actions = 1, totalDurationMs = 2, errors = 0\<rparr>,
       calls = [Launch, NewContext, NewPage, AddInitScript, EvaluateInstaller, KeyboardPress (Some ''Enter''), TakeScreenshot ''webp'' (Some 60) False],
       clock = 9, draws = 1\<rparr>)"
    by (simp only: cd snd_conv)
  have cr: "fst (run lateEnv (Some keysPlan) openEyes) =
      Inr \<lparr>success = True, traceId = (5, 7),
          lastState = Some \<lparr>st_url = ''PNG'', st_title = ''PNG'', st_viewport = (1280, 800),
            consoleCount = 0, networkCount = 0\<rparr>,
          screenshot = None,
          domSnippet = Some (Some (Info ''li'' [] (Some ''item'') [])),
          error = None\<rparr>"
  proof -
    obtain rep s' where run: "run lateEnv (Some keysPlan) openEyes = (Inr rep, s')"
      and id: "traceId rep = (clock openEyes, fst (mathRandom lateEnv openEyes))"
      and every: "\<forall>tr t0 t1 t2.
        loopTrace lateEnv keysPlan (clock openEyes) [keysStep]
          (snd (mathRandom lateEnv openEyes)) tr \<longrightarrow>
        t0 = last (snd (mathRandom lateEnv openEyes) # map snd tr) \<longrightarrow>
        t1 = snd (eyes_screenshot lateEnv finalShot t0) \<longrightarrow>
        t2 = snd (eyes_dom lateEnv finalDom t1) \<longrightarrow>
        success rep = (\<forall>x\<in>set tr. fst x = None) \<and>
        success rep = (error rep = None) \<and>
        error rep = map_option errorInfo (last (None # filter (\<lambda>r. r \<noteq> None) (map fst tr))) \<and>
        screenshot rep =
          (case fst (eyes_screenshot lateEnv finalShot t0) of Inl e \<Rightarrow> None
           | Inr v \<Rightarrow> Some v) \<and>
        domSnippet rep =
          (case fst (eyes_dom lateEnv finalDom t1) of Inl e \<Rightarrow> None | Inr v \<Rightarrow> Some v) \<and>
        lastState rep =
          (case fst (eyes_state lateEnv t2) of Inl e \<Rightarrow> None | Inr v \<Rightarrow> Some v) \<and>
        s' = snd (eyes_state lateEnv t2)"
      using run_returns_report [OF ca cl, of lateEnv openEyes] by blast
    note f = every [rule_format, OF ct c0 c1 c2]
    have "success rep = True"
      using f [THEN conjunct1] by simp
    moreover have "error rep = None"
      using f [THEN conjunct2, THEN conjunct2, THEN conjunct1] by simp
    moreover have "screenshot rep = None"
      using f [THEN conjunct2, THEN conjunct2, THEN conjunct2, THEN conjunct1]
      by (simp only: cs fst_conv sum.case)
    moreover have "domSnippet rep = Some (Some (Info ''li'' [] (Some ''item'') []))"
      using f [THEN conjunct2, THEN conjunct2, THEN conjunct2, THEN conjunct2, THEN conjunct1]
      by (simp only: cd fst_conv sum.case)
    moreover have "lastState rep = Some \<lparr>st_url = ''PNG'', st_title = ''PNG'', st_viewport = (1280, 800),
            consoleCount = 0, networkCount = 0\<rparr>"
      using f [THEN conjunct2, THEN conjunct2, THEN conjunct2, THEN conjunct2, THEN conjunct2,
          THEN conjunct1]
      by (simp only: ce fst_conv sum.case)
    moreover have "traceId rep = (5, 7)"
      using id by (simp add: start)
    ultimately have "rep = \<lparr>success = True, traceId = (5, 7),
          lastState = Some \<lparr>st_url = ''PNG'', st_title = ''PNG'', st_viewport = (1280, 800),
            consoleCount = 0, networkCount = 0\<rparr>,
          screenshot = None,
          domSnippet = Some (Some (Info ''li'' [] (Some ''item'') [])),
          error = None\<rparr>"
      by (cases rep) simp
    then show ?thesis
      by (simp only: run fst_conv)
  qed
  show ?thesis
    by (simp only: ar br cr simp_thms)
qed

text \<open>
  Claim C1 as stated fails: a plan without steps makes run throw, and no report is
  returned.
\<close>

theorem run_throws_on_invalid_plan:
  "fst (run calmEnv (Some \<lparr>goal = ''no steps'', steps = None, abortOnError = None,
          maxDurationMs = None\<rparr>) freshEyes)
   = Inl (EyesError BAD_INPUT ''Runner requires steps[]'' None)"
  by (simp add: run_def newEyesError_def)

subsection \<open>Retries\<close>

lemma eyes_wait_sleep:
  assumes "eyes_wait E (sleepArgs b) t = (Inr v, s2)"
  shows "calls s2 = calls t @ [WaitForTimeout b]"
  using assms
  by (auto simp: eyes_wait_def wait_try_def sleepArgs_def noArgs_def engine_def
      afterAction_def countError_def Let_def split: if_splits reply.splits)

lemma mathRandom_calls: "mathRandom E s = (r, t) \<Longrightarrow> calls t = calls s"
  by (auto simp: mathRandom_def)

lemma backoff_bounds:
  "300 \<le> backoff 0 r" "backoff 0 r < 400" "600 \<le> backoff 1 r" "backoff 1 r < 700"
  "backoff i r < 2100" "backoff i r - r mod 100 = min 2000 (300 * 2 ^ i)"
  by (simp_all add: backoff_def)

lemma attempt_retry:
  assumes "Suc i < n"
    and "dispatch E act args s = (Inl e, s1)"
    and "mathRandom E s1 = (r, t)"
    and "eyes_wait E (sleepArgs (backoff i r)) t = (Inr v, s2)"
  shows "attempt E act args n i s = attempt E act args n (Suc i) s2"
proof -
  have "i < n" and "i \<noteq> n - 1"
    using assms(1) by auto
  then show ?thesis
    using assms(2-) by (subst attempt.simps) simp
qed

lemma attempt_last:
  "attempt E act args (Suc i) i s =
     (case dispatch E act args s of
        (Inr v, s1) \<Rightarrow> (None, s1)
      | (Inl e, s1) \<Rightarrow> (Some (toEyesError e), s1))"
  by (subst attempt.simps) (simp split: prod.splits sum.splits)

lemma attempt_returns:
  "i < n \<Longrightarrow> dispatch E act args s = (Inr v, s1) \<Longrightarrow> attempt E act args n i s = (None, s1)"
  by (subst attempt.simps) simp

lemma attempt_sleep_fails:
  assumes "Suc i < n"
    and "dispatch E act args s = (Inl e, s1)"
    and "mathRandom E s1 = (r, t)"
    and "eyes_wait E (sleepArgs (backoff i r)) t = (Inl e', s2)"
  shows "attempt E act args n i s = (Some e', s2)"
proof -
  have "i < n" and "i \<noteq> n - 1"
    using assms(1) by auto
  then show ?thesis
    using assms(2-) by (subst attempt.simps) simp
qed

text \<open>
  Claim C6. A step that is neither a click nor a wait for a selector is dispatched exactly
  once, and the outcome of that call is the step's. A click or a wait for a selector gets
  up to three attempts. The step returns with the first attempt that returns, and nothing
  is dispatched after it. After a failed first or second attempt the runner draws a
  random number \<open>r\<close> and waits \<open>min 2000 (300 * 2 ^ i) + r mod 100\<close> milliseconds through
  the session's wait, \<open>i\<close> being 0 and then 1; if that wait throws, its error ends the step.
  A third attempt is the last: its error is the step's error. A step whose first two
  attempts fail and whose third returns has asked for at least 300 + 600 milliseconds of
  delay, and the loop of run reports no error for it.
\<close>

theorem execute_retry_policy:
  assumes "act = action st"
    and "args = (case s_args st of None \<Rightarrow> noArgs | Some a \<Rightarrow> a)"
  shows
    "(\<not> (act = ''click'' \<or> act = ''wait'' \<and> a_for args = Some ''selector'') \<longrightarrow>
        execute E st s =
          (case dispatch E act args s of
             (Inr v, s1) \<Rightarrow> (None, s1)
           | (Inl e, s1) \<Rightarrow> (Some (toEyesError e), s1))) \<and>
     (act = ''click'' \<or> act = ''wait'' \<and> a_for args = Some ''selector'' \<longrightarrow>
        (\<forall>v s1. dispatch E act args s = (Inr v, s1) \<longrightarrow> execute E st s = (None, s1)) \<and>
        (\<forall>e0 s1 r0 t1.
           dispatch E act args s = (Inl e0, s1) \<longrightarrow> mathRandom E s1 = (r0, t1) \<longrightarrow>
           (\<forall>e' s2. eyes_wait E (sleepArgs (backoff 0 r0)) t1 = (Inl e', s2) \<longrightarrow>
              execute E st s = (Some e', s2)) \<and>
           (\<forall>v0 s2. eyes_wait E (sleepArgs (backoff 0 r0)) t1 = (Inr v0, s2) \<longrightarrow>
              calls s2 = calls s1 @ [WaitForTimeout (min 2000 (300 * 2 ^ 0) + r0 mod 100)] \<and>
              (\<forall>v s3. dispatch E act args s2 = (Inr v, s3) \<longrightarrow> execute E st s = (None, s3)) \<and>
              (\<forall>e1 s3 r1 t3.
                 dispatch E act args s2 = (Inl e1, s3) \<longrightarrow> mathRandom E s3 = (r1, t3) \<longrightarrow>
                 (\<forall>e' s4. eyes_wait E (sleepArgs (backoff 1 r1)) t3 = (Inl e', s4) \<longrightarrow>
                    execute E st s = (Some e', s4)) \<and>
                 (\<forall>v1 s4. eyes_wait E (sleepArgs (backoff 1 r1)) t3 = (Inr v1, s4) \<longrightarrow>
                    calls s4 =
                      calls s3 @ [WaitForTimeout (min 2000 (300 * 2 ^ 1) + r1 mod 100)] \<and>
                    300 + 600 \<le> (min 2000 (300 * 2 ^ 0) + r0 mod 100) +
                                 (min 2000 (300 * 2 ^ 1) + r1 mod 100) \<and>
                    (\<forall>v2 s5. dispatch E act args s4 = (Inr v2, s5) \<longrightarrow>
                       execute E st s = (None, s5) \<and>
                       runSteps E p started [st] None s = (None, s5)) \<and>
                    (\<forall>e2 s5. dispatch E act args s4 = (Inl e2, s5) \<longrightarrow>
                       execute E st s = (Some (toEyesError e2), s5)))))))"
proof (intro conjI impI allI)
  have ex0: "execute E st s = attempt E act args (if fragile act args then 3 else 1) 0 s"
    unfolding execute_def Let_def assms [symmetric] by (rule refl)
  assume "\<not> (act = ''click'' \<or> act = ''wait'' \<and> a_for args = Some ''selector'')"
  then have "\<not> fragile act args"
    by (simp add: fragile_def)
  then show "execute E st s =
          (case dispatch E act args s of
             (Inr v, s1) \<Rightarrow> (None, s1)
           | (Inl e, s1) \<Rightarrow> (Some (toEyesError e), s1))"
    using attempt_last [of E act args 0 s] by (simp add: ex0)
next
  have ex0: "execute E st s = attempt E act args (if fragile act args then 3 else 1) 0 s"
    unfolding execute_def Let_def assms [symmetric] by (rule refl)
  assume "act = ''click'' \<or> act = ''wait'' \<and> a_for args = Some ''selector''"
  then have "fragile act args"
    by (simp add: fragile_def)
  then have ex: "execute E st s = attempt E act args 3 0 s"
    by (simp add: ex0)
  {
    fix v s1
    assume "dispatch E act args s = (Inr v, s1)"
    then show "execute E st s = (None, s1)"
      unfolding ex by (intro attempt_returns) simp_all
  }
  fix e0 s1 r0 t1
  assume d0: "dispatch E act args s = (Inl e0, s1)" and r0: "mathRandom E s1 = (r0, t1)"
  {
    fix e' s2
    assume "eyes_wait E (sleepArgs (backoff 0 r0)) t1 = (Inl e', s2)"
    then show "execute E st s = (Some e', s2)"
      unfolding ex by (intro attempt_sleep_fails [OF _ d0 r0]) simp_all
  }
  fix v0 s2
  assume w0: "eyes_wait E (sleepArgs (backoff 0 r0)) t1 = (Inr v0, s2)"
  have a1: "attempt E act args 3 0 s = attempt E act args 3 (Suc 0) s2"
    using w0 by (intro attempt_retry [OF _ d0 r0]) simp_all
  show "calls s2 = calls s1 @ [WaitForTimeout (min 2000 (300 * 2 ^ 0) + r0 mod 100)]"
    using eyes_wait_sleep [OF w0] mathRandom_calls [OF r0] by (simp add: backoff_def)
  {
    fix v s3
    assume "dispatch E act args s2 = (Inr v, s3)"
    then show "execute E st s = (None, s3)"
      unfolding ex a1 by (intro attempt_returns) simp_all
  }
  fix e1 s3 r1 t3
  assume d1: "dispatch E act args s2 = (Inl e1, s3)" and r1: "mathRandom E s3 = (r1, t3)"
  {
    fix e' s4
    assume "eyes_wait E (sleepArgs (backoff (Suc 0) r1)) t3 = (Inl e', s4)"
    then have "execute E st s = (Some e', s4)"
      unfolding ex a1 by (intro attempt_sleep_fails [OF _ d1 r1]) simp_all
  }
  note sleep2 = this
  {
    fix e' s4
    assume "eyes_wait E (sleepArgs (backoff 1 r1)) t3 = (Inl e', s4)"
    then show "execute E st s = (Some e', s4)"
      using sleep2 by simp
  }
  fix v1 s4
  assume w1: "eyes_wait E (sleepArgs (backoff 1 r1)) t3 = (Inr v1, s4)"
  have a2: "attempt E act args 3 (Suc 0) s2 = attempt E act args 3 (Suc (Suc 0)) s4"
    using w1 by (intro attempt_retry [OF _ d1 r1]) simp_all
  have a3: "attempt E act args 3 (Suc (Suc 0)) s4 =
     (case dispatch E act args s4 of
        (Inr v, s1) \<Rightarrow> (None, s1)
      | (Inl e, s1) \<Rightarrow> (Some (toEyesError e), s1))"
    using attempt_last [of E act args "Suc (Suc 0)" s4] by (simp add: numeral_3_eq_3)
  show "calls s4 = calls s3 @ [WaitForTimeout (min 2000 (300 * 2 ^ 1) + r1 mod 100)]"
    using eyes_wait_sleep [OF w1] mathRandom_calls [OF r1] by (simp add: backoff_def)
  show "300 + 600 \<le> (min 2000 (300 * 2 ^ 0) + r0 mod 100) +
                                 (min 2000 (300 * 2 ^ 1) + r1 mod 100)"
    by simp
  {
    fix v2 s5
    assume d2: "dispatch E act args s4 = (Inr v2, s5)"
    show "execute E st s = (None, s5)"
      by (simp add: ex a1 a2 a3 d2)
    show "runSteps E p started [st] None s = (None, s5)"
      by (simp add: ex a1 a2 a3 d2)
  }
  fix e2 s5
  assume d2: "dispatch E act args s4 = (Inl e2, s5)"
  show "execute E st s = (Some (toEyesError e2), s5)"
    by (simp add: ex a1 a2 a3 d2)
qed

text \<open>
  On the open session. A click and a wait for the selector \<^verbatim>\<open>h1\<close> that fail twice
  return on the third attempt, after waits of 350 and 657 milliseconds; a click that the
  engine finds at once is dispatched once; a click that fails three times throws the
  error of the third attempt, after waits of 300 and 600 milliseconds; a click whose
  back-off wait fails throws the error of the wait; a key press is dispatched once.
\<close>

theorem execute_retry_policy_witness:
  "execute flakyEnv clickStep openEyes =
     (None, \<lparr>options = \<lparr>allowNavigationTo = None, blockPrivateIPs = Some True\<rparr>,
       canvasHook = Some True, browser = True, ctx = True, page = True,
       p_frameInterval = True, p_console = [], p_network = [],
       p_metrics = \<lparr>actions = 3, totalDurationMs = 6, errors = 2\<rparr>,
       calls = [Launch, NewContext, NewPage, AddInitScript, EvaluateInstaller, LocatorWaitFor (ByText ''Settings'') 10000, WaitForTimeout 350, LocatorWaitFor (ByText ''Settings'') 10000, WaitForTimeout 657, LocatorWaitFor (ByText ''Settings'') 10000, ScrollIntoViewIfNeeded (ByText ''Settings''), LocatorClick (ByText ''Settings'') 10000, WaitForTimeout 100],
       clock = 13, draws = 2\<rparr>) \<and>
   runSteps flakyEnv clickPlan 5 [clickStep] None openEyes =
     (None, \<lparr>options = \<lparr>allowNavigationTo = None, blockPrivateIPs = Some True\<rparr>,
       canvasHook = Some True, browser = True, ctx = True, page = True,
       p_frameInterval = True, p_console = [], p_network = [],
       p_metrics = \<lparr>actions = 3, totalDurationMs = 6, errors = 2\<rparr>,
       calls = [Launch, NewContext, NewPage, AddInitScript, EvaluateInstaller, LocatorWaitFor (ByText ''Settings'') 10000, WaitForTimeout 350, LocatorWaitFor (ByText ''Settings'') 10000, WaitForTimeout 657, LocatorWaitFor (ByText ''Settings'') 10000, ScrollIntoViewIfNeeded (ByText ''Settings''), LocatorClick (ByText ''Settings'') 10000, WaitForTimeout 100],
       clock = 13, draws = 2\<rparr>) \<and>
   fst (execute flakyEnv waitStep openEyes) = None \<and>
   calls (snd (execute flakyEnv waitStep openEyes)) =
     calls openEyes @ [WaitForSelector ''h1'' 10000, WaitForTimeout 350, WaitForSelector ''h1'' 10000, WaitForTimeout 657, WaitForSelector ''h1'' 10000] \<and>
   fst (execute calmEnv clickStep openEyes) = None \<and>
   calls (snd (execute calmEnv clickStep openEyes)) =
     calls openEyes @ [LocatorWaitFor (ByText ''Settings'') 10000, ScrollIntoViewIfNeeded (ByText ''Settings''), LocatorClick (ByText ''Settings'') 10000, WaitForTimeout 100] \<and>
   fst (execute stubbornEnv clickStep openEyes) = Some (EyesError ELEMENT_NOT_FOUND ''Element not found for click'' None) \<and>
   calls (snd (execute stubbornEnv clickStep openEyes)) =
     calls openEyes @ [LocatorWaitFor (ByText ''Settings'') 10000, WaitForTimeout 300, LocatorWaitFor (ByText ''Settings'') 10000, WaitForTimeout 600, LocatorWaitFor (ByText ''Settings'') 10000] \<and>
   fst (execute brokenEnv clickStep openEyes) = Some (EyesError INTERNAL ''Target closed'' None) \<and>
   calls (snd (execute brokenEnv clickStep openEyes)) =
     calls openEyes @ [LocatorWaitFor (ByText ''Settings'') 10000, WaitForTimeout 300] \<and>
   fst (execute calmEnv keysStep openEyes) = None \<and>
   calls (snd (execute calmEnv keysStep openEyes)) =
     calls openEyes @ [KeyboardPress (Some ''Enter'')]"
proof -
  have a1: "''click'' = action clickStep"
    and a2: "clickSettings = (case s_args clickStep of None \<Rightarrow> noArgs | Some a \<Rightarrow> a)"
    by (simp_all add: clickStep_def)
  have b1: "''keys'' = action keysStep"
    and b2: "noArgs\<lparr>a_press := Some ''Enter''\<rparr> =
        (case s_args keysStep of None \<Rightarrow> noArgs | Some a \<Rightarrow> a)"
    by (simp_all add: keysStep_def)
  have c1: "''wait'' = action waitStep"
    and c2: "waitH1 = (case s_args waitStep of None \<Rightarrow> noArgs | Some a \<Rightarrow> a)"
    by (simp_all add: waitStep_def)
  have fc: "''click'' = ''click'' \<or> ''click'' = ''wait'' \<and> a_for clickSettings = Some ''selector''"
    by simp
  have fw: "''wait'' = ''click'' \<or> ''wait'' = ''wait'' \<and> a_for waitH1 = Some ''selector''"
    by (simp add: waitH1_def noArgs_def)
  have nf: "\<not> (''keys'' = ''click'' \<or>
      ''keys'' = ''wait'' \<and> a_for (noArgs\<lparr>a_press := Some ''Enter''\<rparr>) = Some ''selector'')"
    by simp
  note click = execute_retry_policy [OF a1 a2, THEN conjunct2, rule_format, OF fc]
  note wait = execute_retry_policy [OF c1 c2, THEN conjunct2, rule_format, OF fw]
  have ce0: "dispatch flakyEnv ''click'' clickSettings openEyes = (Inl (EyesError ELEMENT_NOT_FOUND ''Element not found for click'' None), \<lparr>options = \<lparr>allowNavigationTo = None, blockPrivateIPs = Some True\<rparr>,
       canvasHook = Some True, browser = True, ctx = True, page = True,
       p_frameInterval = True, p_console = [], p_network = [],
       p_metrics = \<lparr>actions = 0, totalDurationMs = 0, errors = 1\<rparr>,
       calls = [Launch, NewContext, NewPage, AddInitScript, EvaluateInstaller, LocatorWaitFor (ByText ''Settings'') 10000],
       clock = 6, draws = 0\<rparr>)"
    unfolding openEyes_eq by (simp add: eval_defs)
  have ce1: "mathRandom flakyEnv \<lparr>options = \<lparr>allowNavigationTo = None, blockPrivateIPs = Some True\<rparr>,
       canvasHook = Some True, browser = True, ctx = True, page = True,
       p_frameInterval = True, p_console = [], p_network = [],
       p_metrics = \<lparr>actions = 0, totalDurationMs = 0, errors = 1\<rparr>,
       calls = [Launch, NewContext, NewPage, AddInitScript, EvaluateInstaller, LocatorWaitFor (ByText ''Settings'') 10000],
       clock = 6, draws = 0\<rparr> = (250, \<lparr>options = \<lparr>allowNavigationTo = None, blockPrivateIPs = Some True\<rparr>,
       canvasHook = Some True, browser = True, ctx = True, page = True,
       p_frameInterval = True, p_console = [], p_network = [],
       p_metrics = \<lparr>actions = 0, totalDurationMs = 0, errors = 1\<rparr>,
       calls = [Launch, NewContext, NewPage, AddInitScript, EvaluateInstaller, LocatorWaitFor (ByText ''Settings'') 10000],
       clock = 6, draws = 1\<rparr>)"
    by (simp add: eval_defs)
  have ce2: "eyes_wait flakyEnv (sleepArgs (backoff 0 250)) \<lparr>options = \<lparr>allowNavigationTo = None, blockPrivateIPs = Some True\<rparr>,
       canvasHook = Some True, browser = True, ctx = True, page = True,
       p_frameInterval = True, p_console = [], p_network = [],
       p_metrics = \<lparr>actions = 0, totalDurationMs = 0, errors = 1\<rparr>,
       calls = [Launch, NewContext, NewPage, AddInitScript, EvaluateInstaller, LocatorWaitFor (ByText ''Settings'') 10000],
       clock = 6, draws = 1\<rparr> = (Inr JNull, \<lparr>options = \<lparr>allowNavigationTo = None, blockPrivateIPs = Some True\<rparr>,
       canvasHook = Some True, browser = True, ctx = True, page = True,
       p_frameInterval = True, p_console = [], p_network = [],
       p_metrics = \<lparr>actions = 1, totalDurationMs = 1, errors = 1\<rparr>,
       calls = [Launch, NewContext, NewPage, AddInitScript, EvaluateInstaller, LocatorWaitFor (ByText ''Settings'') 10000, WaitForTimeout 350],
       clock = 7, draws = 1\<rparr>)"
    by (simp add: eval_defs)
  have ce3: "dispatch flakyEnv ''click'' clickSettings \<lparr>options = \<lparr>allowNavigationTo = None, blockPrivateIPs = Some True\<rparr>,
       canvasHook = Some True, browser = True, ctx = True, page = True,
       p_frameInterval = True, p_console = [], p_network = [],
       p_metrics = \<lparr>actions = 1, totalDurationMs = 1, errors = 1\<rparr>,
       calls = [Launch, NewContext, NewPage, AddInitScript, EvaluateInstaller, LocatorWaitFor (ByText ''Settings'') 10000, WaitForTimeout 350],
       clock = 7, draws = 1\<rparr> = (Inl (EyesError ELEMENT_NOT_FOUND ''Element not found for click'' None), \<lparr>options = \<lparr>allowNavigationTo = None, blockPrivateIPs = Some True\<rparr>,
       canvasHook = Some True, browser = True, ctx = True, page = True,
       p_frameInterval = True, p_console = [], p_network = [],
       p_metrics = \<lparr>actions = 1, totalDurationMs = 1, errors = 2\<rparr>,
       calls = [Launch, NewContext, NewPage, AddInitScript, EvaluateInstaller, LocatorWaitFor (ByText ''Settings'') 10000, WaitForTimeout 350, LocatorWaitFor (ByText ''Settings'') 10000],
       clock = 8, draws = 1\<rparr>)"
    by (simp add: eval_defs)
  have ce4: "mathRandom flakyEnv \<lparr>options = \<lparr>allowNavigationTo = None, blockPrivateIPs = Some True\<rparr>,
       canvasHook = Some True, browser = True, ctx = True, page = True,
       p_frameInterval = True, p_console = [], p_network = [],
       p_metrics = \<lparr>actions = 1, totalDurationMs = 1, errors = 2\<rparr>,
       calls = [Launch, NewContext, NewPage, AddInitScript, EvaluateInstaller, LocatorWaitFor (ByText ''Settings'') 10000, WaitForTimeout 350, LocatorWaitFor (ByText ''Settings'') 10000],
       clock = 8, draws = 1\<rparr> = (257, \<lparr>options = \<lparr>allowNavigationTo = None, blockPrivateIPs = Some True\<rparr>,
       canvasHook = Some True, browser = True, ctx = True, page = True,
       p_frameInterval = True, p_console = [], p_network = [],
       p_metrics = \<lparr>actions = 1, totalDurationMs = 1, errors = 2\<rparr>,
       calls = [Launch, NewContext, NewPage, AddInitScript, EvaluateInstaller, LocatorWaitFor (ByText ''Settings'') 10000, WaitForTimeout 350, LocatorWaitFor (ByText ''Settings'') 10000],
       clock = 8, draws = 2\<rparr>)"
    by (simp add: eval_defs)
  have ce5: "eyes_wait flakyEnv (sleepArgs (backoff 1 257)) \<lparr>options = \<lparr>allowNavigationTo = None, blockPrivateIPs = Some True\<rparr>,
       canvasHook = Some True, browser = True, ctx = True, page = True,
       p_frameInterval = True, p_console = [], p_network = [],
       p_metrics = \<lparr>actions = 1, totalDurationMs = 1, errors = 2\<rparr>,
       calls = [Launch, NewContext, NewPage, AddInitScript, EvaluateInstaller, LocatorWaitFor (ByText ''Settings'') 10000, WaitForTimeout 350, LocatorWaitFor (ByText ''Settings'') 10000],
       clock = 8, draws = 2\<rparr> = (Inr JNull, \<lparr>options = \<lparr>allowNavigationTo = None, blockPrivateIPs = Some True\<rparr>,
       canvasHook = Some True, browser = True, ctx = True, page = True,
       p_frameInterval = True, p_console = [], p_network = [],
       p_metrics = \<lparr>actions = 2, totalDurationMs = 2, errors = 2\<rparr>,
       calls = [Launch, NewContext, NewPage, AddInitScript, EvaluateInstaller, LocatorWaitFor (ByText ''Settings'') 10000, WaitForTimeout 350, LocatorWaitFor (ByText ''Settings'') 10000, WaitForTimeout 657],
       clock = 9, draws = 2\<rparr>)"
    by (simp add: eval_defs)
  have ce6: "dispatch flakyEnv ''click'' clickSettings \<lparr>options = \<lparr>allowNavigationTo = None, blockPrivateIPs = Some True\<rparr>,
       canvasHook = Some True, browser = True, ctx = True, page = True,
       p_frameInterval = True, p_console = [], p_network = [],
       p_metrics = \<lparr>actions = 2, totalDurationMs = 2, errors = 2\<rparr>,
       calls = [Launch, NewContext, NewPage, AddInitScript, EvaluateInstaller, LocatorWaitFor (ByText ''Settings'') 10000, WaitForTimeout 350, LocatorWaitFor (ByText ''Settings'') 10000, WaitForTimeout 657],
       clock = 9, draws = 2\<rparr> = (Inr JNull, \<lparr>options = \<lparr>allowNavigationTo = None, blockPrivateIPs = Some True\<rparr>,
       canvasHook = Some True, browser = True, ctx = True, page = True,
       p_frameInterval = True, p_console = [], p_network = [],
       p_metrics = \<lparr>actions = 3, totalDurationMs = 6, errors = 2\<rparr>,
       calls = [Launch, NewContext, NewPage, AddInitScript, EvaluateInstaller, LocatorWaitFor (ByText ''Settings'') 10000, WaitForTimeout 350, LocatorWaitFor (ByText ''Settings'') 10000, WaitForTimeout 657, LocatorWaitFor (ByText ''Settings'') 10000, ScrollIntoViewIfNeeded (ByText ''Settings''), LocatorClick (ByText ''Settings'') 10000, WaitForTimeout 100],
       clock = 13, draws = 2\<rparr>)"
    by (simp add: eval_defs)
  have we0: "dispatch flakyEnv ''wait'' waitH1 openEyes = (Inl (EyesError INTERNAL ''Timeout'' None), \<lparr>options = \<lparr>allowNavigationTo = None, blockPrivateIPs = Some True\<rparr>,
       canvasHook = Some True, browser = True, ctx = True, page = True,
       p_frameInterval = True, p_console = [], p_network = [],
       p_metrics = \<lparr>actions = 0, totalDurationMs = 0, errors = 1\<rparr>,
       calls = [Launch, NewContext, NewPage, AddInitScript, EvaluateInstaller, WaitForSelector ''h1'' 10000],
       clock = 6, draws = 0\<rparr>)"
    unfolding openEyes_eq by (simp add: eval_defs)
  have we1: "mathRandom flakyEnv \<lparr>options = \<lparr>allowNavigationTo = None, blockPrivateIPs = Some True\<rparr>,
       canvasHook = Some True, browser = True, ctx = True, page = True,
       p_frameInterval = True, p_console = [], p_network = [],
       p_metrics = \<lparr>actions = 0, totalDurationMs = 0, errors = 1\<rparr>,
       calls = [Launch, NewContext, NewPage, AddInitScript, EvaluateInstaller, WaitForSelector ''h1'' 10000],
       clock = 6, draws = 0\<rparr> = (250, \<lparr>options = \<lparr>allowNavigationTo = None, blockPrivateIPs = Some True\<rparr>,
       canvasHook = Some True, browser = True, ctx = True, page = True,
       p_frameInterval = True, p_console = [], p_network = [],
       p_metrics = \<lparr>actions = 0, totalDurationMs = 0, errors = 1\<rparr>,
       calls = [Launch, NewContext, NewPage, AddInitScript, EvaluateInstaller, WaitForSelector ''h1'' 10000],
       clock = 6, draws = 1\<rparr>)"
    by (simp add: eval_defs)
  have we2: "eyes_wait flakyEnv (sleepArgs (backoff 0 250)) \<lparr>options = \<lparr>allowNavigationTo = None, blockPrivateIPs = Some True\<rparr>,
       canvasHook = Some True, browser = True, ctx = True, page = True,
       p_frameInterval = True, p_console = [], p_network = [],
       p_metrics = \<lparr>actions = 0, totalDurationMs = 0, errors = 1\<rparr>,
       calls = [Launch, NewContext, NewPage, AddInitScript, EvaluateInstaller, WaitForSelector ''h1'' 10000],
       clock = 6, draws = 1\<rparr> = (Inr JNull, \<lparr>options = \<lparr>allowNavigationTo = None, blockPrivateIPs = Some True\<rparr>,
       canvasHook = Some True, browser = True, ctx = True, page = True,
       p_frameInterval = True, p_console = [], p_network = [],
       p_metrics = \<lparr>actions = 1, totalDurationMs = 1, errors = 1\<rparr>,
       calls = [Launch, NewContext, NewPage, AddInitScript, EvaluateInstaller, WaitForSelector ''h1'' 10000, WaitForTimeout 350],
       clock = 7, draws = 1\<rparr>)"
    by (simp add: eval_defs)
  have we3: "dispatch flakyEnv ''wait'' waitH1 \<lparr>options = \<lparr>allowNavigationTo = None, blockPrivateIPs = Some True\<rparr>,
       canvasHook = Some True, browser = True, ctx = True, page = True,
       p_frameInterval = True, p_console = [], p_network = [],
       p_metrics = \<lparr>actions = 1, totalDurationMs = 1, errors = 1\<rparr>,
       calls = [Launch, NewContext, NewPage, AddInitScript, EvaluateInstaller, WaitForSelector ''h1'' 10000, WaitForTimeout 350],
       clock = 7, draws = 1\<rparr> = (Inl (EyesError INTERNAL ''Timeout'' None), \<lparr>options = \<lparr>allowNavigationTo = None, blockPrivateIPs = Some True\<rparr>,
       canvasHook = Some True, browser = True, ctx = True, page = True,
       p_frameInterval = True, p_console = [], p_network = [],
       p_metrics = \<lparr>actions = 1, totalDurationMs = 1, errors = 2\<rparr>,
       calls = [Launch, NewContext, NewPage, AddInitScript, EvaluateInstaller, WaitForSelector ''h1'' 10000, WaitForTimeout 350, WaitForSelector ''h1'' 10000],
       clock = 8, draws = 1\<rparr>)"
    by (simp add: eval_defs)
  have we4: "mathRandom flakyEnv \<lparr>options = \<lparr>allowNavigationTo = None, blockPrivateIPs = Some True\<rparr>,
       canvasHook = Some True, browser = True, ctx = True, page = True,
       p_frameInterval = True, p_console = [], p_network = [],
       p_metrics = \<lparr>actions = 1, totalDurationMs = 1, errors = 2\<rparr>,
       calls = [Launch, NewContext, NewPage, AddInitScript, EvaluateInstaller, WaitForSelector ''h1'' 10000, WaitForTimeout 350, WaitForSelector ''h1'' 10000],
       clock = 8, draws = 1\<rparr> = (257, \<lparr>options = \<lparr>allowNavigationTo = None, blockPrivateIPs = Some True\<rparr>,
       canvasHook = Some True, browser = True, ctx = True, page = True,
       p_frameInterval = True, p_console = [], p_network = [],
       p_metrics = \<lparr>actions = 1, totalDurationMs = 1, errors = 2\<rparr>,
       calls = [Launch, NewContext, NewPage, AddInitScript, EvaluateInstaller, WaitForSelector ''h1'' 10000, WaitForTimeout 350, WaitForSelector ''h1'' 10000],
       clock = 8, draws = 2\<rparr>)"
    by (simp add: eval_defs)
  have we5: "eyes_wait flakyEnv (sleepArgs (backoff 1 257)) \<lparr>options = \<lparr>allowNavigationTo = None, blockPrivateIPs = Some True\<rparr>,
       canvasHook = Some True, browser = True, ctx = True, page = True,
       p_frameInterval = True, p_console = [], p_network = [],
       p_metrics = \<lparr>actions = 1, totalDurationMs = 1, errors = 2\<rparr>,
       calls = [Launch, NewContext, NewPage, AddInitScript, EvaluateInstaller, WaitForSelector ''h1'' 10000, WaitForTimeout 350, WaitForSelector ''h1'' 10000],
       clock = 8, draws = 2\<rparr> = (Inr JNull, \<lparr>options = \<lparr>allowNavigationTo = None, blockPrivateIPs = Some True\<rparr>,
       canvasHook = Some True, browser = True, ctx = True, page = True,
       p_frameInterval = True, p_console = [], p_network = [],
       p_metrics = \<lparr>actions = 2, totalDurationMs = 2, errors = 2\<rparr>,
       calls = [Launch, NewContext, NewPage, AddInitScript, EvaluateInstaller, WaitForSelector ''h1'' 10000, WaitForTimeout 350, WaitForSelector ''h1'' 10000, WaitForTimeout 657],
       clock = 9, draws = 2\<rparr>)"
    by (simp add: eval_defs)
  have we6: "dispatch flakyEnv ''wait'' waitH1 \<lparr>options = \<lparr>allowNavigationTo = None, blockPrivateIPs = Some True\<rparr>,
       canvasHook = Some True, browser = True, ctx = True, page = True,
       p_frameInterval = True, p_console = [], p_network = [],
       p_metrics = \<lparr>actions = 2, totalDurationMs = 2, errors = 2\<rparr>,
       calls = [Launch, NewContext, NewPage, AddInitScript, EvaluateInstaller, WaitForSelector ''h1'' 10000, WaitForTimeout 350, WaitForSelector ''h1'' 10000, WaitForTimeout 657],
       clock = 9, draws = 2\<rparr> = (Inr JNull, \<lparr>options = \<lparr>allowNavigationTo = None, blockPrivateIPs = Some True\<rparr>,
       canvasHook = Some True, browser = True, ctx = True, page = True,
       p_frameInterval = True, p_console = [], p_network = [],
       p_metrics = \<lparr>actions = 3, totalDurationMs = 3, errors = 2\<rparr>,
       calls = [Launch, NewContext, NewPage, AddInitScript, EvaluateInstaller, WaitForSelector ''h1'' 10000, WaitForTimeout 350, WaitForSelector ''h1'' 10000, WaitForTimeout 657, WaitForSelector ''h1'' 10000],
       clock = 10, draws = 2\<rparr>)"
    by (simp add: eval_defs)
  have cf0: "dispatch stubbornEnv ''click'' clickSettings openEyes = (Inl (EyesError ELEMENT_NOT_FOUND ''Element not found for click'' None), \<lparr>options = \<lparr>allowNavigationTo = None, blockPrivateIPs = Some True\<rparr>,
       canvasHook = Some True, browser = True, ctx = True, page = True,
       p_frameInterval = True, p_console = [], p_network = [],
       p_metrics = \<lparr>actions = 0, totalDurationMs = 0, errors = 1\<rparr>,
       calls = [Launch, NewContext, NewPage, AddInitScript, EvaluateInstaller, LocatorWaitFor (ByText ''Settings'') 10000],
       clock = 6, draws = 0\<rparr>)"
    unfolding openEyes_eq by (simp add: eval_defs)
  have cf1: "mathRandom stubbornEnv \<lparr>options = \<lparr>allowNavigationTo = None, blockPrivateIPs = Some True\<rparr>,
       canvasHook = Some True, browser = True, ctx = True, page = True,
       p_frameInterval = True, p_console = [], p_network = [],
       p_metrics = \<lparr>actions = 0, totalDurationMs = 0, errors = 1\<rparr>,
       calls = [Launch, NewContext, NewPage, AddInitScript, EvaluateInstaller, LocatorWaitFor (ByText ''Settings'') 10000],
       clock = 6, draws = 0\<rparr> = (0, \<lparr>options = \<lparr>allowNavigationTo = None, blockPrivateIPs = Some True\<rparr>,
       canvasHook = Some True, browser = True, ctx = True, page = True,
       p_frameInterval = True, p_console = [], p_network = [],
       p_metrics = \<lparr>actions = 0, totalDurationMs = 0, errors = 1\<rparr>,
       calls = [Launch, NewContext, NewPage, AddInitScript, EvaluateInstaller, LocatorWaitFor (ByText ''Settings'') 10000],
       clock = 6, draws = 1\<rparr>)"
    by (simp add: eval_defs)
  have cf2: "eyes_wait stubbornEnv (sleepArgs (backoff 0 0)) \<lparr>options = \<lparr>allowNavigationTo = None, blockPrivateIPs = Some True\<rparr>,
       canvasHook = Some True, browser = True, ctx = True, page = True,
       p_frameInterval = True, p_console = [], p_network = [],
       p_metrics = \<lparr>actions = 0, totalDurationMs = 0, errors = 1\<rparr>,
       calls = [Launch, NewContext, NewPage, AddInitScript, EvaluateInstaller, LocatorWaitFor (ByText ''Settings'') 10000],
       clock = 6, draws = 1\<rparr> = (Inr JNull, \<lparr>options = \<lparr>allowNavigationTo = None, blockPrivateIPs = Some True\<rparr>,
       canvasHook = Some True, browser = True, ctx = True, page = True,
       p_frameInterval = True, p_console = [], p_network = [],
       p_metrics = \<lparr>actions = 1, totalDurationMs = 1, errors = 1\<rparr>,
       calls = [Launch, NewContext, NewPage, AddInitScript, EvaluateInstaller, LocatorWaitFor (ByText ''Settings'') 10000, WaitForTimeout 300],
       clock = 7, draws = 1\<rparr>)"
    by (simp add: eval_defs)
  have cf3: "dispatch stubbornEnv ''click'' clickSettings \<lparr>options = \<lparr>allowNavigationTo = None, blockPrivateIPs = Some True\<rparr>,
       canvasHook = Some True, browser = True, ctx = True, page = True,
       p_frameInterval = True, p_console = [], p_network = [],
       p_metrics = \<lparr>actions = 1, totalDurationMs = 1, errors = 1\<rparr>,
       calls = [Launch, NewContext, NewPage, AddInitScript, EvaluateInstaller, LocatorWaitFor (ByText ''Settings'') 10000, WaitForTimeout 300],
       clock = 7, draws = 1\<rparr> = (Inl (EyesError ELEMENT_NOT_FOUND ''Element not found for click'' None), \<lparr>options = \<lparr>allowNavigationTo = None, blockPrivateIPs = Some True\<rparr>,
       canvasHook = Some True, browser = True, ctx = True, page = True,
       p_frameInterval = True, p_console = [], p_network = [],
       p_metrics = \<lparr>actions = 1, totalDurationMs = 1, errors = 2\<rparr>,
       calls = [Launch, NewContext, NewPage, AddInitScript, EvaluateInstaller, LocatorWaitFor (ByText ''Settings'') 10000, WaitForTimeout 300, LocatorWaitFor (ByText ''Settings'') 10000],
       clock = 8, draws = 1\<rparr>)"
    by (simp add: eval_defs)
  have cf4: "mathRandom stubbornEnv \<lparr>options = \<lparr>allowNavigationTo = None, blockPrivateIPs = Some True\<rparr>,
       canvasHook = Some True, browser = True, ctx = True, page = True,
       p_frameInterval = True, p_console = [], p_network = [],
       p_metrics = \<lparr>actions = 1, totalDurationMs = 1, errors = 2\<rparr>,
       calls = [Launch, NewContext, NewPage, AddInitScript, EvaluateInstaller, LocatorWaitFor (ByText ''Settings'') 10000, WaitForTimeout 300, LocatorWaitFor (ByText ''Settings'') 10000],
       clock = 8, draws = 1\<rparr> = (0, \<lparr>options = \<lparr>allowNavigationTo = None, blockPrivateIPs = Some True\<rparr>,
       canvasHook = Some True, browser = True, ctx = True, page = True,
       p_frameInterval = True, p_console = [], p_network = [],
       p_metrics = \<lparr>actions = 1, totalDurationMs = 1, errors = 2\<rparr>,
       calls = [Launch, NewContext, NewPage, AddInitScript, EvaluateInstaller, LocatorWaitFor (ByText ''Settings'') 10000, WaitForTimeout 300, LocatorWaitFor (ByText ''Settings'') 10000],
       clock = 8, draws = 2\<rparr>)"
    by (simp add: eval_defs)
  have cf5: "eyes_wait stubbornEnv (sleepArgs (backoff 1 0)) \<lparr>options = \<lparr>allowNavigationTo = None, blockPrivateIPs = Some True\<rparr>,
       canvasHook = Some True, browser = True, ctx = True, page = True,
       p_frameInterval = True, p_console = [], p_network = [],
       p_metrics = \<lparr>actions = 1, totalDurationMs = 1, errors = 2\<rparr>,
       calls = [Launch, NewContext, NewPage, AddInitScript, EvaluateInstaller, LocatorWaitFor (ByText ''Settings'') 10000, WaitForTimeout 300, LocatorWaitFor (ByText ''Settings'') 10000],
       clock = 8, draws = 2\<rparr> = (Inr JNull, \<lparr>options = \<lparr>allowNavigationTo = None, blockPrivateIPs = Some True\<rparr>,
       canvasHook = Some True, browser = True, ctx = True, page = True,
       p_frameInterval = True, p_console = [], p_network = [],
       p_metrics = \<lparr>actions = 2, totalDurationMs = 2, errors = 2\<rparr>,
       calls = [Launch, NewContext, NewPage, AddInitScript, EvaluateInstaller, LocatorWaitFor (ByText ''Settings'') 10000, WaitForTimeout 300, LocatorWaitFor (ByText ''Settings'') 10000, WaitForTimeout 600],
       clock = 9, draws = 2\<rparr>)"
    by (simp add: eval_defs)
  have cf6: "dispatch stubbornEnv ''click'' clickSettings \<lparr>options = \<lparr>allowNavigationTo = None, blockPrivateIPs = Some True\<rparr>,
       canvasHook = Some True, browser = True, ctx = True, page = True,
       p_frameInterval = True, p_console = [], p_network = [],
       p_metrics = \<lparr>actions = 2, totalDurationMs = 2, errors = 2\<rparr>,
       calls = [Launch, NewContext, NewPage, AddInitScript, EvaluateInstaller, LocatorWaitFor (ByText ''Settings'') 10000, WaitForTimeout 300, LocatorWaitFor (ByText ''Settings'') 10000, WaitForTimeout 600],
       clock = 9, draws = 2\<rparr> = (Inl (EyesError ELEMENT_NOT_FOUND ''Element not found for click'' None), \<lparr>options = \<lparr>allowNavigationTo = None, blockPrivateIPs = Some True\<rparr>,
       canvasHook = Some True, browser = True, ctx = True, page = True,
       p_frameInterval = True, p_console = [], p_network = [],
       p_metrics = \<lparr>actions = 2, totalDurationMs = 2, errors = 3\<rparr>,
       calls = [Launch, NewContext, NewPage, AddInitScript, EvaluateInstaller, LocatorWaitFor (ByText ''Settings'') 10000, WaitForTimeout 300, LocatorWaitFor (ByText ''Settings'') 10000, WaitForTimeout 600, LocatorWaitFor (ByText ''Settings'') 10000],
       clock = 10, draws = 2\<rparr>)"
    by (simp add: eval_defs)
  have ca: "dispatch calmEnv ''click'' clickSettings openEyes = (Inr JNull, \<lparr>options = \<lparr>allowNavigationTo = None, blockPrivateIPs = Some True\<rparr>,
       canvasHook = Some True, browser = True, ctx = True, page = True,
       p_frameInterval = True, p_console = [], p_network = [],
       p_metrics = \<lparr>actions = 1, totalDurationMs = 4, errors = 0\<rparr>,
       calls = [Launch, NewContext, NewPage, AddInitScript, EvaluateInstaller, LocatorWaitFor (ByText ''Settings'') 10000, ScrollIntoViewIfNeeded (ByText ''Settings''), LocatorClick (ByText ''Settings'') 10000, WaitForTimeout 100],
       clock = 9, draws = 0\<rparr>)"
    unfolding openEyes_eq by (simp add: eval_defs)
  have cb0: "dispatch brokenEnv ''click'' clickSettings openEyes = (Inl (EyesError ELEMENT_NOT_FOUND ''Element not found for click'' None), \<lparr>options = \<lparr>allowNavigationTo = None, blockPrivateIPs = Some True\<rparr>,
       canvasHook = Some True, browser = True, ctx = True, page = True,
       p_frameInterval = True, p_console = [], p_network = [],
       p_metrics = \<lparr>actions = 0, totalDurationMs = 0, errors = 1\<rparr>,
       calls = [Launch, NewContext, NewPage, AddInitScript, EvaluateInstaller, LocatorWaitFor (ByText ''Settings'') 10000],
       clock = 6, draws = 0\<rparr>)"
    unfolding openEyes_eq by (simp add: eval_defs)
  have cb1: "mathRandom brokenEnv \<lparr>options = \<lparr>allowNavigationTo = None, blockPrivateIPs = Some True\<rparr>,
       canvasHook = Some True, browser = True, ctx = True, page = True,
       p_frameInterval = True, p_console = [], p_network = [],
       p_metrics = \<lparr>actions = 0, totalDurationMs = 0, errors = 1\<rparr>,
       calls = [Launch, NewContext, NewPage, AddInitScript, EvaluateInstaller, LocatorWaitFor (ByText ''Settings'') 10000],
       clock = 6, draws = 0\<rparr> = (0, \<lparr>options = \<lparr>allowNavigationTo = None, blockPrivateIPs = Some True\<rparr>,
       canvasHook = Some True, browser = True, ctx = True, page = True,
       p_frameInterval = True, p_console = [], p_network = [],
       p_metrics = \<lparr>actions = 0, totalDurationMs = 0, errors = 1\<rparr>,
       calls = [Launch, NewContext, NewPage, AddInitScript, EvaluateInstaller, LocatorWaitFor (ByText ''Settings'') 10000],
       clock = 6, draws = 1\<rparr>)"
    by (simp add: eval_defs)
  have cb2: "eyes_wait brokenEnv (sleepArgs (backoff 0 0)) \<lparr>options = \<lparr>allowNavigationTo = None, blockPrivateIPs = Some True\<rparr>,
       canvasHook = Some True, browser = True, ctx = True, page = True,
       p_frameInterval = True, p_console = [], p_network = [],
       p_metrics = \<lparr>actions = 0, totalDurationMs = 0, errors = 1\<rparr>,
       calls = [Launch, NewContext, NewPage, AddInitScript, EvaluateInstaller, LocatorWaitFor (ByText ''Settings'') 10000],
       clock = 6, draws = 1\<rparr> = (Inl (EyesError INTERNAL ''Target closed'' None), \<lparr>options = \<lparr>allowNavigationTo = None, blockPrivateIPs = Some True\<rparr>,
       canvasHook = Some True, browser = True, ctx = True, page = True,
       p_frameInterval = True, p_console = [], p_network = [],
       p_metrics = \<lparr>actions = 0, totalDurationMs = 0, errors = 2\<rparr>,
       calls = [Launch, NewContext, NewPage, AddInitScript, EvaluateInstaller, LocatorWaitFor (ByText ''Settings'') 10000, WaitForTimeout 300],
       clock = 7, draws = 1\<rparr>)"
    by (simp add: eval_defs)
  have k: "dispatch calmEnv ''keys'' (noArgs\<lparr>a_press := Some ''Enter''\<rparr>) openEyes =
      (Inr JNull, \<lparr>options = \<lparr>allowNavigationTo = None, blockPrivateIPs = Some True\<rparr>,
       canvasHook = Some True, browser = True, ctx = True, page = True,
       p_frameInterval = True, p_console = [], p_network = [],
       p_metrics = \<lparr>actions = 1, totalDurationMs = 1, errors = 0\<rparr>,
       calls = [Launch, NewContext, NewPage, AddInitScript, EvaluateInstaller, KeyboardPress (Some ''Enter'')],
       clock = 6, draws = 0\<rparr>)"
    unfolding openEyes_eq by (simp add: eval_defs)
  note ce_third = click [THEN conjunct2, rule_format, OF ce0 ce1, THEN conjunct2, rule_format,
      OF ce2, THEN conjunct2, THEN conjunct2, rule_format, OF ce3 ce4, THEN conjunct2,
      rule_format, OF ce5, THEN conjunct2, THEN conjunct2]
  note we_third = wait [THEN conjunct2, rule_format, OF we0 we1, THEN conjunct2, rule_format,
      OF we2, THEN conjunct2, THEN conjunct2, rule_format, OF we3 we4, THEN conjunct2,
      rule_format, OF we5, THEN conjunct2, THEN conjunct2]
  note cf_third = click [THEN conjunct2, rule_format, OF cf0 cf1, THEN conjunct2, rule_format,
      OF cf2, THEN conjunct2, THEN conjunct2, rule_format, OF cf3 cf4, THEN conjunct2,
      rule_format, OF cf5, THEN conjunct2, THEN conjunct2]
  have e1: "execute flakyEnv clickStep openEyes = (None, \<lparr>options = \<lparr>allowNavigationTo = None, blockPrivateIPs = Some True\<rparr>,
       canvasHook = Some True, browser = True, ctx = True, page = True,
       p_frameInterval = True, p_console = [], p_network = [],
       p_metrics = \<lparr>actions = 3, totalDurationMs = 6, errors = 2\<rparr>,
       calls = [Launch, NewContext, NewPage, AddInitScript, EvaluateInstaller, LocatorWaitFor (ByText ''Settings'') 10000, WaitForTimeout 350, LocatorWaitFor (ByText ''Settings'') 10000, WaitForTimeout 657, LocatorWaitFor (ByText ''Settings'') 10000, ScrollIntoViewIfNeeded (ByText ''Settings''), LocatorClick (ByText ''Settings'') 10000, WaitForTimeout 100],
       clock = 13, draws = 2\<rparr>)"
    by (rule ce_third [THEN conjunct1, rule_format, OF ce6, THEN conjunct1])
  have e2: "runSteps flakyEnv clickPlan 5 [clickStep] None openEyes = (None, \<lparr>options = \<lparr>allowNavigationTo = None, blockPrivateIPs = Some True\<rparr>,
       canvasHook = Some True, browser = True, ctx = True, page = True,
       p_frameInterval = True, p_console = [], p_network = [],
       p_metrics = \<lparr>actions = 3, totalDurationMs = 6, errors = 2\<rparr>,
       calls = [Launch, NewContext, NewPage, AddInitScript, EvaluateInstaller, LocatorWaitFor (ByText ''Settings'') 10000, WaitForTimeout 350, LocatorWaitFor (ByText ''Settings'') 10000, WaitForTimeout 657, LocatorWaitFor (ByText ''Settings'') 10000, ScrollIntoViewIfNeeded (ByText ''Settings''), LocatorClick (ByText ''Settings'') 10000, WaitForTimeout 100],
       clock = 13, draws = 2\<rparr>)"
    by (rule ce_third [THEN conjunct1, rule_format, OF ce6, THEN conjunct2])
  have e3: "execute flakyEnv waitStep openEyes = (None, \<lparr>options = \<lparr>allowNavigationTo = None, blockPrivateIPs = Some True\<rparr>,
       canvasHook = Some True, browser = True, ctx = True, page = True,
       p_frameInterval = True, p_console = [], p_network = [],
       p_metrics = \<lparr>actions = 3, totalDurationMs = 3, errors = 2\<rparr>,
       calls = [Launch, NewContext, NewPage, AddInitScript, EvaluateInstaller, WaitForSelector ''h1'' 10000, WaitForTimeout 350, WaitForSelector ''h1'' 10000, WaitForTimeout 657, WaitForSelector ''h1'' 10000],
       clock = 10, draws = 2\<rparr>)"
    by (rule we_third [THEN conjunct1, rule_format, OF we6, THEN conjunct1])
  have e4: "execute calmEnv clickStep openEyes = (None, \<lparr>options = \<lparr>allowNavigationTo = None, blockPrivateIPs = Some True\<rparr>,
       canvasHook = Some True, browser = True, ctx = True, page = True,
       p_frameInterval = True, p_console = [], p_network = [],
       p_metrics = \<lparr>actions = 1, totalDurationMs = 4, errors = 0\<rparr>,
       calls = [Launch, NewContext, NewPage, AddInitScript, EvaluateInstaller, LocatorWaitFor (ByText ''Settings'') 10000, ScrollIntoViewIfNeeded (ByText ''Settings''), LocatorClick (ByText ''Settings'') 10000, WaitForTimeout 100],
       clock = 9, draws = 0\<rparr>)"
    by (rule click [THEN conjunct1, rule_format, OF ca])
  have e5: "execute stubbornEnv clickStep openEyes = (Some (toEyesError (EyesError ELEMENT_NOT_FOUND ''Element not found for click'' None)), \<lparr>options = \<lparr>allowNavigationTo = None, blockPrivateIPs = Some True\<rparr>,
       canvasHook = Some True, browser = True, ctx = True, page = True,
       p_frameInterval = True, p_console = [], p_network = [],
       p_metrics = \<lparr>actions = 2, totalDurationMs = 2, errors = 3\<rparr>,
       calls = [Launch, NewContext, NewPage, AddInitScript, EvaluateInstaller, LocatorWaitFor (ByText ''Settings'') 10000, WaitForTimeout 300, LocatorWaitFor (ByText ''Settings'') 10000, WaitForTimeout 600, LocatorWaitFor (ByText ''Settings'') 10000],
       clock = 10, draws = 2\<rparr>)"
    by (rule cf_third [THEN conjunct2, rule_format, OF cf6])
  have e6: "execute brokenEnv clickStep openEyes = (Some (EyesError INTERNAL ''Target closed'' None), \<lparr>options = \<lparr>allowNavigationTo = None, blockPrivateIPs = Some True\<rparr>,
       canvasHook = Some True, browser = True, ctx = True, page = True,
       p_frameInterval = True, p_console = [], p_network = [],
       p_metrics = \<lparr>actions = 0, totalDurationMs = 0, errors = 2\<rparr>,
       calls = [Launch, NewContext, NewPage, AddInitScript, EvaluateInstaller, LocatorWaitFor (ByText ''Settings'') 10000, WaitForTimeout 300],
       clock = 7, draws = 1\<rparr>)"
    by (rule click [THEN conjunct2, rule_format, OF cb0 cb1, THEN conjunct1, rule_format, OF cb2])
  have e7: "execute calmEnv keysStep openEyes = (None, \<lparr>options = \<lparr>allowNavigationTo = None, blockPrivateIPs = Some True\<rparr>,
       canvasHook = Some True, browser = True, ctx = True, page = True,
       p_frameInterval = True, p_console = [], p_network = [],
       p_metrics = \<lparr>actions = 1, totalDurationMs = 1, errors = 0\<rparr>,
       calls = [Launch, NewContext, NewPage, AddInitScript, EvaluateInstaller, KeyboardPress (Some ''Enter'')],
       clock = 6, draws = 0\<rparr>)"
    using execute_retry_policy [OF b1 b2, THEN conjunct1, rule_format, OF nf, of calmEnv openEyes]
    by (simp only: k prod.case sum.case)
  show ?thesis
    unfolding e1 e2 e3 e4 e5 e6 e7 by (simp add: openEyes_eq)
qed

subsection \<open>The navigation guard\<close>

lemmas guard_defs =
  isPrivateHostname_def PRIVATE_CIDRS_def stripBrackets_def re_10_def re_127_def
  re_169_254_def re_172_def re_192_168_def re_loopback6_def re_fe80_def re_fc00_def
  re_fd00_def re_localhost_def startsWith_def startsWithI_def lowerChar_def

lemma isPrivateHostname_fd12: "isPrivateHostname ''[fd12:3456:789a::1]'' = False"
  by (simp add: guard_defs)

lemma isPrivateHostname_fe90: "isPrivateHostname ''[fe90::1]'' = False"
  by (simp add: guard_defs)

lemma spec_unique_local6_fd12: "spec_unique_local6 ''[fd12:3456:789a::1]''"
  by (simp add: spec_unique_local6_def firstGroup_def stripBrackets_def hexDigit_def)

lemma spec_link_local6_fe90: "spec_link_local6 ''[fe90::1]''"
  by (simp add: spec_link_local6_def firstGroup_def stripBrackets_def hexDigit_def)

lemma guard_disabled:
  assumes "parse raw = Some u"
    and "protocol u = ''http:'' \<or> protocol u = ''https:''"
    and "allowNavigationTo opts = None \<or> (\<exists>re. allowNavigationTo opts = Some re \<and> re (href u))"
    and "blockPrivateIPs opts = Some False"
  shows "guardNavigation parse raw opts = Inr (href u)"
  using assms by (auto simp: guardNavigation_def)

lemma guard_blocks_private:
  assumes "parse raw = Some u"
    and "protocol u = ''http:'' \<or> protocol u = ''https:''"
    and "allowNavigationTo opts = None \<or> (\<exists>re. allowNavigationTo opts = Some re \<and> re (href u))"
    and "blockPrivateIPs opts \<noteq> Some False"
    and "isPrivateHostname (hostname u)"
  shows "guardNavigation parse raw opts =
     Inl (EyesError SECURITY_BLOCKED (''Blocked private/loopback host: '' @ hostname u) None)"
  using assms by (auto simp: guardNavigation_def newEyesError_def)

lemma guard_examples:
  "guardNavigation sampleURL ''http://LOCALHOST:8000/'' defaultOptions =
     Inl (EyesError SECURITY_BLOCKED ''Blocked private/loopback host: localhost'' None)"
  "guardNavigation sampleURL ''http://LOCALHOST:8000/''
     \<lparr>allowNavigationTo = None, blockPrivateIPs = Some False\<rparr> = Inr ''http://localhost:8000/''"
  "guardNavigation sampleURL ''http://[fd00::1]/'' defaultOptions =
     Inl (EyesError SECURITY_BLOCKED ''Blocked private/loopback host: [fd00::1]'' None)"
  "guardNavigation sampleURL ''https://example.com'' defaultOptions = Inr ''https://example.com/''"
  "guardNavigation sampleURL ''not a url'' defaultOptions =
     Inl (EyesError BAD_INPUT ''Invalid URL: not a url'' None)"
  by (simp_all add: guardNavigation_def sampleURL_def defaultOptions_def newEyesError_def
      guard_defs)

lemma isPrivateHostname_fd00: "isPrivateHostname ''[fd00::1]''"
  by (simp add: guard_defs)

text \<open>
  Claim C2, at the inputs where it fails. The host \<^verbatim>\<open>fd12:3456:789a::1\<close> is in the
  unique-local range fc00::/7 and the host \<^verbatim>\<open>fe90::1\<close> is in the link-local range
  fe80::/10, yet with blockPrivateIPs on and no allow-pattern the guard returns both URLs:
  its patterns match only the first groups fe80, fc00 and fd00. An open session with the
  default options then navigates to the unique-local address.
\<close>

theorem guard_passes_unique_local_and_link_local:
  "spec_unique_local6 ''[fd12:3456:789a::1]'' \<and>
   guardNavigation sampleURL ''http://[fd12:3456:789a::1]/''
     \<lparr>allowNavigationTo = None, blockPrivateIPs = Some True\<rparr> =
     Inr ''http://[fd12:3456:789a::1]/'' \<and>
   spec_link_local6 ''[fe90::1]'' \<and>
   guardNavigation sampleURL ''http://[fe90::1]/''
     \<lparr>allowNavigationTo = None, blockPrivateIPs = Some True\<rparr> = Inr ''http://[fe90::1]/'' \<and>
   fst (eyes_navigate calmEnv (noArgs\<lparr>a_url := Some ''http://[fd12:3456:789a::1]/''\<rparr>) openEyes)
     = Inr JNull \<and>
   calls (snd (eyes_navigate calmEnv (noArgs\<lparr>a_url := Some ''http://[fd12:3456:789a::1]/''\<rparr>)
                 openEyes)) =
     calls openEyes @ [Goto ''http://[fd12:3456:789a::1]/'' ''load'' 30000, WaitForTimeout 100]"
proof -
  have g1: "guardNavigation sampleURL ''http://[fd12:3456:789a::1]/''
     \<lparr>allowNavigationTo = None, blockPrivateIPs = Some True\<rparr> =
     Inr ''http://[fd12:3456:789a::1]/''"
    by (simp add: guardNavigation_def sampleURL_def isPrivateHostname_fd12)
  have g2: "guardNavigation sampleURL ''http://[fe90::1]/''
     \<lparr>allowNavigationTo = None, blockPrivateIPs = Some True\<rparr> = Inr ''http://[fe90::1]/''"
    by (simp add: guardNavigation_def sampleURL_def isPrivateHostname_fe90)
  have n: "eyes_navigate calmEnv (noArgs\<lparr>a_url := Some ''http://[fd12:3456:789a::1]/''\<rparr>) openEyes
     = (Inr JNull,
        openEyes\<lparr>p_metrics := \<lparr>actions = 1, totalDurationMs = 2, errors = 0\<rparr>,
          calls := calls openEyes @
            [Goto ''http://[fd12:3456:789a::1]/'' ''load'' 30000, WaitForTimeout 100],
          clock := 7\<rparr>)"
    unfolding openEyes_eq
    by (simp add: eyes_navigate_def noArgs_def truthy_def strOr_def calmEnv_def g1 engine_def
        microIdle_def afterAction_def Let_def)
  show ?thesis
    by (simp add: g1 g2 n spec_unique_local6_fd12 spec_link_local6_fe90)
qed

subsection \<open>Metrics\<close>

lemma engine_metrics [simp]: "p_metrics (snd (engine E c s)) = p_metrics s"
  by (simp add: engine_def Let_def)

lemma engineSeq_metrics [simp]: "p_metrics (snd (engineSeq E cs s)) = p_metrics s"
proof (induction cs arbitrary: s)
  case Nil
  show ?case by simp
next
  case (Cons c cs)
  have "p_metrics (snd (engineSeq E cs (snd (engine E c s)))) = p_metrics s"
    by (simp add: Cons.IH)
  then show ?case
    by (simp add: case_prod_beta split: reply.split)
qed

lemma microIdle_metrics [simp]: "p_metrics (microIdle E s) = p_metrics s"
  by (simp add: microIdle_def)

lemma suggest_metrics [simp]:
  "p_metrics (snd (suggestSelectors E sel t)) = p_metrics t"
  by (simp add: suggestSelectors_def case_prod_beta split: reply.split jsval.split)

lemma succeeded_afterAction:
  "p_metrics s1 = p_metrics s \<Longrightarrow> succeeded s (afterAction a (clock s) s1)"
  by (simp add: succeeded_def afterAction_def Let_def)

lemma failedCounted_countError:
  "p_metrics s1 = p_metrics s \<Longrightarrow> failedCounted s (countError s1)"
  by (simp add: failedCounted_def countError_def)

lemma failedCounted_suggest:
  "p_metrics s1 = p_metrics s \<Longrightarrow>
   failedCounted s (snd (suggestSelectors E sel (countError s1)))"
  by (simp add: failedCounted_def countError_def)

lemma guard_codes:
  "guardNavigation parse raw opts = Inl e \<Longrightarrow> code e = BAD_INPUT \<or> code e = SECURITY_BLOCKED"
  by (auto simp: guardNavigation_def newEyesError_def split: option.splits if_splits)

lemma wait_try_metrics [simp]: "p_metrics (snd (wait_try E args t s)) = p_metrics s"
  by (simp add: wait_try_def case_prod_beta split: reply.split)

lemma click_try_metrics [simp]: "p_metrics (snd (click_try E args t s)) = p_metrics s"
  by (simp add: click_try_def Let_def case_prod_beta del: engineSeq.simps split: option.split)

lemmas cnt_simps = counted_def Let_def case_prod_beta newEyesError_def
  succeeded_afterAction failedCounted_countError failedCounted_suggest

lemma navigate_rejected:
  assumes "page s"
    and "a_url args = None \<or> a_url args = Some [] \<or>
         (\<exists>u. a_url args = Some u \<and> isl (guardNavigation (parseURL E) u (options s)))"
  shows "\<exists>e. eyes_navigate E args s = (Inl e, s) \<and>
             (code e = BAD_INPUT \<or> code e = SECURITY_BLOCKED)"
proof (cases "truthy (a_url args)")
  case False
  then show ?thesis
    using assms(1) by (simp add: eyes_navigate_def newEyesError_def)
next
  case True
  then obtain u where u: "a_url args = Some u" "u \<noteq> []"
    by (auto simp add: truthy_def split: option.splits)
  then have "isl (guardNavigation (parseURL E) u (options s))"
    using assms(2) by auto
  then obtain e where e: "guardNavigation (parseURL E) u (options s) = Inl e"
    by (cases "guardNavigation (parseURL E) u (options s)") auto
  have "eyes_navigate E args s = (Inl e, s)"
    using assms(1) True u e by (simp add: eyes_navigate_def strOr_def)
  then show ?thesis
    using guard_codes [OF e] by simp
qed

lemma navigate_counted:
  assumes "page s" and "a_url args = Some u" and "u \<noteq> []"
    and "\<not> isl (guardNavigation (parseURL E) u (options s))"
  shows "counted s (eyes_navigate E args s)"
proof -
  obtain url where "guardNavigation (parseURL E) u (options s) = Inr url"
    using assms(4) by (cases "guardNavigation (parseURL E) u (options s)") auto
  then show ?thesis
    using assms(1-3)
    by (simp add: eyes_navigate_def truthy_def strOr_def cnt_simps split: reply.split)
qed

lemma wait_counted: "page s \<Longrightarrow> counted s (eyes_wait E args s)"
  by (simp add: eyes_wait_def cnt_simps split: option.split)

lemma click_counted: "page s \<Longrightarrow> counted s (eyes_click E args s)"
  by (simp add: eyes_click_def cnt_simps split: option.split)

lemma type_rejected:
  "page s \<Longrightarrow> a_selector args = None \<or> a_selector args = Some [] \<Longrightarrow>
   \<exists>e. eyes_type E args s = (Inl e, s) \<and> code e = BAD_INPUT"
  by (auto simp add: eyes_type_def truthy_def newEyesError_def)

lemma type_counted:
  assumes "page s" and "\<not> (a_selector args = None \<or> a_selector args = Some [])"
  shows "counted s (eyes_type E args s)"
proof -
  have "truthy (a_selector args)"
    using assms(2) by (cases "a_selector args") (simp_all add: truthy_def)
  then show ?thesis
    using assms(1)
    by (simp add: eyes_type_def cnt_simps del: engineSeq.simps split: option.split)
qed

lemma scroll_counted: "page s \<Longrightarrow> counted s (eyes_scroll E args s)"
  by (simp add: eyes_scroll_def cnt_simps del: engineSeq.simps split: option.split)

lemma keys_counted: "page s \<Longrightarrow> counted s (eyes_keys E args s)"
  by (simp add: eyes_keys_def cnt_simps split: reply.split)

lemma exec_counted: "page s \<Longrightarrow> counted s (eyes_exec E args s)"
  by (simp add: eyes_exec_def cnt_simps split: reply.split)

lemma counted_cases:
  "counted s (r, s') \<Longrightarrow>
   (\<forall>v. r = Inr v \<longrightarrow> succeeded s s') \<and> (\<forall>e. r = Inl e \<longrightarrow> failedCounted s s')"
  by (auto simp add: counted_def)

lemma floor_half: "\<lfloor>1 / 2 :: rat\<rfloor> = 0"
  by (rule floor_unique) simp_all

text \<open>
  Claim C3 as stated fails. On an open session, type without a selector and navigate
  without a URL throw BadInput and leave the whole state, the metrics included, as it
  was: the invocation is not counted at all. (The same mistake in wait, a wait for a
  selector without a selector, throws BadInput inside the \<^verbatim>\<open>try\<close> and is counted as
  an error.)
\<close>

theorem type_without_selector_not_counted:
  "page openEyes \<and>
   eyes_type calmEnv (noArgs\<lparr>a_text := Some ''hello''\<rparr>) openEyes =
     (Inl (EyesError BAD_INPUT ''type.selector is required'' None), openEyes) \<and>
   eyes_navigate calmEnv noArgs openEyes =
     (Inl (EyesError BAD_INPUT ''navigate.url is required'' None), openEyes) \<and>
   fst (eyes_wait calmEnv (noArgs\<lparr>a_for := Some ''selector''\<rparr>) openEyes) =
     Inl (EyesError BAD_INPUT ''wait.selector is required'' None) \<and>
   p_metrics (snd (eyes_wait calmEnv (noArgs\<lparr>a_for := Some ''selector''\<rparr>) openEyes)) =
     \<lparr>actions = 0, totalDurationMs = 0, errors = 1\<rparr>"
  unfolding openEyes_eq by (simp add: eval_defs)

subsection \<open>Click\<close>

lemma click_both_eval:
  "eyes_click calmEnv clickBoth openEyes =
     (Inr JNull,
      openEyes\<lparr>p_metrics := \<lparr>actions = 1, totalDurationMs = 4, errors = 0\<rparr>,
        calls := calls openEyes @
          [LocatorWaitFor (BySelector ''#ok'') 10000, ScrollIntoViewIfNeeded (BySelector ''#ok''),
           LocatorClick (BySelector ''#ok'') 10000, WaitForTimeout 100],
        clock := 9\<rparr>)"
  unfolding openEyes_eq by (simp add: eval_defs clickBoth_def)

text \<open>
  Claim C4 as stated fails: a click that supplies both a selector and a text is accepted;
  in a world where the engine finds the element, it returns.
\<close>

theorem click_accepts_selector_and_text:
  "fst (eyes_click calmEnv clickBoth openEyes) = Inr JNull"
  by (simp add: click_both_eval)

lemma click_found:
  assumes "page s"
    and "(if truthy (a_selector args) then Some (BySelector (strOr (a_selector args) []))
          else if truthy (a_text args) then Some (ByText (strOr (a_text args) []))
          else None) = Some target"
    and "answer E (length (calls s)) = Gave v0"
    and "answer E (Suc (length (calls s))) = Gave v1"
    and "answer E (Suc (Suc (length (calls s)))) = Gave v2"
  shows "eyes_click E args s =
     (Inr JNull,
      s\<lparr>calls := calls s @
           [LocatorWaitFor (case a_nth args of Some k \<Rightarrow> Nth target k | None \<Rightarrow> target)
              (case a_timeoutMs args of None \<Rightarrow> 10000 | Some ms \<Rightarrow> ms),
            ScrollIntoViewIfNeeded (case a_nth args of Some k \<Rightarrow> Nth target k | None \<Rightarrow> target),
            LocatorClick (case a_nth args of Some k \<Rightarrow> Nth target k | None \<Rightarrow> target)
              (case a_timeoutMs args of None \<Rightarrow> 10000 | Some ms \<Rightarrow> ms),
            WaitForTimeout 100],
         clock := clock s + cost E (length (calls s)) + cost E (Suc (length (calls s))) +
           cost E (Suc (Suc (length (calls s)))) + cost E (Suc (Suc (Suc (length (calls s))))),
         p_metrics := (p_metrics s)
           \<lparr>actions := actions (p_metrics s) + 1,
            totalDurationMs := totalDurationMs (p_metrics s) +
              (cost E (length (calls s)) + cost E (Suc (length (calls s))) +
               cost E (Suc (Suc (length (calls s)))) +
               cost E (Suc (Suc (Suc (length (calls s))))))\<rparr>\<rparr>)"
  using assms(1,3,4,5)
  unfolding eyes_click_def click_try_def assms(2)
  by (simp add: engine_def microIdle_def afterAction_def Let_def)


lemma engine_calls: "calls (snd (engine E c s)) = calls s @ [c]"
  by (simp add: engine_def Let_def)

lemma engineSeq_calls:
  "\<exists>rest. calls (snd (engineSeq E (c # cs) s)) = calls s @ c # rest"
proof (induction cs arbitrary: c s)
  case Nil
  show ?case by (simp add: engine_def Let_def split: reply.split)
next
  case (Cons d ds)
  obtain rest where "calls (snd (engineSeq E (d # ds) (snd (engine E c s)))) =
      calls (snd (engine E c s)) @ d # rest"
    using Cons.IH by blast
  then have "calls (snd (engineSeq E (d # ds) (snd (engine E c s)))) = calls s @ c # d # rest"
    by (simp add: engine_calls)
  moreover have "calls (snd (engine E c s)) = calls s @ c # []"
    by (simp add: engine_calls)
  ultimately show ?case
    by (cases "fst (engine E c s)") (auto simp add: case_prod_beta simp del: engineSeq.simps(2) intro: exI
        simp add: engineSeq.simps(2) [of E c "d # ds" s])
qed

lemma suggest_calls:
  "\<exists>rest. calls (snd (suggestSelectors E sel t)) = calls t @ rest"
  by (simp add: suggestSelectors_def engine_def Let_def split: reply.split jsval.split)

lemma engineSeq3_fails:
  assumes "answer E (length (calls s)) = Threw m \<or> answer E (Suc (length (calls s))) = Threw m \<or>
         answer E (Suc (Suc (length (calls s)))) = Threw m"
  shows "fst (engineSeq E [c0, c1, c2] s) \<noteq> None"
  using assms
  by (cases "answer E (length (calls s))"; cases "answer E (Suc (length (calls s)))";
      cases "answer E (Suc (Suc (length (calls s))))") (simp_all add: engine_def Let_def)

lemma click_not_found:
  assumes "page s"
    and "(if truthy (a_selector args) then Some (BySelector (strOr (a_selector args) []))
          else if truthy (a_text args) then Some (ByText (strOr (a_text args) []))
          else None) = Some target"
    and "answer E (length (calls s)) = Threw m \<or> answer E (Suc (length (calls s))) = Threw m \<or>
         answer E (Suc (Suc (length (calls s)))) = Threw m"
  shows "(\<exists>h. fst (eyes_click E args s) =
            Inl (EyesError ELEMENT_NOT_FOUND ''Element not found for click'' h)) \<and>
         take (Suc (length (calls s))) (calls (snd (eyes_click E args s))) =
           calls s @ [LocatorWaitFor (case a_nth args of Some k \<Rightarrow> Nth target k | None \<Rightarrow> target)
              (case a_timeoutMs args of None \<Rightarrow> 10000 | Some ms \<Rightarrow> ms)] \<and>
         p_metrics (snd (eyes_click E args s)) =
           (p_metrics s)\<lparr>errors := errors (p_metrics s) + 1\<rparr>"
proof -
  define loc where "loc = (case a_nth args of Some k \<Rightarrow> Nth target k | None \<Rightarrow> target)"
  define t where "t = (case a_timeoutMs args of None \<Rightarrow> 10000 | Some ms \<Rightarrow> ms)"
  define cs where "cs = [ScrollIntoViewIfNeeded loc, LocatorClick loc t]"
  obtain r s1 where seq: "engineSeq E (LocatorWaitFor loc t # cs) s = (r, s1)"
    by (cases "engineSeq E (LocatorWaitFor loc t # cs) s")
  have "r \<noteq> None"
    using engineSeq3_fails [OF assms(3), of "LocatorWaitFor loc t" "ScrollIntoViewIfNeeded loc"
        "LocatorClick loc t"] seq by (simp add: cs_def)
  then obtain m' where r: "r = Some m'" by auto
  obtain rest where c1: "calls s1 = calls s @ LocatorWaitFor loc t # rest"
    using engineSeq_calls [of E "LocatorWaitFor loc t" cs s] seq by auto
  have m1: "p_metrics s1 = p_metrics s"
    using engineSeq_metrics [of E "LocatorWaitFor loc t # cs" s] seq by simp
  have tr: "click_try E args t s = (Some (JsError m'), s1)"
    unfolding click_try_def assms(2) using seq r
    by (simp add: loc_def [symmetric] cs_def Let_def del: engineSeq.simps)
  obtain similar s2 where sug: "(if truthy (a_selector args)
                    then suggestSelectors E (strOr (a_selector args) []) (countError s1)
                    else ([], countError s1)) = (similar, s2)"
    by (cases "(if truthy (a_selector args)
                    then suggestSelectors E (strOr (a_selector args) []) (countError s1)
                    else ([], countError s1))")
  have res: "eyes_click E args s =
      (Inl (newEyesError ELEMENT_NOT_FOUND ''Element not found for click''
              (Some (if similar \<noteq> [] then ''Did you mean: '' @ joinComma similar else []))), s2)"
    using assms(1)
    by (simp only: eyes_click_def Let_def t_def [symmetric] tr sug prod.case option.case
        simp_thms if_False)
  have s2: "s2 = (if truthy (a_selector args)
                    then snd (suggestSelectors E (strOr (a_selector args) []) (countError s1))
                    else countError s1)"
    using sug by (auto split: if_splits)
  have cc: "calls (countError s1) = calls s1"
    by (simp add: countError_def)
  have "\<exists>rest2. calls s2 = calls s1 @ rest2"
  proof (cases "truthy (a_selector args)")
    case True
    show ?thesis
      unfolding s2 using True suggest_calls [of E "strOr (a_selector args) []" "countError s1"]
      by (simp only: if_True cc)
  next
    case False
    then show ?thesis by (simp add: s2 cc)
  qed
  then obtain rest2 where c2: "calls s2 = calls s1 @ rest2" ..
  have m2: "p_metrics s2 = (p_metrics s)\<lparr>errors := errors (p_metrics s) + 1\<rparr>"
    by (simp add: s2 countError_def m1)
  show ?thesis
    unfolding res loc_def [symmetric] t_def [symmetric]
    by (simp add: newEyesError_def c1 c2 m2)
qed

text \<open>
  Claim C4, as the code has it. On an open session, a click that supplies neither a
  selector nor a text (absent or empty) fails, and never reaches the engine. A click that
  supplies a selector, with or without a text, is accepted and aims at the selector; a
  click that supplies a text and no selector aims at the text. Either way the call waits
  for the element, scrolls it into view and clicks it, with the timeout given or 10000,
  on the \<open>nth\<close> match if one is asked for: when the engine answers these three calls, the
  click returns after the idle wait and is counted as one action; when the engine fails
  one of them, the click throws ElementNotFound, not BadInput, having asked at least for
  the element, and is counted as one error. A click that supplies a selector ignores the
  text: it is the same call as the one without the text.
\<close>

theorem click_selector_or_text:
  assumes "page s"
  shows
    "((a_selector args = None \<or> a_selector args = Some []) \<and>
      (a_text args = None \<or> a_text args = Some []) \<longrightarrow>
        isl (fst (eyes_click E args s)) \<and> calls (snd (eyes_click E args s)) = calls s) \<and>
     (\<forall>sel label target loc t n.
        (a_selector args = Some sel \<and> sel \<noteq> [] \<and> target = BySelector sel \<or>
         (a_selector args = None \<or> a_selector args = Some []) \<and>
           a_text args = Some label \<and> label \<noteq> [] \<and> target = ByText label) \<longrightarrow>
        loc = (case a_nth args of Some k \<Rightarrow> Nth target k | None \<Rightarrow> target) \<longrightarrow>
        t = (case a_timeoutMs args of None \<Rightarrow> 10000 | Some ms \<Rightarrow> ms) \<longrightarrow>
        n = length (calls s) \<longrightarrow>
        ((\<forall>k\<in>{0, 1, 2}. \<exists>v. answer E (n + k) = Gave v) \<longrightarrow>
           eyes_click E args s =
             (Inr JNull,
              s\<lparr>calls := calls s @
                   [LocatorWaitFor loc t, ScrollIntoViewIfNeeded loc, LocatorClick loc t,
                    WaitForTimeout 100],
                clock := clock s + cost E n + cost E (n + 1) + cost E (n + 2) + cost E (n + 3),
                p_metrics := (p_metrics s)
                  \<lparr>actions := actions (p_metrics s) + 1,
                   totalDurationMs := totalDurationMs (p_metrics s) +
                     (cost E n + cost E (n + 1) + cost E (n + 2) + cost E (n + 3))\<rparr>\<rparr>)) \<and>
        ((\<exists>k\<in>{0, 1, 2}. \<exists>m. answer E (n + k) = Threw m) \<longrightarrow>
           (\<exists>h. fst (eyes_click E args s) =
              Inl (EyesError ELEMENT_NOT_FOUND ''Element not found for click'' h)) \<and>
           take (Suc n) (calls (snd (eyes_click E args s))) = calls s @ [LocatorWaitFor loc t] \<and>
           p_metrics (snd (eyes_click E args s)) =
             (p_metrics s)\<lparr>errors := errors (p_metrics s) + 1\<rparr>)) \<and>
     (\<forall>sel. a_selector args = Some sel \<longrightarrow> sel \<noteq> [] \<longrightarrow>
        eyes_click E args s = eyes_click E (args\<lparr>a_text := None\<rparr>) s)"
proof (intro conjI impI allI)
  assume "(a_selector args = None \<or> a_selector args = Some []) \<and>
      (a_text args = None \<or> a_text args = Some [])"
  then have none: "\<not> truthy (a_selector args)" "\<not> truthy (a_text args)"
    by (auto simp add: truthy_def)
  show "isl (fst (eyes_click E args s))"
    using assms none by (simp add: eyes_click_def click_try_def Let_def)
  show "calls (snd (eyes_click E args s)) = calls s"
    using assms none by (simp add: eyes_click_def click_try_def Let_def countError_def)
next
  fix sel label target loc t n
  assume given: "a_selector args = Some sel \<and> sel \<noteq> [] \<and> target = BySelector sel \<or>
         (a_selector args = None \<or> a_selector args = Some []) \<and>
           a_text args = Some label \<and> label \<noteq> [] \<and> target = ByText label"
    and loc: "loc = (case a_nth args of Some k \<Rightarrow> Nth target k | None \<Rightarrow> target)"
    and t: "t = (case a_timeoutMs args of None \<Rightarrow> 10000 | Some ms \<Rightarrow> ms)"
    and n: "n = length (calls s)"
  have target: "(if truthy (a_selector args) then Some (BySelector (strOr (a_selector args) []))
          else if truthy (a_text args) then Some (ByText (strOr (a_text args) []))
          else None) = Some target"
    using given by (auto simp add: truthy_def strOr_def)
  {
    assume "\<forall>k\<in>{0, 1, 2}. \<exists>v. answer E (n + k) = Gave v"
    then obtain v0 v1 v2 where
      "answer E (length (calls s)) = Gave v0" "answer E (Suc (length (calls s))) = Gave v1"
      "answer E (Suc (Suc (length (calls s)))) = Gave v2"
      unfolding n by auto
    from click_found [OF assms target this]
    show "eyes_click E args s =
             (Inr JNull,
              s\<lparr>calls := calls s @
                   [LocatorWaitFor loc t, ScrollIntoViewIfNeeded loc, LocatorClick loc t,
                    WaitForTimeout 100],
                clock := clock s + cost E n + cost E (n + 1) + cost E (n + 2) + cost E (n + 3),
                p_metrics := (p_metrics s)
                  \<lparr>actions := actions (p_metrics s) + 1,
                   totalDurationMs := totalDurationMs (p_metrics s) +
                     (cost E n + cost E (n + 1) + cost E (n + 2) + cost E (n + 3))\<rparr>\<rparr>)"
      by (simp add: loc t n numeral_3_eq_3)
  }
  {
    assume "\<exists>k\<in>{0, 1, 2}. \<exists>m. answer E (n + k) = Threw m"
    then obtain m where
      "answer E (length (calls s)) = Threw m \<or> answer E (Suc (length (calls s))) = Threw m \<or>
         answer E (Suc (Suc (length (calls s)))) = Threw m"
      unfolding n by auto
    note nf = click_not_found [OF assms target this]
    show "\<exists>h. fst (eyes_click E args s) =
              Inl (EyesError ELEMENT_NOT_FOUND ''Element not found for click'' h)"
      by (rule nf [THEN conjunct1])
    show "take (Suc n) (calls (snd (eyes_click E args s))) = calls s @ [LocatorWaitFor loc t]"
      unfolding loc t n by (rule nf [THEN conjunct2, THEN conjunct1])
    show "p_metrics (snd (eyes_click E args s)) =
             (p_metrics s)\<lparr>errors := errors (p_metrics s) + 1\<rparr>"
      by (rule nf [THEN conjunct2, THEN conjunct2])
  }
next
  fix sel
  assume "a_selector args = Some sel" and "sel \<noteq> []"
  then have sel: "truthy (a_selector args)"
    by (simp add: truthy_def)
  have 1: "a_selector (args\<lparr>a_text := None\<rparr>) = a_selector args"
    "a_timeoutMs (args\<lparr>a_text := None\<rparr>) = a_timeoutMs args"
    by simp_all
  have 2: "click_try E (args\<lparr>a_text := None\<rparr>) t s = click_try E args t s" for t
    using sel by (simp add: click_try_def)
  show "eyes_click E args s = eyes_click E (args\<lparr>a_text := None\<rparr>) s"
    unfolding eyes_click_def 1 2 by (rule refl)
qed

text \<open>
  On the open session: a click with selector and text returns, having clicked the
  selector's element, and a click with a text alone returns; a click with both that the
  engine fails throws ElementNotFound, as it does without the text, and is counted as an
  error; a click with neither fails without a call of the engine.
\<close>

theorem click_selector_or_text_witness:
  "eyes_click calmEnv clickBoth openEyes =
     (Inr JNull,
      openEyes\<lparr>calls := calls openEyes @
          [LocatorWaitFor (BySelector ''#ok'') 10000, ScrollIntoViewIfNeeded (BySelector ''#ok''),
           LocatorClick (BySelector ''#ok'') 10000, WaitForTimeout 100],
        clock := 9,
        p_metrics := \<lparr>actions = 1, totalDurationMs = 4, errors = 0\<rparr>\<rparr>) \<and>
   eyes_click calmEnv clickSettings openEyes =
     (Inr JNull,
      openEyes\<lparr>calls := calls openEyes @
          [LocatorWaitFor (ByText ''Settings'') 10000,
           ScrollIntoViewIfNeeded (ByText ''Settings''),
           LocatorClick (ByText ''Settings'') 10000, WaitForTimeout 100],
        clock := 9,
        p_metrics := \<lparr>actions = 1, totalDurationMs = 4, errors = 0\<rparr>\<rparr>) \<and>
   (\<exists>h. fst (eyes_click stubbornEnv clickBoth openEyes) =
      Inl (EyesError ELEMENT_NOT_FOUND ''Element not found for click'' h)) \<and>
   take 6 (calls (snd (eyes_click stubbornEnv clickBoth openEyes))) =
     calls openEyes @ [LocatorWaitFor (BySelector ''#ok'') 10000] \<and>
   p_metrics (snd (eyes_click stubbornEnv clickBoth openEyes)) =
     \<lparr>actions = 0, totalDurationMs = 0, errors = 1\<rparr> \<and>
   isl (fst (eyes_click calmEnv noArgs openEyes)) \<and>
   calls (snd (eyes_click calmEnv noArgs openEyes)) = calls openEyes \<and>
   eyes_click stubbornEnv clickBoth openEyes =
     eyes_click stubbornEnv (clickBoth\<lparr>a_text := None\<rparr>) openEyes"
proof -
  have pg: "page openEyes"
    by (simp add: openEyes_eq)
  have both: "a_selector clickBoth = Some ''#ok'' \<and> ''#ok'' \<noteq> [] \<and>
        BySelector ''#ok'' = BySelector ''#ok'' \<or>
      (a_selector clickBoth = None \<or> a_selector clickBoth = Some []) \<and>
        a_text clickBoth = Some ''OK'' \<and> ''OK'' \<noteq> [] \<and> BySelector ''#ok'' = ByText ''OK''"
    by (simp add: clickBoth_def noArgs_def)
  have byText: "a_selector clickSettings = Some [] \<and> [] \<noteq> [] \<and>
        ByText ''Settings'' = BySelector [] \<or>
      (a_selector clickSettings = None \<or> a_selector clickSettings = Some []) \<and>
        a_text clickSettings = Some ''Settings'' \<and> ''Settings'' \<noteq> [] \<and>
        ByText ''Settings'' = ByText ''Settings''"
    by (simp add: clickSettings_def noArgs_def)
  have neither: "(a_selector noArgs = None \<or> a_selector noArgs = Some []) \<and>
      (a_text noArgs = None \<or> a_text noArgs = Some [])"
    by (simp add: noArgs_def)
  have lb: "BySelector ''#ok'' =
      (case a_nth clickBoth of Some k \<Rightarrow> Nth (BySelector ''#ok'') k | None \<Rightarrow> BySelector ''#ok'')"
    and tb: "10000 = (case a_timeoutMs clickBoth of None \<Rightarrow> 10000 | Some ms \<Rightarrow> ms)"
    by (simp_all add: clickBoth_def noArgs_def)
  have lt: "ByText ''Settings'' =
      (case a_nth clickSettings of Some k \<Rightarrow> Nth (ByText ''Settings'') k
       | None \<Rightarrow> ByText ''Settings'')"
    and tt: "10000 = (case a_timeoutMs clickSettings of None \<Rightarrow> 10000 | Some ms \<Rightarrow> ms)"
    by (simp_all add: clickSettings_def noArgs_def)
  have n: "5 = length (calls openEyes)"
    by (simp add: openEyes_eq)
  have calm: "\<forall>k\<in>{0, 1, 2}. \<exists>v. answer calmEnv (5 + k) = Gave v"
    by (simp add: calmEnv_def)
  have stubborn: "\<exists>k\<in>{0, 1, 2}. \<exists>m. answer stubbornEnv (5 + k) = Threw m"
    by (simp add: stubbornEnv_def)
  note found = click_selector_or_text [OF pg, THEN conjunct2, THEN conjunct1, rule_format, OF both lb tb n,
      THEN conjunct1, THEN mp, OF calm]
  note found_text = click_selector_or_text [OF pg, THEN conjunct2, THEN conjunct1, rule_format, OF byText lt tt n,
      THEN conjunct1, THEN mp, OF calm]
  note missing = click_selector_or_text [OF pg, THEN conjunct2, THEN conjunct1, rule_format, OF both lb tb n,
      THEN conjunct2, THEN mp, OF stubborn]
  note unnamed = click_selector_or_text [OF pg, THEN conjunct1, THEN mp, OF neither,
      of calmEnv]
  have sel: "a_selector clickBoth = Some ''#ok''" and ne: "''#ok'' \<noteq> []"
    by (simp_all add: clickBoth_def noArgs_def)
  note ignored = click_selector_or_text [OF pg, THEN conjunct2, THEN conjunct2, rule_format,
      OF sel ne, of stubbornEnv]
  have costs: "clock openEyes + cost calmEnv 5 + cost calmEnv (5 + 1) + cost calmEnv (5 + 2) +
      cost calmEnv (5 + 3) = 9"
    "cost calmEnv 5 + cost calmEnv (5 + 1) + cost calmEnv (5 + 2) + cost calmEnv (5 + 3) = 4"
    by (simp_all add: calmEnv_def openEyes_eq)
  have m0: "p_metrics openEyes = \<lparr>actions = 0, totalDurationMs = 0, errors = 0\<rparr>"
    by (simp add: openEyes_eq)
  show ?thesis
    using found found_text missing unnamed ignored
    unfolding costs by (simp add: m0)
qed

subsection \<open>Counting the actions\<close>

lemma click_stubborn_eval:
  "eyes_click stubbornEnv clickSettings openEyes =
     (Inl (EyesError ELEMENT_NOT_FOUND ''Element not found for click'' None),
      openEyes\<lparr>p_metrics := \<lparr>actions = 0, totalDurationMs = 0, errors = 1\<rparr>,
        calls := calls openEyes @ [LocatorWaitFor (ByText ''Settings'') 10000],
        clock := 6\<rparr>)"
  unfolding openEyes_eq by (simp add: eval_defs)

text \<open>
  Claim C3, as the code has it. An invocation of one of the seven primitive actions on an
  open session updates the metrics exactly once, whether it succeeds or fails: when it
  returns, it has counted exactly one action and added its duration to the total, and no
  error; when it throws, it has counted exactly one error and no action, a BadInput
  thrown inside the \<^verbatim>\<open>try\<close> of wait or click included. The exception is an invocation
  that is rejected before the \<^verbatim>\<open>try\<close>: navigate without a URL or with a URL that the
  navigation guard rejects, and type without a selector, throw BadInput or
  SecurityBlocked and leave the state, the metrics included, as it was. The metrics
  report the action count, the rounded average duration and the errors divided by the
  actions, average and rate being 0 while the action count is 0, as in a session just
  constructed.
\<close>

theorem action_counted_once:
  assumes "page s"
    and "act \<in> set [''navigate'', ''wait'', ''click'', ''type'', ''scroll'', ''keys'', ''exec'']"
    and "dispatch E act args s = (r, s')"
    and "rejected =
      (act = ''navigate'' \<and>
         (a_url args = None \<or> a_url args = Some [] \<or>
          (\<exists>u. a_url args = Some u \<and> isl (guardNavigation (parseURL E) u (options s)))) \<or>
       act = ''type'' \<and> (a_selector args = None \<or> a_selector args = Some []))"
  shows "(rejected \<longrightarrow>
            (\<exists>e. r = Inl e \<and> (code e = BAD_INPUT \<or> code e = SECURITY_BLOCKED)) \<and> s' = s) \<and>
         (\<not> rejected \<longrightarrow>
            (\<forall>v. r = Inr v \<longrightarrow>
               p_metrics s' = (p_metrics s)
                 \<lparr>actions := actions (p_metrics s) + 1,
                  totalDurationMs := totalDurationMs (p_metrics s) + (clock s' - clock s)\<rparr>) \<and>
            (\<forall>e. r = Inl e \<longrightarrow>
               p_metrics s' = (p_metrics s)\<lparr>errors := errors (p_metrics s) + 1\<rparr>)) \<and>
         mv_actions (eyes_metrics s') = actions (p_metrics s') \<and>
         errorRate (eyes_metrics s') =
           (if actions (p_metrics s') = 0 then 0
            else rat_of_nat (errors (p_metrics s')) / rat_of_nat (actions (p_metrics s'))) \<and>
         avgDurationMs (eyes_metrics s') =
           (if actions (p_metrics s') = 0 then 0
            else \<lfloor>rat_of_nat (totalDurationMs (p_metrics s')) / rat_of_nat (actions (p_metrics s'))
                   + 1 / 2\<rfloor>) \<and>
         eyes_metrics (newAgentEyes opts hook now) =
           \<lparr>mv_actions = 0, avgDurationMs = 0, errorRate = 0\<rparr>"
proof -
  have 1: "rejected \<longrightarrow>
      (\<exists>e. r = Inl e \<and> (code e = BAD_INPUT \<or> code e = SECURITY_BLOCKED)) \<and> s' = s"
  proof
    assume rejected
    then consider
      (nav) "act = ''navigate'' \<and> (a_url args = None \<or> a_url args = Some [] \<or>
          (\<exists>u. a_url args = Some u \<and> isl (guardNavigation (parseURL E) u (options s))))"
      | (byType) "act = ''type'' \<and> (a_selector args = None \<or> a_selector args = Some [])"
      unfolding assms(4) by blast
    then show "(\<exists>e. r = Inl e \<and> (code e = BAD_INPUT \<or> code e = SECURITY_BLOCKED)) \<and> s' = s"
    proof cases
      case nav
      have "dispatch E act args s = eyes_navigate E args s"
        using nav by (simp add: dispatch_def)
      then show ?thesis
        using navigate_rejected [OF assms(1) nav [THEN conjunct2]] assms(3) by auto
    next
      case byType
      have "dispatch E act args s = eyes_type E args s"
        using byType by (simp add: dispatch_def)
      then show ?thesis
        using type_rejected [OF assms(1) byType [THEN conjunct2], of E] assms(3) by auto
    qed
  qed
  have 2: "\<not> rejected \<longrightarrow>
      (\<forall>v. r = Inr v \<longrightarrow> succeeded s s') \<and> (\<forall>e. r = Inl e \<longrightarrow> failedCounted s s')"
  proof
    assume nr: "\<not> rejected"
    have "counted s (dispatch E act args s)"
    proof -
      have "act = ''navigate'' \<or> act = ''wait'' \<or> act = ''click'' \<or> act = ''type'' \<or>
          act = ''scroll'' \<or> act = ''keys'' \<or> act = ''exec''"
        using assms(2) by (simp only: list.set insert_iff empty_iff simp_thms)
      then show ?thesis
      proof (elim disjE)
        assume 1: "act = ''navigate''"
        have "\<not> (a_url args = None \<or> a_url args = Some [] \<or>
          (\<exists>u. a_url args = Some u \<and> isl (guardNavigation (parseURL E) u (options s))))"
          using nr 1 unfolding assms(4) by simp
        then obtain u where "a_url args = Some u" "u \<noteq> []"
          "\<not> isl (guardNavigation (parseURL E) u (options s))"
          by (cases "a_url args") auto
        from navigate_counted [OF assms(1) this] show ?thesis
          by (simp add: dispatch_def 1)
      next
        assume "act = ''wait''"
        then show ?thesis by (simp add: dispatch_def wait_counted [OF assms(1)])
      next
        assume "act = ''click''"
        then show ?thesis by (simp add: dispatch_def click_counted [OF assms(1)])
      next
        assume 4: "act = ''type''"
        have "\<not> (a_selector args = None \<or> a_selector args = Some [])"
          using nr 4 unfolding assms(4) by simp
        from type_counted [OF assms(1) this] show ?thesis
          by (simp add: dispatch_def 4)
      next
        assume "act = ''scroll''"
        then show ?thesis by (simp add: dispatch_def scroll_counted [OF assms(1)])
      next
        assume "act = ''keys''"
        then show ?thesis by (simp add: dispatch_def keys_counted [OF assms(1)])
      next
        assume "act = ''exec''"
        then show ?thesis by (simp add: dispatch_def exec_counted [OF assms(1)])
      qed
    qed
    then show "(\<forall>v. r = Inr v \<longrightarrow> succeeded s s') \<and> (\<forall>e. r = Inl e \<longrightarrow> failedCounted s s')"
      unfolding assms(3) by (rule counted_cases)
  qed
  have 5: "mv_actions (eyes_metrics s') = actions (p_metrics s')"
    by (simp add: eyes_metrics_def Let_def)
  have 6: "errorRate (eyes_metrics s') =
           (if actions (p_metrics s') = 0 then 0
            else rat_of_nat (errors (p_metrics s')) / rat_of_nat (actions (p_metrics s')))"
    by (simp add: eyes_metrics_def Let_def)
  have 7: "avgDurationMs (eyes_metrics s') =
           (if actions (p_metrics s') = 0 then 0
            else \<lfloor>rat_of_nat (totalDurationMs (p_metrics s')) / rat_of_nat (actions (p_metrics s'))
                   + 1 / 2\<rfloor>)"
    by (simp add: eyes_metrics_def Let_def floor_half)
  have 8: "eyes_metrics (newAgentEyes opts hook now) =
           \<lparr>mv_actions = 0, avgDurationMs = 0, errorRate = 0\<rparr>"
    by (simp add: eyes_metrics_def newAgentEyes_def floor_half)
  show ?thesis
    using 1 2 5 6 7 8 unfolding succeeded_def failedCounted_def by blast
qed

text \<open>
  On the open session: a click that returns is counted as one action; a click that the
  engine fails, a click without selector and text, and a wait for a selector without a
  selector are each counted as one error; type without a selector and a navigation to
  localhost are rejected and change nothing.
\<close>

theorem action_counted_once_witness:
  "p_metrics (snd (dispatch calmEnv ''click'' clickBoth openEyes)) =
     \<lparr>actions = 1, totalDurationMs = 4, errors = 0\<rparr> \<and>
   isl (fst (dispatch stubbornEnv ''click'' clickSettings openEyes)) \<and>
   p_metrics (snd (dispatch stubbornEnv ''click'' clickSettings openEyes)) =
     \<lparr>actions = 0, totalDurationMs = 0, errors = 1\<rparr> \<and>
   fst (dispatch calmEnv ''wait'' (noArgs\<lparr>a_for := Some ''selector''\<rparr>) openEyes) =
     Inl (EyesError BAD_INPUT ''wait.selector is required'' None) \<and>
   p_metrics (snd (dispatch calmEnv ''wait'' (noArgs\<lparr>a_for := Some ''selector''\<rparr>) openEyes)) =
     \<lparr>actions = 0, totalDurationMs = 0, errors = 1\<rparr> \<and>
   isl (fst (dispatch calmEnv ''click'' noArgs openEyes)) \<and>
   p_metrics (snd (dispatch calmEnv ''click'' noArgs openEyes)) =
     \<lparr>actions = 0, totalDurationMs = 0, errors = 1\<rparr> \<and>
   isl (fst (dispatch calmEnv ''type'' (noArgs\<lparr>a_text := Some ''hello''\<rparr>) openEyes)) \<and>
   snd (dispatch calmEnv ''type'' (noArgs\<lparr>a_text := Some ''hello''\<rparr>) openEyes) = openEyes \<and>
   dispatch calmEnv ''navigate'' (noArgs\<lparr>a_url := Some ''http://LOCALHOST:8000/''\<rparr>) openEyes =
     (Inl (EyesError SECURITY_BLOCKED ''Blocked private/loopback host: localhost'' None),
      openEyes)"
proof -
  have p: "page openEyes"
    by (simp add: openEyes_eq)
  have m0: "p_metrics openEyes = \<lparr>actions = 0, totalDurationMs = 0, errors = 0\<rparr>"
    and c0: "clock openEyes = 5"
    by (simp_all add: openEyes_eq)
  have click: "''click'' \<in> set [''navigate'', ''wait'', ''click'', ''type'', ''scroll'', ''keys'', ''exec'']"
    and wait: "''wait'' \<in> set [''navigate'', ''wait'', ''click'', ''type'', ''scroll'', ''keys'', ''exec'']"
    and type: "''type'' \<in> set [''navigate'', ''wait'', ''click'', ''type'', ''scroll'', ''keys'', ''exec'']"
    and navigate:
      "''navigate'' \<in> set [''navigate'', ''wait'', ''click'', ''type'', ''scroll'', ''keys'', ''exec'']"
    by simp_all
  have a: "dispatch calmEnv ''click'' clickBoth openEyes =
      (Inr JNull,
       openEyes\<lparr>p_metrics := \<lparr>actions = 1, totalDurationMs = 4, errors = 0\<rparr>,
        calls := calls openEyes @
          [LocatorWaitFor (BySelector ''#ok'') 10000, ScrollIntoViewIfNeeded (BySelector ''#ok''),
           LocatorClick (BySelector ''#ok'') 10000, WaitForTimeout 100],
        clock := 9\<rparr>)"
    by (simp add: dispatch_def click_both_eval)
  have b: "dispatch stubbornEnv ''click'' clickSettings openEyes =
      (Inl (EyesError ELEMENT_NOT_FOUND ''Element not found for click'' None),
       openEyes\<lparr>p_metrics := \<lparr>actions = 0, totalDurationMs = 0, errors = 1\<rparr>,
        calls := calls openEyes @ [LocatorWaitFor (ByText ''Settings'') 10000],
        clock := 6\<rparr>)"
    by (simp add: dispatch_def click_stubborn_eval)
  have c: "dispatch calmEnv ''wait'' (noArgs\<lparr>a_for := Some ''selector''\<rparr>) openEyes =
      (Inl (EyesError BAD_INPUT ''wait.selector is required'' None),
       openEyes\<lparr>p_metrics := \<lparr>actions = 0, totalDurationMs = 0, errors = 1\<rparr>\<rparr>)"
    unfolding openEyes_eq by (simp add: eval_defs)
  have d: "dispatch calmEnv ''click'' noArgs openEyes =
      (Inl (EyesError ELEMENT_NOT_FOUND ''Element not found for click'' None),
       openEyes\<lparr>p_metrics := \<lparr>actions = 0, totalDurationMs = 0, errors = 1\<rparr>\<rparr>)"
    unfolding openEyes_eq by (simp add: eval_defs)
  have e: "dispatch calmEnv ''type'' (noArgs\<lparr>a_text := Some ''hello''\<rparr>) openEyes =
      (Inl (EyesError BAD_INPUT ''type.selector is required'' None), openEyes)"
    unfolding openEyes_eq by (simp add: eval_defs)
  have na: "\<not> (''click'' = ''navigate'' \<and>
         (a_url clickBoth = None \<or> a_url clickBoth = Some [] \<or>
          (\<exists>u. a_url clickBoth = Some u \<and>
             isl (guardNavigation (parseURL calmEnv) u (options openEyes)))) \<or>
       ''click'' = ''type'' \<and> (a_selector clickBoth = None \<or> a_selector clickBoth = Some []))"
    and nb: "\<not> (''click'' = ''navigate'' \<and>
         (a_url clickSettings = None \<or> a_url clickSettings = Some [] \<or>
          (\<exists>u. a_url clickSettings = Some u \<and>
             isl (guardNavigation (parseURL stubbornEnv) u (options openEyes)))) \<or>
       ''click'' = ''type'' \<and>
         (a_selector clickSettings = None \<or> a_selector clickSettings = Some []))"
    and nc: "\<not> (''wait'' = ''navigate'' \<and>
         (a_url (noArgs\<lparr>a_for := Some ''selector''\<rparr>) = None \<or>
          a_url (noArgs\<lparr>a_for := Some ''selector''\<rparr>) = Some [] \<or>
          (\<exists>u. a_url (noArgs\<lparr>a_for := Some ''selector''\<rparr>) = Some u \<and>
             isl (guardNavigation (parseURL calmEnv) u (options openEyes)))) \<or>
       ''wait'' = ''type'' \<and>
         (a_selector (noArgs\<lparr>a_for := Some ''selector''\<rparr>) = None \<or>
          a_selector (noArgs\<lparr>a_for := Some ''selector''\<rparr>) = Some []))"
    and nd: "\<not> (''click'' = ''navigate'' \<and>
         (a_url noArgs = None \<or> a_url noArgs = Some [] \<or>
          (\<exists>u. a_url noArgs = Some u \<and>
             isl (guardNavigation (parseURL calmEnv) u (options openEyes)))) \<or>
       ''click'' = ''type'' \<and> (a_selector noArgs = None \<or> a_selector noArgs = Some []))"
    by simp_all
  have re: "''type'' = ''navigate'' \<and>
         (a_url (noArgs\<lparr>a_text := Some ''hello''\<rparr>) = None \<or>
          a_url (noArgs\<lparr>a_text := Some ''hello''\<rparr>) = Some [] \<or>
          (\<exists>u. a_url (noArgs\<lparr>a_text := Some ''hello''\<rparr>) = Some u \<and>
             isl (guardNavigation (parseURL calmEnv) u (options openEyes)))) \<or>
       ''type'' = ''type'' \<and>
         (a_selector (noArgs\<lparr>a_text := Some ''hello''\<rparr>) = None \<or>
          a_selector (noArgs\<lparr>a_text := Some ''hello''\<rparr>) = Some [])"
    by (simp add: noArgs_def)
  have g: "guardNavigation (parseURL calmEnv) ''http://LOCALHOST:8000/'' (options openEyes) =
      Inl (EyesError SECURITY_BLOCKED ''Blocked private/loopback host: localhost'' None)"
    by (simp add: calmEnv_def openEyes_eq guardNavigation_def sampleURL_def newEyesError_def
        guard_defs)
  have f: "dispatch calmEnv ''navigate'' (noArgs\<lparr>a_url := Some ''http://LOCALHOST:8000/''\<rparr>)
      openEyes =
      (Inl (EyesError SECURITY_BLOCKED ''Blocked private/loopback host: localhost'' None),
       openEyes)"
    by (simp add: dispatch_def eyes_navigate_def p truthy_def strOr_def noArgs_def g)
  have rf: "''navigate'' = ''navigate'' \<and>
         (a_url (noArgs\<lparr>a_url := Some ''http://LOCALHOST:8000/''\<rparr>) = None \<or>
          a_url (noArgs\<lparr>a_url := Some ''http://LOCALHOST:8000/''\<rparr>) = Some [] \<or>
          (\<exists>u. a_url (noArgs\<lparr>a_url := Some ''http://LOCALHOST:8000/''\<rparr>) = Some u \<and>
             isl (guardNavigation (parseURL calmEnv) u (options openEyes)))) \<or>
       ''navigate'' = ''type'' \<and>
         (a_selector (noArgs\<lparr>a_url := Some ''http://LOCALHOST:8000/''\<rparr>) = None \<or>
          a_selector (noArgs\<lparr>a_url := Some ''http://LOCALHOST:8000/''\<rparr>) = Some [])"
    by (simp add: noArgs_def g)
  note rg = action_counted_once [OF p navigate f refl, THEN conjunct1, THEN mp, OF rf,
      THEN conjunct2]
  note ra = action_counted_once [OF p click a refl, THEN conjunct2, THEN conjunct1, THEN mp, OF na,
      THEN conjunct1, rule_format, OF refl]
  note rb = action_counted_once [OF p click b refl, THEN conjunct2, THEN conjunct1, THEN mp, OF nb,
      THEN conjunct2, rule_format, OF refl]
  note rc = action_counted_once [OF p wait c refl, THEN conjunct2, THEN conjunct1, THEN mp, OF nc,
      THEN conjunct2, rule_format, OF refl]
  note rd = action_counted_once [OF p click d refl, THEN conjunct2, THEN conjunct1, THEN mp, OF nd,
      THEN conjunct2, rule_format, OF refl]
  note rr = action_counted_once [OF p type e refl, THEN conjunct1, THEN mp, OF re,
      THEN conjunct2]
  show ?thesis
    unfolding a b c d e f using ra rb rc rd rr rg by (simp add: m0 c0)
qed

subsection \<open>DOM serialisation\<close>

lemma childLoop_bound:
  "length acc \<le> 1000 \<Longrightarrow> length (childLoop f cs acc) \<le> 1001"
proof (induction cs arbitrary: acc)
  case Nil
  then show ?case by simp
next
  case (Cons c cs)
  show ?case
  proof (cases "f c")
    case None
    then show ?thesis
      using Cons by (simp add: Let_def)
  next
    case (Some ci)
    show ?thesis
    proof (cases "length acc < 1000")
      case True
      then have "length (childLoop f cs (acc @ [ci])) \<le> 1001"
        by (intro Cons.IH) simp
      then show ?thesis
        using Some True by (simp add: Let_def)
    next
      case False
      then show ?thesis
        using Some Cons.prems by (simp add: Let_def)
    qed
  qed
qed

lemma childLoop_replicate:
  assumes "f c = Some ci" and "length acc \<le> 1000"
  shows "childLoop f (replicate n c) acc = acc @ replicate (min n (1001 - length acc)) ci"
  using assms(2)
proof (induction n arbitrary: acc)
  case 0
  show ?case by simp
next
  case (Suc n)
  show ?case
  proof (cases "length acc < 1000")
    case True
    then have "childLoop f (replicate n c) (acc @ [ci]) =
        (acc @ [ci]) @ replicate (min n (1001 - length (acc @ [ci]))) ci"
      by (intro Suc.IH) simp
    moreover have "min (Suc n) (1001 - length acc) = Suc (min n (1001 - length (acc @ [ci])))"
      using True by auto
    ultimately show ?thesis
      using assms(1) True by (simp add: Let_def)
  next
    case False
    then have "length acc = 1000"
      using Suc.prems by simp
    then show ?thesis
      using assms(1) by (simp add: Let_def)
  qed
qed

lemma nodeInfo_some: "depth \<le> maxDepth \<Longrightarrow> nodeInfo maxDepth plaintext n depth \<noteq> None"
  by (subst nodeInfo.simps) simp

lemma nodeInfo_children_bound:
  "nodeInfo maxDepth plaintext n depth = Some i \<Longrightarrow> length (children i) \<le> 1001"
  by (subst (asm) nodeInfo.simps) (auto simp: childLoop_bound split: if_splits)

lemma nodeInfo_text_bound:
  "nodeInfo maxDepth plaintext n depth = Some i \<Longrightarrow> itext i = Some t \<Longrightarrow> length t \<le> 2000"
  by (subst (asm) nodeInfo.simps) (auto split: if_splits)

lemma nodeInfo_plaintext_element:
  "depth \<le> maxDepth \<Longrightarrow> nodeType n = 1 \<Longrightarrow>
   map_option itext (nodeInfo maxDepth True n depth) =
     Some (Some (take 2000 (case innerText n of Some t \<Rightarrow> t | None \<Rightarrow> [])))"
  by (subst nodeInfo.simps) simp

lemma clampDepth_range: "1 \<le> clampDepth opts \<and> clampDepth opts \<le> 10"
  by (auto simp: clampDepth_def split: option.split)

lemma listItem_info:
  "nodeInfo 2 True listItem (Suc (Suc 0)) = Some (Info ''li'' [] (Some ''item'') [])"
  by (subst nodeInfo.simps) (simp add: listItem_def lowerChar_def attrsOf_def)

text \<open>
  Claim C9, at the input where it fails. An element with 1500 children, serialised in
  plaintext mode to depth 2, comes out with 1001 children: the loop stops once the list
  is longer than 1000, that is after the 1001st child. (The depth is clamped to 1..10
  and the text of an element is its inner text cut to 2000 characters, as the lemmas
  above say.)
\<close>

theorem serializeDOM_keeps_1001_children:
  "serializeInPage \<lparr>o_maxDepth = Some 2, o_plaintext = Some True\<rparr> (Some longList) =
     Some (Info ''ul'' [(''id'', ''menu'')] (Some ''items'')
             (replicate 1001 (Info ''li'' [] (Some ''item'') [])))"
proof -
  have c: "childLoop (\<lambda>c. nodeInfo 2 True c (Suc (Suc 0))) (replicate 1500 listItem) [] =
      replicate 1001 (Info ''li'' [] (Some ''item'') [])"
    using childLoop_replicate
      [where f = "\<lambda>c. nodeInfo 2 True c (Suc (Suc 0))" and c = listItem and acc = "[]"
        and n = 1500, OF listItem_info]
    by simp
  have "nodeInfo 2 True longList 1 =
      Some (Info ''ul'' [(''id'', ''menu'')] (Some ''items'')
             (replicate 1001 (Info ''li'' [] (Some ''item'') [])))"
    by (subst nodeInfo.simps) (simp add: longList_def lowerChar_def attrsOf_def c)
  then show ?thesis
    by (simp add: serializeInPage_def clampDepth_def)
qed

subsection \<open>Pixel difference\<close>

lemma diff_self:
  assumes "\<not> setupThrows pg" and "decodeImage pg u = Some img"
    and "imgWidth pg img \<noteq> 0"
  shows "diffDataURLs pg u u opts = Some 0"
proof -
  have "\<not> changedAt d d i" for d i
    by (simp add: changedAt_def px_def)
  then have "filter (changedAt d d) xs = []" for d xs
    by (induction xs) simp_all
  then show ?thesis
    using assms by (simp add: diffDataURLs_def Let_def)
qed

lemma ratio_range:
  "0 \<le> rat_of_nat (length (filter P xs)) / rat_of_nat (length xs) \<and>
   rat_of_nat (length (filter P xs)) / rat_of_nat (length xs) \<le> 1"
proof (cases "length xs = 0")
  case True
  then show ?thesis by simp
next
  case False
  have "rat_of_nat (length (filter P xs)) \<le> rat_of_nat (length xs)"
    by simp
  then show ?thesis
    using False by (simp add: divide_le_eq_1)
qed

lemma diff_range:
  assumes "diffDataURLs pg a b opts = Some r"
  shows "0 \<le> r \<and> r \<le> 1"
proof (cases "setupThrows pg")
  case True
  then show ?thesis
    using assms by (simp add: diffDataURLs_def Let_def)
next
  case False
  show ?thesis
  proof (cases "decodeImage pg a")
    case None
    then show ?thesis
      using assms False by (simp add: diffDataURLs_def Let_def)
  next
    case A: (Some imgA)
    show ?thesis
    proof (cases "decodeImage pg b")
      case None
      then show ?thesis
        using assms False A by (simp add: diffDataURLs_def Let_def)
    next
      case B: (Some imgB)
      show ?thesis
      proof (cases "imgWidth pg imgA = 0")
        case True
        then show ?thesis
          using assms False A B by (simp add: diffDataURLs_def Let_def)
      next
        case W: False
        define stride where
          "stride = nat (max 1 (case sampleStride opts of None \<Rightarrow> 2 | Some v \<Rightarrow> v))"
        define w where "w = nat (max 32 (case resizeWidth opts of None \<Rightarrow> 256 | Some v \<Rightarrow> v))"
        define h where "h = max 32 (nat \<lfloor>rat_of_nat (imgHeight pg imgA) *
                                     (rat_of_nat w / rat_of_nat (imgWidth pg imgA))\<rfloor>)"
        define idx where "idx = sampleIndices w h stride"
        define P where "P = changedAt (getImageData pg imgA w h) (getImageData pg imgB w h)"
        have "diffDataURLs pg a b opts =
            Some (if length idx \<noteq> 0
                  then rat_of_nat (length (filter P idx)) / rat_of_nat (length idx) else 0)"
          using False A B W
          unfolding diffDataURLs_def Let_def idx_def P_def h_def w_def stride_def
          by simp
        then have "r = (if length idx \<noteq> 0
                  then rat_of_nat (length (filter P idx)) / rat_of_nat (length idx) else 0)"
          using assms by simp
        then show ?thesis
          using ratio_range [of P idx] by (cases "length idx = 0") simp_all
      qed
    qed
  qed
qed

lemma diff_undecodable:
  "\<not> setupThrows pg \<Longrightarrow> decodeImage pg a = None \<or> decodeImage pg b = None \<Longrightarrow>
   diffDataURLs pg a b opts = None"
  by (auto simp: diffDataURLs_def Let_def split: option.splits)

lemma samplePage_decode:
  "\<not> setupThrows samplePage"
  "decodeImage samplePage ''data:image/png;base64,AAAA'' = None"
  "decodeImage samplePage ''data:image/png;base64,iVBORw0KGgo='' = Some (640, 480)"
  by (simp_all add: samplePage_def)

text \<open>
  Claim C10, at the input where it fails. When one of the two URLs does not decode, the
  promise built in the page is never resolved and the call never returns; it does not
  return 1. (An image against itself gives 0, and every ratio returned lies between 0
  and 1, as the lemmas above say.)
\<close>

theorem diff_of_undecodable_image_never_returns:
  "decodeImage samplePage ''data:image/png;base64,AAAA'' = None \<and>
   diffDataURLs samplePage ''data:image/png;base64,AAAA'' ''data:image/png;base64,iVBORw0KGgo=''
     \<lparr>sampleStride = Some 3, resizeWidth = Some 256\<rparr> = None \<and>
   diffDataURLs samplePage ''data:image/png;base64,iVBORw0KGgo='' ''data:image/png;base64,AAAA''
     \<lparr>sampleStride = Some 3, resizeWidth = Some 256\<rparr> = None"
  using samplePage_decode(2)
    diff_undecodable [OF samplePage_decode(1), of "''data:image/png;base64,AAAA''"
      "''data:image/png;base64,iVBORw0KGgo=''"]
    diff_undecodable [OF samplePage_decode(1), of "''data:image/png;base64,iVBORw0KGgo=''"
      "''data:image/png;base64,AAAA''"]
  by blast

end
